theory Spec2Isabelle
  imports Main "HOL-Library.Word" "HOL-Library.Monad_Syntax"
begin

unbundle bit_operations_syntax

section \<open>The crypt(3) DES engine of passlib (src/des.c)\<close>

text \<open>
  A shallow embedding of \<^verbatim>\<open>des.c\<close>. C's \<^verbatim>\<open>uint8_t\<close> and \<^verbatim>\<open>uint32_t\<close> are words of
  that width; the \<^verbatim>\<open>int\<close> loop counters and bit numbers, which never leave
  \<open>0 .. 4095\<close>, are natural numbers; the \<^verbatim>\<open>long\<close> arguments \<^verbatim>\<open>salt\<close> and
  \<^verbatim>\<open>count\<close> are integers. Arrays are lists. The file-level \<^verbatim>\<open>static\<close> tables
  that \<^verbatim>\<open>des_init_tables\<close> fills in form the record \<open>des_state\<close>, passed and
  returned explicitly.
\<close>

type_synonym u8 = "8 word"
type_synonym u32 = "32 word"

subsection \<open>Static tables\<close>

definition IP_tab :: "u8 list" where
  "IP_tab =
    [58, 50, 42, 34, 26, 18, 10, 2, 60, 52, 44, 36, 28, 20, 12, 4,
     62, 54, 46, 38, 30, 22, 14, 6, 64, 56, 48, 40, 32, 24, 16, 8,
     57, 49, 41, 33, 25, 17, 9, 1, 59, 51, 43, 35, 27, 19, 11, 3,
     61, 53, 45, 37, 29, 21, 13, 5, 63, 55, 47, 39, 31, 23, 15, 7]"

definition key_perm :: "u8 list" where
  "key_perm =
    [57, 49, 41, 33, 25, 17, 9, 1, 58, 50, 42, 34, 26, 18, 10, 2,
     59, 51, 43, 35, 27, 19, 11, 3, 60, 52, 44, 36, 63, 55, 47, 39,
     31, 23, 15, 7, 62, 54, 46, 38, 30, 22, 14, 6, 61, 53, 45, 37,
     29, 21, 13, 5, 28, 20, 12, 4]"

definition key_shifts :: "u8 list" where
  "key_shifts =
    [1, 1, 2, 2, 2, 2, 2, 2, 1, 2, 2, 2, 2, 2, 2, 1]"

definition comp_perm :: "u8 list" where
  "comp_perm =
    [14, 17, 11, 24, 1, 5, 3, 28, 15, 6, 21, 10, 23, 19, 12, 4,
     26, 8, 16, 7, 27, 20, 13, 2, 41, 52, 31, 37, 47, 55, 30, 40,
     51, 45, 33, 48, 44, 49, 39, 56, 34, 53, 46, 42, 50, 36, 29, 32]"

definition pbox :: "u8 list" where
  "pbox =
    [16, 7, 20, 21, 29, 12, 28, 17, 1, 15, 23, 26, 5, 18, 31, 10,
     2, 8, 24, 14, 32, 27, 3, 9, 19, 13, 30, 6, 22, 11, 4, 25]"

definition bits32 :: "u32 list" where
  "bits32 =
    [0x80000000, 0x40000000, 0x20000000, 0x10000000,
     0x08000000, 0x04000000, 0x02000000, 0x01000000,
     0x00800000, 0x00400000, 0x00200000, 0x00100000,
     0x00080000, 0x00040000, 0x00020000, 0x00010000,
     0x00008000, 0x00004000, 0x00002000, 0x00001000,
     0x00000800, 0x00000400, 0x00000200, 0x00000100,
     0x00000080, 0x00000040, 0x00000020, 0x00000010,
     0x00000008, 0x00000004, 0x00000002, 0x00000001]"

definition bits8 :: "u8 list" where
  "bits8 =
    [0x80, 0x40, 0x20, 0x10, 0x08, 0x04, 0x02, 0x01]"

definition sbox :: "u8 list list" where
  "sbox =
   [[14, 4, 13, 1, 2, 15, 11, 8, 3, 10, 6, 12, 5, 9, 0, 7,
     0, 15, 7, 4, 14, 2, 13, 1, 10, 6, 12, 11, 9, 5, 3, 8,
     4, 1, 14, 8, 13, 6, 2, 11, 15, 12, 9, 7, 3, 10, 5, 0,
     15, 12, 8, 2, 4, 9, 1, 7, 5, 11, 3, 14, 10, 0, 6, 13],
    [15, 1, 8, 14, 6, 11, 3, 4, 9, 7, 2, 13, 12, 0, 5, 10,
     3, 13, 4, 7, 15, 2, 8, 14, 12, 0, 1, 10, 6, 9, 11, 5,
     0, 14, 7, 11, 10, 4, 13, 1, 5, 8, 12, 6, 9, 3, 2, 15,
     13, 8, 10, 1, 3, 15, 4, 2, 11, 6, 7, 12, 0, 5, 14, 9],
    [10, 0, 9, 14, 6, 3, 15, 5, 1, 13, 12, 7, 11, 4, 2, 8,
     13, 7, 0, 9, 3, 4, 6, 10, 2, 8, 5, 14, 12, 11, 15, 1,
     13, 6, 4, 9, 8, 15, 3, 0, 11, 1, 2, 12, 5, 10, 14, 7,
     1, 10, 13, 0, 6, 9, 8, 7, 4, 15, 14, 3, 11, 5, 2, 12],
    [7, 13, 14, 3, 0, 6, 9, 10, 1, 2, 8, 5, 11, 12, 4, 15,
     13, 8, 11, 5, 6, 15, 0, 3, 4, 7, 2, 12, 1, 10, 14, 9,
     10, 6, 9, 0, 12, 11, 7, 13, 15, 1, 3, 14, 5, 2, 8, 4,
     3, 15, 0, 6, 10, 1, 13, 8, 9, 4, 5, 11, 12, 7, 2, 14],
    [2, 12, 4, 1, 7, 10, 11, 6, 8, 5, 3, 15, 13, 0, 14, 9,
     14, 11, 2, 12, 4, 7, 13, 1, 5, 0, 15, 10, 3, 9, 8, 6,
     4, 2, 1, 11, 10, 13, 7, 8, 15, 9, 12, 5, 6, 3, 0, 14,
     11, 8, 12, 7, 1, 14, 2, 13, 6, 15, 0, 9, 10, 4, 5, 3],
    [12, 1, 10, 15, 9, 2, 6, 8, 0, 13, 3, 4, 14, 7, 5, 11,
     10, 15, 4, 2, 7, 12, 9, 5, 6, 1, 13, 14, 0, 11, 3, 8,
     9, 14, 15, 5, 2, 8, 12, 3, 7, 0, 4, 10, 1, 13, 11, 6,
     4, 3, 2, 12, 9, 5, 15, 10, 11, 14, 1, 7, 6, 0, 8, 13],
    [4, 11, 2, 14, 15, 0, 8, 13, 3, 12, 9, 7, 5, 10, 6, 1,
     13, 0, 11, 7, 4, 9, 1, 10, 14, 3, 5, 12, 2, 15, 8, 6,
     1, 4, 11, 13, 12, 3, 7, 14, 10, 15, 6, 8, 0, 5, 9, 2,
     6, 11, 13, 8, 1, 4, 10, 7, 9, 5, 0, 15, 14, 2, 3, 12],
    [13, 2, 8, 4, 6, 15, 11, 1, 10, 9, 3, 14, 5, 0, 12, 7,
     1, 15, 13, 8, 10, 3, 7, 4, 12, 5, 6, 11, 0, 14, 9, 2,
     7, 11, 4, 1, 9, 12, 14, 2, 0, 6, 10, 13, 15, 3, 5, 8,
     2, 1, 14, 7, 4, 10, 8, 13, 15, 12, 9, 0, 3, 5, 6, 11]]"

text \<open>
  \<^verbatim>\<open>bits24 = (bits28 = bits32 + 4) + 4\<close>: both pointers alias \<open>bits32\<close>, so
  \<^verbatim>\<open>bits28[n]\<close> is \<^verbatim>\<open>bits32[n + 4]\<close> and \<^verbatim>\<open>bits24[n]\<close> is \<^verbatim>\<open>bits32[n + 8]\<close>.
\<close>

definition bits28 :: "nat \<Rightarrow> u32" where
  "bits28 n = bits32 ! (n + 4)"

definition bits24 :: "nat \<Rightarrow> u32" where
  "bits24 n = bits32 ! (n + 8)"

subsection \<open>Derived tables\<close>

record des_state =
  des_initialised :: int
  inv_key_perm :: "u8 list"
  inv_comp_perm :: "u8 list"
  u_sbox :: "u8 list list"
  un_pbox :: "u8 list"
  init_perm :: "u8 list"
  final_perm :: "u8 list"
  m_sbox :: "u8 list list"
  psbox :: "u32 list list"
  ip_maskl :: "u32 list list"
  ip_maskr :: "u32 list list"
  fp_maskl :: "u32 list list"
  fp_maskr :: "u32 list list"
  key_perm_maskl :: "u32 list list"
  key_perm_maskr :: "u32 list list"
  comp_maskl :: "u32 list list"
  comp_maskr :: "u32 list list"

text \<open>The state at program start: objects of static storage duration are zeroed.\<close>

definition des_static_init :: des_state where
  "des_static_init =
     \<lparr>des_initialised = 0,
      inv_key_perm = replicate 64 0,
      inv_comp_perm = replicate 56 0,
      u_sbox = replicate 8 (replicate 64 0),
      un_pbox = replicate 32 0,
      init_perm = replicate 64 0,
      final_perm = replicate 64 0,
      m_sbox = replicate 4 (replicate 4096 0),
      psbox = replicate 4 (replicate 256 0),
      ip_maskl = replicate 8 (replicate 256 0),
      ip_maskr = replicate 8 (replicate 256 0),
      fp_maskl = replicate 8 (replicate 256 0),
      fp_maskr = replicate 8 (replicate 256 0),
      key_perm_maskl = replicate 8 (replicate 128 0),
      key_perm_maskr = replicate 8 (replicate 128 0),
      comp_maskl = replicate 8 (replicate 128 0),
      comp_maskr = replicate 8 (replicate 128 0)\<rparr>"

subsection \<open>\<^verbatim>\<open>des_init_tables\<close>\<close>

text \<open>
  Each loop nest of \<^verbatim>\<open>des_init_tables\<close> is one definition. A nest that assigns
  every element \<^verbatim>\<open>t[k][i]\<close> in index order from values that do not depend on \<open>t\<close> is
  the list of those values; a nest that stores through a computed index is a
  \<open>fold\<close> of list updates over the array as it was.
\<close>

text \<open>\<^verbatim>\<open>b = (j & 0x20) | ((j & 1) << 4) | ((j >> 1) & 0xf)\<close>\<close>

definition sbox_index :: "nat \<Rightarrow> nat" where
  "sbox_index j = (j AND 0x20) OR push_bit 4 (j AND 1) OR (drop_bit 1 j AND 0xf)"

definition invert_sboxes :: "u8 list list" where
  "invert_sboxes = map (\<lambda>i. map (\<lambda>j. sbox ! i ! sbox_index j) [0..<64]) [0..<8]"

text \<open>
  \<^verbatim>\<open>m_sbox[b][(i << 6) | j] = (uint8_t)((u_sbox[(b << 1)][i] << 4) | u_sbox[(b << 1) + 1][j])\<close>:
  the operands are promoted, the result is cut back to eight bits.
\<close>

definition m_sbox_value :: "u8 list list \<Rightarrow> nat \<Rightarrow> nat \<Rightarrow> nat \<Rightarrow> u8" where
  "m_sbox_value us b i j =
     ucast (push_bit 4 (ucast (us ! push_bit 1 b ! i) :: u32) OR ucast (us ! (push_bit 1 b + 1) ! j))"

definition merge_sboxes :: "u8 list list \<Rightarrow> u8 list list \<Rightarrow> u8 list list" where
  "merge_sboxes us ms =
     map (\<lambda>b. fold (\<lambda>i. fold (\<lambda>j row. row[push_bit 6 i OR j := m_sbox_value us b i j]) [0..<64])
                [0..<64] (ms ! b))
         [0..<4]"

text \<open>
  \<^verbatim>\<open>init_perm[final_perm[i] = IP[i] - 1] = (uint8_t)i; inv_key_perm[i] = 255;\<close>
  on the triple (\<open>init_perm\<close>, \<open>final_perm\<close>, \<open>inv_key_perm\<close>).
\<close>

definition setup_perms :: "u8 list \<times> u8 list \<times> u8 list \<Rightarrow> u8 list \<times> u8 list \<times> u8 list" where
  "setup_perms =
     fold (\<lambda>i (ip, fp, ikp).
             let fp' = fp[i := IP_tab ! i - 1]
             in (ip[unat (fp' ! i) := of_nat i], fp', ikp[i := 255]))
          [0..<64]"

text \<open>
  \<^verbatim>\<open>inv_key_perm[key_perm[i] - 1] = (uint8_t)i; inv_comp_perm[i] = 255;\<close>
  No entry of \<open>key_perm\<close>, \<open>comp_perm\<close> or \<open>pbox\<close> is 0, so the subtraction
  on naturals is the one of C on \<^verbatim>\<open>int\<close>.
\<close>

definition invert_key_perm :: "u8 list \<times> u8 list \<Rightarrow> u8 list \<times> u8 list" where
  "invert_key_perm =
     fold (\<lambda>i (ikp, icp). (ikp[unat (key_perm ! i) - 1 := of_nat i], icp[i := 255])) [0..<56]"

definition invert_comp_perm :: "u8 list \<Rightarrow> u8 list" where
  "invert_comp_perm = fold (\<lambda>i icp. icp[unat (comp_perm ! i) - 1 := of_nat i]) [0..<48]"

text \<open>
  The body of the \<open>j\<close> loop for one entry of the initial and final permutation
  OR-masks, on (\<^verbatim>\<open>*il\<close>, \<^verbatim>\<open>*ir\<close>, \<^verbatim>\<open>*fl\<close>, \<^verbatim>\<open>*fr\<close>).
\<close>

definition ip_fp_bit ::
  "u8 list \<Rightarrow> u8 list \<Rightarrow> nat \<Rightarrow> nat \<Rightarrow> nat \<Rightarrow> u32 \<times> u32 \<times> u32 \<times> u32 \<Rightarrow> u32 \<times> u32 \<times> u32 \<times> u32" where
  "ip_fp_bit ip fp k i j = (\<lambda>(il, ir, fl, fr).
     let inbit = 8 * k + j in
     if i AND unat (bits8 ! j) \<noteq> 0 then
       let obit = unat (ip ! inbit);
           (il, ir) = (if obit < 32 then (il OR bits32 ! obit, ir)
                       else (il, ir OR bits32 ! (obit - 32)));
           obit = unat (fp ! inbit);
           (fl, fr) = (if obit < 32 then (fl OR bits32 ! obit, fr)
                       else (fl, fr OR bits32 ! (obit - 32)))
       in (il, ir, fl, fr)
     else (il, ir, fl, fr))"

definition ip_fp_entry :: "u8 list \<Rightarrow> u8 list \<Rightarrow> nat \<Rightarrow> nat \<Rightarrow> u32 \<times> u32 \<times> u32 \<times> u32" where
  "ip_fp_entry ip fp k i = fold (ip_fp_bit ip fp k i) [0..<8] (0, 0, 0, 0)"

text \<open>
  The same for the key permutation (28-bit halves, seven bits of each key byte);
  \<^verbatim>\<open>continue\<close> on the sentinel 255 leaves both masks as they are.
\<close>

definition key_perm_bit :: "u8 list \<Rightarrow> nat \<Rightarrow> nat \<Rightarrow> nat \<Rightarrow> u32 \<times> u32 \<Rightarrow> u32 \<times> u32" where
  "key_perm_bit ikp k i j = (\<lambda>(il, ir).
     let inbit = 8 * k + j in
     if i AND unat (bits8 ! (j + 1)) \<noteq> 0 then
       let obit = unat (ikp ! inbit) in
       if obit = 255 then (il, ir)
       else if obit < 28 then (il OR bits28 obit, ir)
       else (il, ir OR bits28 (obit - 28))
     else (il, ir))"

definition key_perm_entry :: "u8 list \<Rightarrow> nat \<Rightarrow> nat \<Rightarrow> u32 \<times> u32" where
  "key_perm_entry ikp k i = fold (key_perm_bit ikp k i) [0..<7] (0, 0)"

text \<open>And for the compression permutation (24-bit halves, \<^verbatim>\<open>inbit = 7 * k + j\<close>).\<close>

definition comp_bit :: "u8 list \<Rightarrow> nat \<Rightarrow> nat \<Rightarrow> nat \<Rightarrow> u32 \<times> u32 \<Rightarrow> u32 \<times> u32" where
  "comp_bit icp k i j = (\<lambda>(il, ir).
     let inbit = 7 * k + j in
     if i AND unat (bits8 ! (j + 1)) \<noteq> 0 then
       let obit = unat (icp ! inbit) in
       if obit = 255 then (il, ir)
       else if obit < 24 then (il OR bits24 obit, ir)
       else (il, ir OR bits24 (obit - 24))
     else (il, ir))"

definition comp_entry :: "u8 list \<Rightarrow> nat \<Rightarrow> nat \<Rightarrow> u32 \<times> u32" where
  "comp_entry icp k i = fold (comp_bit icp k i) [0..<7] (0, 0)"

text \<open>\<^verbatim>\<open>un_pbox[pbox[i] - 1] = (uint8_t)i\<close>\<close>

definition invert_pbox :: "u8 list \<Rightarrow> u8 list" where
  "invert_pbox = fold (\<lambda>i up. up[unat (pbox ! i) - 1 := of_nat i]) [0..<32]"

text \<open>\<^verbatim>\<open>if (i & bits8[j]) *p |= bits32[un_pbox[8 * b + j]]\<close>\<close>

definition psbox_entry :: "u8 list \<Rightarrow> nat \<Rightarrow> nat \<Rightarrow> u32" where
  "psbox_entry up b i =
     fold (\<lambda>j p. if i AND unat (bits8 ! j) \<noteq> 0 then p OR bits32 ! unat (up ! (8 * b + j)) else p)
          [0..<8] 0"

definition des_init_tables :: "des_state \<Rightarrow> des_state" where
  "des_init_tables s =
     (if des_initialised s \<noteq> 0 then s
      else
        let us = invert_sboxes;
            ms = merge_sboxes us (m_sbox s);
            (ip, fp, ikp0) = setup_perms (init_perm s, final_perm s, inv_key_perm s);
            (ikp, icp0) = invert_key_perm (ikp0, inv_comp_perm s);
            icp = invert_comp_perm icp0;
            up = invert_pbox (un_pbox s)
        in s\<lparr>u_sbox := us,
             m_sbox := ms,
             init_perm := ip,
             final_perm := fp,
             inv_key_perm := ikp,
             inv_comp_perm := icp,
             ip_maskl := map (\<lambda>k. map (\<lambda>i. fst (ip_fp_entry ip fp k i)) [0..<256]) [0..<8],
             ip_maskr := map (\<lambda>k. map (\<lambda>i. fst (snd (ip_fp_entry ip fp k i))) [0..<256]) [0..<8],
             fp_maskl := map (\<lambda>k. map (\<lambda>i. fst (snd (snd (ip_fp_entry ip fp k i)))) [0..<256]) [0..<8],
             fp_maskr := map (\<lambda>k. map (\<lambda>i. snd (snd (snd (ip_fp_entry ip fp k i)))) [0..<256]) [0..<8],
             key_perm_maskl := map (\<lambda>k. map (\<lambda>i. fst (key_perm_entry ikp k i)) [0..<128]) [0..<8],
             key_perm_maskr := map (\<lambda>k. map (\<lambda>i. snd (key_perm_entry ikp k i)) [0..<128]) [0..<8],
             comp_maskl := map (\<lambda>k. map (\<lambda>i. fst (comp_entry icp k i)) [0..<128]) [0..<8],
             comp_maskr := map (\<lambda>k. map (\<lambda>i. snd (comp_entry icp k i)) [0..<128]) [0..<8],
             un_pbox := up,
             psbox := map (\<lambda>b. map (\<lambda>i. psbox_entry up b i) [0..<256]) [0..<4],
             des_initialised := 1\<rparr>)"


subsection \<open>Array reads\<close>

text \<open>
  A read outside an array is undefined behaviour in C. In the key schedule and the round
  engine every subscript computed from data is checked: \<open>None\<close> is such a read, so a
  result \<open>Some\<close> says that none happened.
\<close>

definition rd :: "'a list \<Rightarrow> nat \<Rightarrow> 'a option" where
  "rd xs i = (if i < length xs then Some (xs ! i) else None)"

definition rd2 :: "'a list list \<Rightarrow> nat \<Rightarrow> nat \<Rightarrow> 'a option" where
  "rd2 t k i = (case rd t k of None \<Rightarrow> None | Some row \<Rightarrow> rd row i)"

subsection \<open>\<^verbatim>\<open>unpack_block\<close> and \<^verbatim>\<open>pack_block\<close>\<close>

text \<open>
  \<^verbatim>\<open>block[0] << 24\<close> shifts the promoted byte; the model takes the 32-bit pattern that
  is stored into the \<^verbatim>\<open>uint32_t\<close>.
\<close>

definition unpack_block :: "u8 list \<Rightarrow> (u32 \<times> u32) option" where
  "unpack_block block = do {
     b0 \<leftarrow> rd block 0; b1 \<leftarrow> rd block 1; b2 \<leftarrow> rd block 2; b3 \<leftarrow> rd block 3;
     b4 \<leftarrow> rd block 4; b5 \<leftarrow> rd block 5; b6 \<leftarrow> rd block 6; b7 \<leftarrow> rd block 7;
     Some (push_bit 24 (ucast b0) OR push_bit 16 (ucast b1) OR push_bit 8 (ucast b2) OR ucast b3,
           push_bit 24 (ucast b4) OR push_bit 16 (ucast b5) OR push_bit 8 (ucast b6) OR ucast b7)
   }"

definition pack_block :: "u8 list \<Rightarrow> u32 \<Rightarrow> u32 \<Rightarrow> u8 list option" where
  "pack_block block left right =
     (if length block < 8 then None
      else Some (block
        [0 := ucast (drop_bit 24 left),
         1 := ucast (drop_bit 16 left AND 0xff),
         2 := ucast (drop_bit 8 left AND 0xff),
         3 := ucast (left AND 0xff),
         4 := ucast (drop_bit 24 right),
         5 := ucast (drop_bit 16 right AND 0xff),
         6 := ucast (drop_bit 8 right AND 0xff),
         7 := ucast (right AND 0xff)]))"

subsection \<open>The context\<close>

record des_ctx =
  saltbits :: u32
  en_keysl :: "u32 list"
  en_keysr :: "u32 list"

text \<open>The two arrays of a \<^verbatim>\<open>des_ctx_t\<close> have 16 elements each.\<close>

definition des_ctx_wf :: "des_ctx \<Rightarrow> bool" where
  "des_ctx_wf ctx \<longleftrightarrow> length (en_keysl ctx) = 16 \<and> length (en_keysr ctx) = 16"

subsection \<open>\<^verbatim>\<open>des_set_salt\<close>\<close>

definition salt_step :: "u32 \<Rightarrow> nat \<Rightarrow> u32 \<times> u32 \<times> u32 \<Rightarrow> u32 \<times> u32 \<times> u32" where
  "salt_step salt i = (\<lambda>(obit, saltbit, saltbits).
     (drop_bit 1 obit, push_bit 1 saltbit,
      if salt AND saltbit \<noteq> 0 then saltbits OR obit else saltbits))"

definition des_set_salt :: "des_ctx \<Rightarrow> u32 \<Rightarrow> des_ctx" where
  "des_set_salt ctx salt =
     (let (obit, saltbit, sb) = fold (salt_step salt) [0..<24] (0x800000, 1, 0)
      in ctx\<lparr>saltbits := sb\<rparr>)"

subsection \<open>\<^verbatim>\<open>des_set_key\<close>\<close>

text \<open>
  Eight lookups in a pair of OR-mask tables, at the subscripts \<open>ix\<close>, give the two
  halves of a permuted value. The source writes each subscript twice, once for the left
  table and once for the right one.
\<close>

definition or_masks :: "u32 list list \<Rightarrow> u32 list list \<Rightarrow> nat list \<Rightarrow> (u32 \<times> u32) option" where
  "or_masks tabl tabr ix = do {
     l0 \<leftarrow> rd2 tabl 0 (ix ! 0); l1 \<leftarrow> rd2 tabl 1 (ix ! 1); l2 \<leftarrow> rd2 tabl 2 (ix ! 2); l3 \<leftarrow> rd2 tabl 3 (ix ! 3);
     l4 \<leftarrow> rd2 tabl 4 (ix ! 4); l5 \<leftarrow> rd2 tabl 5 (ix ! 5); l6 \<leftarrow> rd2 tabl 6 (ix ! 6); l7 \<leftarrow> rd2 tabl 7 (ix ! 7);
     r0 \<leftarrow> rd2 tabr 0 (ix ! 0); r1 \<leftarrow> rd2 tabr 1 (ix ! 1); r2 \<leftarrow> rd2 tabr 2 (ix ! 2); r3 \<leftarrow> rd2 tabr 3 (ix ! 3);
     r4 \<leftarrow> rd2 tabr 4 (ix ! 4); r5 \<leftarrow> rd2 tabr 5 (ix ! 5); r6 \<leftarrow> rd2 tabr 6 (ix ! 6); r7 \<leftarrow> rd2 tabr 7 (ix ! 7);
     Some (l0 OR l1 OR l2 OR l3 OR l4 OR l5 OR l6 OR l7,
           r0 OR r1 OR r2 OR r3 OR r4 OR r5 OR r6 OR r7)
   }"

text \<open>
  \<^verbatim>\<open>rawkey0 >> 25, (rawkey0 >> 17) & 0x7f, (rawkey0 >> 9) & 0x7f, (rawkey0 >> 1) & 0x7f\<close>
  and the same of \<^verbatim>\<open>rawkey1\<close>.
\<close>

definition key_perm_index :: "u32 \<Rightarrow> u32 \<Rightarrow> nat list" where
  "key_perm_index rawkey0 rawkey1 =
     [unat (drop_bit 25 rawkey0), unat (drop_bit 17 rawkey0 AND 0x7f),
      unat (drop_bit 9 rawkey0 AND 0x7f), unat (drop_bit 1 rawkey0 AND 0x7f),
      unat (drop_bit 25 rawkey1), unat (drop_bit 17 rawkey1 AND 0x7f),
      unat (drop_bit 9 rawkey1 AND 0x7f), unat (drop_bit 1 rawkey1 AND 0x7f)]"

text \<open>\<^verbatim>\<open>(t0 >> 21) & 0x7f, (t0 >> 14) & 0x7f, (t0 >> 7) & 0x7f, t0 & 0x7f\<close> and the same of \<^verbatim>\<open>t1\<close>.\<close>

definition comp_index :: "u32 \<Rightarrow> u32 \<Rightarrow> nat list" where
  "comp_index t0 t1 =
     [unat (drop_bit 21 t0 AND 0x7f), unat (drop_bit 14 t0 AND 0x7f),
      unat (drop_bit 7 t0 AND 0x7f), unat (t0 AND 0x7f),
      unat (drop_bit 21 t1 AND 0x7f), unat (drop_bit 14 t1 AND 0x7f),
      unat (drop_bit 7 t1 AND 0x7f), unat (t1 AND 0x7f)]"

text \<open>One pass of the \<^verbatim>\<open>round\<close> loop, on (\<^verbatim>\<open>shifts\<close>, \<^verbatim>\<open>*ctx\<close>).\<close>

definition key_round :: "des_state \<Rightarrow> u32 \<Rightarrow> u32 \<Rightarrow> nat \<Rightarrow> nat \<times> des_ctx \<Rightarrow> (nat \<times> des_ctx) option" where
  "key_round s k0 k1 round = (\<lambda>(shifts, ctx). do {
     ks \<leftarrow> rd key_shifts round;
     let shifts = shifts + unat ks;
     let t0 = push_bit shifts k0 OR drop_bit (28 - shifts) k0;
     let t1 = push_bit shifts k1 OR drop_bit (28 - shifts) k1;
     (kl, kr) \<leftarrow> or_masks (comp_maskl s) (comp_maskr s) (comp_index t0 t1);
     if round < length (en_keysl ctx) \<and> round < length (en_keysr ctx)
     then Some (shifts, ctx\<lparr>en_keysl := (en_keysl ctx)[round := kl],
                            en_keysr := (en_keysr ctx)[round := kr]\<rparr>)
     else None
   })"

fun key_rounds :: "des_state \<Rightarrow> u32 \<Rightarrow> u32 \<Rightarrow> nat list \<Rightarrow> nat \<times> des_ctx \<Rightarrow> (nat \<times> des_ctx) option" where
  "key_rounds s k0 k1 [] st = Some st"
| "key_rounds s k0 k1 (round # rounds) st =
     (case key_round s k0 k1 round st of
        None \<Rightarrow> None
      | Some st' \<Rightarrow> key_rounds s k0 k1 rounds st')"

text \<open>The result \<^verbatim>\<open>0\<close> of \<^verbatim>\<open>des_set_key\<close>, which its caller drops, is left out.\<close>

definition des_set_key :: "des_state \<Rightarrow> des_ctx \<Rightarrow> u8 list \<Rightarrow> (des_state \<times> des_ctx) option" where
  "des_set_key s0 ctx key = do {
     let s = des_init_tables s0;
     (rawkey0, rawkey1) \<leftarrow> unpack_block key;
     (k0, k1) \<leftarrow> or_masks (key_perm_maskl s) (key_perm_maskr s) (key_perm_index rawkey0 rawkey1);
     (shifts, ctx') \<leftarrow> key_rounds s k0 k1 [0..<16] (0, ctx);
     Some (s, ctx')
   }"

subsection \<open>\<^verbatim>\<open>do_des\<close>\<close>

text \<open>
  The variables of the round loops. \<open>rounds_run\<close> and \<open>reps_run\<close> are not in the
  source: they count the passes through the body of the inner and of the outer loop, and
  nothing reads them.
\<close>

record des_regs =
  reg_l :: u32
  reg_r :: u32
  reg_f :: u32
  rounds_run :: nat
  reps_run :: nat

text \<open>\<^verbatim>\<open>lt >> 24, (lt >> 16) & 0xff, (lt >> 8) & 0xff, lt & 0xff\<close> and the same of \<^verbatim>\<open>rt\<close>.\<close>

definition byte_index :: "u32 \<Rightarrow> u32 \<Rightarrow> nat list" where
  "byte_index lt rt =
     [unat (drop_bit 24 lt), unat (drop_bit 16 lt AND 0xff),
      unat (drop_bit 8 lt AND 0xff), unat (lt AND 0xff),
      unat (drop_bit 24 rt), unat (drop_bit 16 rt AND 0xff),
      unat (drop_bit 8 rt AND 0xff), unat (rt AND 0xff)]"

definition expand_l :: "u32 \<Rightarrow> u32" where
  "expand_l r =
     push_bit 23 (r AND 0x00000001) OR drop_bit 9 (r AND 0xf8000000) OR
     drop_bit 11 (r AND 0x1f800000) OR drop_bit 13 (r AND 0x01f80000) OR
     drop_bit 15 (r AND 0x001f8000)"

definition expand_r :: "u32 \<Rightarrow> u32" where
  "expand_r r =
     push_bit 7 (r AND 0x0001f800) OR push_bit 5 (r AND 0x00001f80) OR
     push_bit 3 (r AND 0x000001f8) OR push_bit 1 (r AND 0x0000001f) OR
     drop_bit 31 (r AND 0x80000000)"

text \<open>The body of \<^verbatim>\<open>while (round--)\<close>; \<open>ki\<close> is how far \<^verbatim>\<open>kl\<close> and \<^verbatim>\<open>kr\<close> have walked.\<close>

definition des_round :: "des_state \<Rightarrow> des_ctx \<Rightarrow> nat \<Rightarrow> des_regs \<Rightarrow> des_regs option" where
  "des_round s ctx ki st = do {
     let r48l = expand_l (reg_r st);
     let r48r = expand_r (reg_r st);
     let f = (r48l XOR r48r) AND saltbits ctx;
     kl \<leftarrow> rd (en_keysl ctx) ki;
     kr \<leftarrow> rd (en_keysr ctx) ki;
     let r48l = r48l XOR (f XOR kl);
     let r48r = r48r XOR (f XOR kr);
     m0 \<leftarrow> rd2 (m_sbox s) 0 (unat (drop_bit 12 r48l));
     p0 \<leftarrow> rd2 (psbox s) 0 (unat m0);
     m1 \<leftarrow> rd2 (m_sbox s) 1 (unat (r48l AND 0xfff));
     p1 \<leftarrow> rd2 (psbox s) 1 (unat m1);
     m2 \<leftarrow> rd2 (m_sbox s) 2 (unat (drop_bit 12 r48r));
     p2 \<leftarrow> rd2 (psbox s) 2 (unat m2);
     m3 \<leftarrow> rd2 (m_sbox s) 3 (unat (r48r AND 0xfff));
     p3 \<leftarrow> rd2 (psbox s) 3 (unat m3);
     let f = p0 OR p1 OR p2 OR p3;
     let f = f XOR reg_l st;
     Some (st\<lparr>reg_l := reg_r st, reg_r := f, reg_f := f, rounds_run := rounds_run st + 1\<rparr>)
   }"

text \<open>\<^verbatim>\<open>round = 16; while (round--) ...\<close>, by recursion on \<^verbatim>\<open>round\<close>.\<close>

fun des_rounds :: "des_state \<Rightarrow> des_ctx \<Rightarrow> nat \<Rightarrow> nat \<Rightarrow> des_regs \<Rightarrow> des_regs option" where
  "des_rounds s ctx 0 ki st = Some st"
| "des_rounds s ctx (Suc round) ki st =
     (case des_round s ctx ki st of
        None \<Rightarrow> None
      | Some st' \<Rightarrow> des_rounds s ctx round (ki + 1) st')"

text \<open>
  \<^verbatim>\<open>while (count--) { ...; r = l; l = f; }\<close>. The loop is entered with \<^verbatim>\<open>count > 0\<close>
  only and counts down to 0, so the counter is a natural number.
\<close>

fun des_loop :: "des_state \<Rightarrow> des_ctx \<Rightarrow> nat \<Rightarrow> des_regs \<Rightarrow> des_regs option" where
  "des_loop s ctx 0 st = Some st"
| "des_loop s ctx (Suc count) st =
     (case des_rounds s ctx 16 0 st of
        None \<Rightarrow> None
      | Some st' \<Rightarrow>
          des_loop s ctx count (st'\<lparr>reg_r := reg_l st', reg_l := reg_f st', reps_run := reps_run st' + 1\<rparr>))"

text \<open>
  \<^verbatim>\<open>do_des\<close> returns \<^verbatim>\<open>rc\<close> and the output buffer. \<^verbatim>\<open>f\<close> is not initialised in
  the source and is assigned in the first round before it is read; it starts as 0 here.
\<close>

definition do_des :: "des_state \<Rightarrow> des_ctx \<Rightarrow> u8 list \<Rightarrow> u8 list \<Rightarrow> int \<Rightarrow> (int \<times> u8 list) option" where
  "do_des s ctx input output count =
     (if count = 0 then Some (1, output)
      else if count > 0 then do {
        (lt, rt) \<leftarrow> unpack_block input;
        (l, r) \<leftarrow> or_masks (ip_maskl s) (ip_maskr s) (byte_index lt rt);
        st \<leftarrow> des_loop s ctx (nat count)
                \<lparr>reg_l = l, reg_r = r, reg_f = 0, rounds_run = 0, reps_run = 0\<rparr>;
        (lt, rt) \<leftarrow> or_masks (fp_maskl s) (fp_maskr s) (byte_index (reg_l st) (reg_r st));
        out \<leftarrow> pack_block output lt rt;
        Some (0, out)
      }
      else Some (1, output))"

subsection \<open>\<^verbatim>\<open>des_cipher_block\<close>\<close>

text \<open>
  \<^verbatim>\<open>memset(&ctx, 0, sizeof(ctx))\<close>, as the store that the source line names. The
  object is automatic and is not read after it.
\<close>

definition memset_ctx :: "des_ctx \<Rightarrow> des_ctx" where
  "memset_ctx ctx =
     \<lparr>saltbits = 0, en_keysl = map (\<lambda>_. 0) (en_keysl ctx), en_keysr = map (\<lambda>_. 0) (en_keysr ctx)\<rparr>"

text \<open>
  \<open>s\<close> is the state of the tables at the call and \<open>ctx0\<close> what the memory of the
  local \<^verbatim>\<open>ctx\<close> holds then. \<^verbatim>\<open>salt\<close> is converted from \<^verbatim>\<open>long\<close> to \<^verbatim>\<open>uint32_t\<close>.
  The result is \<^verbatim>\<open>rc\<close>, the output buffer, the tables and what the source-level
  stores leave in \<^verbatim>\<open>ctx\<close> at the return. Only the first three are visible to a caller:
  the last is the local of a frame that ends, and nothing in C observes it.
\<close>

definition des_cipher_block ::
  "des_state \<Rightarrow> des_ctx \<Rightarrow> u8 list \<Rightarrow> u8 list \<Rightarrow> u8 list \<Rightarrow> int \<Rightarrow> int \<Rightarrow>
   (int \<times> u8 list \<times> des_state \<times> des_ctx) option" where
  "des_cipher_block s0 ctx0 key input output salt count = do {
     let s1 = (if des_initialised s0 = 0 then des_init_tables s0 else s0);
     (s, ctx1) \<leftarrow> des_set_key s1 ctx0 key;
     let ctx2 = des_set_salt ctx1 (of_int salt);
     (rc, out) \<leftarrow> do_des s ctx2 input output count;
     let ctx3 = memset_ctx ctx2;
     Some (rc, out, s, ctx3)
   }"

text \<open>
  The tables are \<^verbatim>\<open>static\<close>: only \<^verbatim>\<open>des_init_tables\<close> writes them, so they are in
  one of two states.
\<close>

definition des_tables :: des_state where
  "des_tables = des_init_tables des_static_init"

definition des_reachable :: "des_state \<Rightarrow> bool" where
  "des_reachable s \<longleftrightarrow> s = des_static_init \<or> s = des_tables"


section \<open>Verification\<close>

subsection \<open>Invariants and reference functions used in the proofs\<close>

text \<open>
  After \<open>n\<close> passes of the loop of \<^verbatim>\<open>des_set_salt\<close>, \<^verbatim>\<open>saltbit\<close> is at bit \<open>n\<close>,
  \<^verbatim>\<open>obit\<close> at bit \<open>23 - n\<close>, and \<^verbatim>\<open>saltbits\<close> holds the salt bits below \<open>n\<close>,
  mirrored.
\<close>

definition salt_inv :: "u32 \<Rightarrow> nat \<Rightarrow> u32 \<times> u32 \<times> u32 \<Rightarrow> bool" where
  "salt_inv salt n = (\<lambda>(obit, saltbit, sb).
      (n < 24 \<longrightarrow> obit = 2 ^ (23 - n)) \<and> saltbit = 2 ^ n \<and>
      (\<forall>m. bit sb m \<longleftrightarrow> m < 24 \<and> 23 - m < n \<and> bit salt (23 - m)))"

text \<open>The OR-mask tables after initialisation, as functions of position and value.\<close>

definition ipl :: "nat \<Rightarrow> nat \<Rightarrow> u32" where
  "ipl k i = fst (ip_fp_entry (init_perm des_tables) (final_perm des_tables) k i)"

definition ipr :: "nat \<Rightarrow> nat \<Rightarrow> u32" where
  "ipr k i = fst (snd (ip_fp_entry (init_perm des_tables) (final_perm des_tables) k i))"

definition fpl :: "nat \<Rightarrow> nat \<Rightarrow> u32" where
  "fpl k i = fst (snd (snd (ip_fp_entry (init_perm des_tables) (final_perm des_tables) k i)))"

definition fpr :: "nat \<Rightarrow> nat \<Rightarrow> u32" where
  "fpr k i = snd (snd (snd (ip_fp_entry (init_perm des_tables) (final_perm des_tables) k i)))"

definition kpl :: "nat \<Rightarrow> nat \<Rightarrow> u32" where
  "kpl k i = fst (key_perm_entry (inv_key_perm des_tables) k i)"

definition kpr :: "nat \<Rightarrow> nat \<Rightarrow> u32" where
  "kpr k i = snd (key_perm_entry (inv_key_perm des_tables) k i)"

definition cpl :: "nat \<Rightarrow> nat \<Rightarrow> u32" where
  "cpl k i = fst (comp_entry (inv_comp_perm des_tables) k i)"

definition cpr :: "nat \<Rightarrow> nat \<Rightarrow> u32" where
  "cpr k i = snd (comp_entry (inv_comp_perm des_tables) k i)"

text \<open>The value that \<open>or_masks\<close> computes from eight table entries.\<close>

definition or8 :: "(nat \<Rightarrow> nat \<Rightarrow> u32) \<Rightarrow> nat list \<Rightarrow> u32" where
  "or8 f ix = f 0 (ix ! 0) OR f 1 (ix ! 1) OR f 2 (ix ! 2) OR f 3 (ix ! 3) OR
              f 4 (ix ! 4) OR f 5 (ix ! 5) OR f 6 (ix ! 6) OR f 7 (ix ! 7)"

text \<open>The merged S-box and P-box lookups of one round.\<close>

definition sp_entry :: "nat \<Rightarrow> u32 \<Rightarrow> u32" where
  "sp_entry b x =
     psbox_entry (un_pbox des_tables) b
       (unat (m_sbox_value invert_sboxes b (drop_bit 6 (unat x)) (take_bit 6 (unat x))))"

text \<open>What one round, one key-schedule round and the two loops compute when no read fails.\<close>

definition round_ref :: "des_ctx \<Rightarrow> nat \<Rightarrow> des_regs \<Rightarrow> des_regs" where
  "round_ref ctx ki st =
     (let f = (expand_l (reg_r st) XOR expand_r (reg_r st)) AND saltbits ctx;
          r48l = expand_l (reg_r st) XOR (f XOR en_keysl ctx ! ki);
          r48r = expand_r (reg_r st) XOR (f XOR en_keysr ctx ! ki);
          g = (sp_entry 0 (drop_bit 12 r48l) OR sp_entry 1 (r48l AND 0xfff) OR
               sp_entry 2 (drop_bit 12 r48r) OR sp_entry 3 (r48r AND 0xfff)) XOR reg_l st
      in st\<lparr>reg_l := reg_r st, reg_r := g, reg_f := g, rounds_run := rounds_run st + 1\<rparr>)"

fun rounds_ref :: "des_ctx \<Rightarrow> nat \<Rightarrow> nat \<Rightarrow> des_regs \<Rightarrow> des_regs" where
  "rounds_ref ctx 0 ki st = st"
| "rounds_ref ctx (Suc n) ki st = rounds_ref ctx n (ki + 1) (round_ref ctx ki st)"

definition rep_ref :: "des_ctx \<Rightarrow> des_regs \<Rightarrow> des_regs" where
  "rep_ref ctx st =
     (let st' = rounds_ref ctx 16 0 st
      in st'\<lparr>reg_r := reg_l st', reg_l := reg_f st', reps_run := reps_run st' + 1\<rparr>)"

definition key_round_ref :: "u32 \<Rightarrow> u32 \<Rightarrow> nat \<Rightarrow> nat \<times> des_ctx \<Rightarrow> nat \<times> des_ctx" where
  "key_round_ref k0 k1 round = (\<lambda>(shifts, ctx).
     let shifts = shifts + unat (key_shifts ! round);
         t0 = push_bit shifts k0 OR drop_bit (28 - shifts) k0;
         t1 = push_bit shifts k1 OR drop_bit (28 - shifts) k1
     in (shifts, ctx\<lparr>en_keysl := (en_keysl ctx)[round := or8 cpl (comp_index t0 t1)],
                       en_keysr := (en_keysr ctx)[round := or8 cpr (comp_index t0 t1)]\<rparr>))"

text \<open>A context whose subkey halves all fit in 24 bits.\<close>

definition keys_fit :: "des_ctx \<Rightarrow> bool" where
  "keys_fit ctx \<longleftrightarrow>
     des_ctx_wf ctx \<and>
     list_all (\<lambda>k. take_bit 24 k = k) (en_keysl ctx) \<and>
     list_all (\<lambda>k. take_bit 24 k = k) (en_keysr ctx)"

definition key_sched_ref :: "u32 \<Rightarrow> u32 \<Rightarrow> des_ctx \<Rightarrow> des_ctx" where
  "key_sched_ref rawkey0 rawkey1 ctx =
     snd (fold (key_round_ref (or8 kpl (key_perm_index rawkey0 rawkey1))
                              (or8 kpr (key_perm_index rawkey0 rawkey1)))
               [0..<16] (0, ctx))"

text \<open>The registers after the initial permutation, and the words after the final one.\<close>

definition ip_regs :: "u32 \<Rightarrow> u32 \<Rightarrow> des_regs" where
  "ip_regs lt rt =
     \<lparr>reg_l = or8 ipl (byte_index lt rt), reg_r = or8 ipr (byte_index lt rt), reg_f = 0,
      rounds_run = 0, reps_run = 0\<rparr>"

definition fp_words :: "des_regs \<Rightarrow> u32 \<times> u32" where
  "fp_words st =
     (or8 fpl (byte_index (reg_l st) (reg_r st)), or8 fpr (byte_index (reg_l st) (reg_r st)))"

text \<open>The context that \<^verbatim>\<open>des_cipher_block\<close> hands to \<^verbatim>\<open>do_des\<close>.\<close>

definition cipher_ctx :: "des_ctx \<Rightarrow> u32 \<Rightarrow> u32 \<Rightarrow> int \<Rightarrow> des_ctx" where
  "cipher_ctx ctx0 rawkey0 rawkey1 salt = des_set_salt (key_sched_ref rawkey0 rawkey1 ctx0) (of_int salt)"

text \<open>
  Bit \<open>p\<close> of a 64-bit block held in two words, counted from the most significant bit
  of the first word as the permutation tables count.
\<close>

definition in64 :: "u32 \<Rightarrow> u32 \<Rightarrow> nat \<Rightarrow> bool" where
  "in64 a b p = (if p < 32 then bit a (31 - p) else bit b (63 - p))"


subsection \<open>Table initialisation runs once\<close>

lemma des_init_tables_done: "des_initialised (des_init_tables s) \<noteq> 0"
  by (simp add: des_init_tables_def Let_def case_prod_beta)

lemma des_init_tables_skip: "des_initialised s \<noteq> 0 \<Longrightarrow> des_init_tables s = s"
  by (simp add: des_init_tables_def)

text \<open>
  C6. Table generation is idempotent: from any state of the tables, a second call of
  \<^verbatim>\<open>des_init_tables\<close> after a first one returns the state the first one left, with
  every derived table as it was.
\<close>

theorem des_init_tables_idempotent:
  "des_init_tables (des_init_tables s) = des_init_tables s"
  using des_init_tables_done [of s] by (rule des_init_tables_skip)

subsection \<open>The block codec\<close>

lemma list8: "length (xs :: 'a list) = 8 \<Longrightarrow> \<exists>a b c d e f g h. xs = [a, b, c, d, e, f, g, h]"
  by (simp add: eval_nat_numeral length_Suc_conv) blast

lemma mask8: "(0xff :: u32) = mask 8" by (simp add: mask_eq_exp_minus_1)

lemma byte_pack_simps:
  fixes a b c d :: u8
  defines "w \<equiv> (push_bit 24 (ucast a) OR push_bit 16 (ucast b) OR push_bit 8 (ucast c) OR ucast d :: u32)"
  shows "ucast (drop_bit 24 w) = a" "ucast (drop_bit 16 w AND 0xff) = b"
    "ucast (drop_bit 8 w AND 0xff) = c" "ucast (w AND 0xff) = d"
  unfolding w_def mask8
  by (rule bit_word_eqI; auto simp: bit_simps dest: bit_imp_le_length)+

lemma or_low_nat: "y < 2 ^ n \<Longrightarrow> push_bit n x OR y = x * 2 ^ n + (y :: nat)"
proof -
  assume y: "y < 2 ^ n"
  then have ty: "take_bit n y = y" by (rule take_bit_nat_eq_self)
  have "push_bit n x + y = push_bit n x OR y"
  proof (rule disjunctive_add)
    fix m
    have "bit y m \<Longrightarrow> m < n" using ty by (metis bit_take_bit_iff)
    then show "\<not> bit (push_bit n x) m \<or> \<not> bit y m"
      by (auto simp: bit_simps)
  qed
  then show ?thesis by (simp add: push_bit_eq_mult)
qed

lemma unat_u8_less: "unat (x :: u8) < 256"
  using unsigned_less [of x, where 'a = nat] by simp

lemma byte_value:
  fixes a b c d :: u8
  shows "unat (push_bit 24 (ucast a) OR push_bit 16 (ucast b) OR push_bit 8 (ucast c) OR ucast d :: u32)
       = unat a * 2 ^ 24 + unat b * 2 ^ 16 + unat c * 2 ^ 8 + unat d"
proof -
  note l = unat_u8_less
  have u: "unat (ucast x :: u32) = unat x" for x :: u8
    using l [of x] by (simp add: unsigned_ucast_eq take_bit_nat_eq_self)
  have p: "unat (push_bit k (ucast x :: u32)) = push_bit k (unat x)" if "k \<le> 24" for x :: u8 and k
  proof -
    have "push_bit k (unat x) < 2 ^ 8 * 2 ^ k" using l [of x] by (simp add: push_bit_eq_mult)
    also have "\<dots> \<le> 2 ^ 8 * 2 ^ 24"
      using that by (intro mult_left_mono power_increasing) simp_all
    finally show ?thesis by (simp add: unsigned_push_bit_eq u take_bit_nat_eq_self)
  qed
  have 1: "push_bit 8 (unat c) OR unat d = unat c * 256 + unat d"
    using or_low_nat [of "unat d" 8 "unat c"] l [of d] by simp
  have 2: "push_bit 16 (unat b) OR (unat c * 256 + unat d) = unat b * 65536 + (unat c * 256 + unat d)"
    using or_low_nat [of "unat c * 256 + unat d" 16 "unat b"] l [of c] l [of d] by simp
  have 3: "push_bit 24 (unat a) OR (unat b * 65536 + (unat c * 256 + unat d))
         = unat a * 16777216 + (unat b * 65536 + (unat c * 256 + unat d))"
    using or_low_nat [of "unat b * 65536 + (unat c * 256 + unat d)" 24 "unat a"]
      l [of b] l [of c] l [of d] by simp
  show ?thesis
    by (simp add: unsigned_or_eq p u or.assoc 1 2 3)
qed


lemma byte_unpack_simp:
  fixes w :: u32
  shows "push_bit 24 (ucast (ucast (drop_bit 24 w) :: u8)) OR
         push_bit 16 (ucast (ucast (drop_bit 16 w AND 0xff) :: u8)) OR
         push_bit 8 (ucast (ucast (drop_bit 8 w AND 0xff) :: u8)) OR
         ucast (ucast (w AND 0xff) :: u8) = w"
  unfolding mask8
proof (rule bit_word_eqI)
  fix n assume n: "n < LENGTH(32)"
  show "bit (push_bit 24 (ucast (ucast (drop_bit 24 w) :: u8)) OR
         push_bit 16 (ucast (ucast (drop_bit 16 w AND mask 8) :: u8)) OR
         push_bit 8 (ucast (ucast (drop_bit 8 w AND mask 8) :: u8)) OR
         ucast (ucast (w AND mask 8) :: u8) :: u32) n = bit w n"
  proof -
    consider "n < 8" | "8 \<le> n" "n < 16" | "16 \<le> n" "n < 24" | "24 \<le> n" "n < 32"
      using n by fastforce
    then show ?thesis
      by cases (simp_all add: bit_simps less_diff_conv2)
  qed
qed
lemma unpack_block_8:
  "unpack_block [a, b, c, d, e, f, g, h] =
     Some (push_bit 24 (ucast a) OR push_bit 16 (ucast b) OR push_bit 8 (ucast c) OR ucast d,
           push_bit 24 (ucast e) OR push_bit 16 (ucast f) OR push_bit 8 (ucast g) OR ucast h)"
  by (simp add: unpack_block_def rd_def)

lemma pack_block_8:
  "pack_block [a, b, c, d, e, f, g, h] left right =
     Some [ucast (drop_bit 24 left), ucast (drop_bit 16 left AND 0xff),
           ucast (drop_bit 8 left AND 0xff), ucast (left AND 0xff),
           ucast (drop_bit 24 right), ucast (drop_bit 16 right AND 0xff),
           ucast (drop_bit 8 right AND 0xff), ucast (right AND 0xff)]"
  by (simp add: pack_block_def)

lemma pack_block_length: "pack_block blk l r = Some out \<Longrightarrow> length out = length blk"
  by (auto simp: pack_block_def split: if_splits)

lemma unpack_pack_block:
  assumes "length blk = 8"
  shows "\<exists>out. pack_block blk v0 v1 = Some out \<and> length out = 8 \<and> unpack_block out = Some (v0, v1)"
proof -
  from list8 [OF assms] obtain a b c d e f g h where "blk = [a, b, c, d, e, f, g, h]" by blast
  then show ?thesis
    by (simp add: pack_block_8 unpack_block_8 byte_unpack_simp)
qed

lemma pack_unpack_block:
  assumes "length buf = 8" "length blk = 8"
  shows "\<exists>w0 w1. unpack_block buf = Some (w0, w1) \<and> pack_block blk w0 w1 = Some buf"
proof -
  from list8 [OF assms(1)] obtain a b c d e f g h where 1: "buf = [a, b, c, d, e, f, g, h]" by blast
  from list8 [OF assms(2)] obtain a' b' c' d' e' f' g' h' where 2: "blk = [a', b', c', d', e', f', g', h']"
    by blast
  let ?w0 = "push_bit 24 (ucast a) OR push_bit 16 (ucast b) OR push_bit 8 (ucast c) OR ucast d :: u32"
  let ?w1 = "push_bit 24 (ucast e) OR push_bit 16 (ucast f) OR push_bit 8 (ucast g) OR ucast h :: u32"
  have "unpack_block buf = Some (?w0, ?w1)"
    unfolding 1 by (rule unpack_block_8)
  moreover have "pack_block blk ?w0 ?w1 = Some buf"
    unfolding 1 2 pack_block_8 by (simp only: byte_pack_simps)
  ultimately show ?thesis by blast
qed

text \<open>
  C9. The codec is big-endian and the two directions are inverse to each other: an
  8-byte buffer decodes to the words \<open>b0 * 2^24 + b1 * 2^16 + b2 * 2^8 + b3\<close> and
  \<open>b4 * 2^24 + b5 * 2^16 + b6 * 2^8 + b7\<close>, encoding these gives the buffer back, and
  decoding what was encoded from two words gives the two words back.
\<close>

theorem block_codec_roundtrip:
  assumes "length buf = 8" and "length blk = 8"
  shows "(\<exists>w0 w1. unpack_block buf = Some (w0, w1) \<and>
            unat w0 = unat (buf ! 0) * 2 ^ 24 + unat (buf ! 1) * 2 ^ 16 + unat (buf ! 2) * 2 ^ 8 + unat (buf ! 3) \<and>
            unat w1 = unat (buf ! 4) * 2 ^ 24 + unat (buf ! 5) * 2 ^ 16 + unat (buf ! 6) * 2 ^ 8 + unat (buf ! 7) \<and>
            pack_block blk w0 w1 = Some buf) \<and>
         (\<exists>out. pack_block blk v0 v1 = Some out \<and> unpack_block out = Some (v0, v1))"
proof
  from list8 [OF assms(1)] obtain a b c d e f g h where 1: "buf = [a, b, c, d, e, f, g, h]" by blast
  from pack_unpack_block [OF assms] obtain w0 w1
    where w: "unpack_block buf = Some (w0, w1)" "pack_block blk w0 w1 = Some buf" by blast
  from w(1) have "unat w0 = unat a * 2 ^ 24 + unat b * 2 ^ 16 + unat c * 2 ^ 8 + unat d"
    and "unat w1 = unat e * 2 ^ 24 + unat f * 2 ^ 16 + unat g * 2 ^ 8 + unat h"
    unfolding 1 unpack_block_8 using byte_value by auto
  with w show "\<exists>w0 w1. unpack_block buf = Some (w0, w1) \<and>
            unat w0 = unat (buf ! 0) * 2 ^ 24 + unat (buf ! 1) * 2 ^ 16 + unat (buf ! 2) * 2 ^ 8 + unat (buf ! 3) \<and>
            unat w1 = unat (buf ! 4) * 2 ^ 24 + unat (buf ! 5) * 2 ^ 16 + unat (buf ! 6) * 2 ^ 8 + unat (buf ! 7) \<and>
            pack_block blk w0 w1 = Some buf"
    by (simp add: 1)
  from unpack_pack_block [OF assms(2)]
  show "\<exists>out. pack_block blk v0 v1 = Some out \<and> unpack_block out = Some (v0, v1)" by blast
qed

theorem block_codec_roundtrip_witness:
  "length [0x01, 0x23, 0x45, 0x67, 0x89, 0xab, 0xcd, 0xef :: u8] = 8 \<and>
   length (replicate 8 (0 :: u8)) = 8 \<and>
   (\<exists>w0 w1. unpack_block [0x01, 0x23, 0x45, 0x67, 0x89, 0xab, 0xcd, 0xef] = Some (w0, w1) \<and>
      unat w0 = 0x01234567 \<and> unat w1 = 0x89abcdef \<and>
      pack_block (replicate 8 0) w0 w1 = Some [0x01, 0x23, 0x45, 0x67, 0x89, 0xab, 0xcd, 0xef]) \<and>
   (\<exists>out. pack_block (replicate 8 0) 0xdeadbeef 0x00c0ffee = Some out \<and>
      unpack_block out = Some (0xdeadbeef, 0x00c0ffee))"
  using block_codec_roundtrip
    [of "[0x01, 0x23, 0x45, 0x67, 0x89, 0xab, 0xcd, 0xef]" "replicate 8 0" "0xdeadbeef" "0x00c0ffee"]
  by simp

subsection \<open>The salt mask\<close>

lemma salt_inv_step:
  assumes "salt_inv salt n st" "n < 24"
  shows "salt_inv salt (Suc n) (salt_step salt n st)"
proof -
  obtain obit saltbit sb where st: "st = (obit, saltbit, sb)" by (cases st)
  from assms st have o: "obit = 2 ^ (23 - n)" and s: "saltbit = 2 ^ n"
    and b: "\<And>m. bit sb m \<longleftrightarrow> m < 24 \<and> 23 - m < n \<and> bit salt (23 - m)"
    by (simp_all add: salt_inv_def)
  have t: "salt AND saltbit \<noteq> 0 \<longleftrightarrow> bit salt n"
    by (simp add: s and_exp_eq_0_iff_not_bit)
  have "bit (if salt AND saltbit \<noteq> 0 then sb OR obit else sb) m
        \<longleftrightarrow> m < 24 \<and> 23 - m < Suc n \<and> bit salt (23 - m)" for m
  proof -
    have e: "bit obit m \<longleftrightarrow> m = 23 - n"
      using \<open>n < 24\<close> unfolding o by (simp add: bit_exp_iff) arith
    have c: "m < 24 \<and> 23 - m < Suc n \<longleftrightarrow> (m < 24 \<and> 23 - m < n) \<or> m = 23 - n"
      using \<open>n < 24\<close> by arith
    have d: "m = 23 - n \<Longrightarrow> 23 - m = n"
      using \<open>n < 24\<close> by arith
    show ?thesis
    proof (cases "bit salt n")
      case True
      then have "bit (if salt AND saltbit \<noteq> 0 then sb OR obit else sb) m \<longleftrightarrow> bit sb m \<or> m = 23 - n"
        by (simp add: t bit_or_iff e)
      also have "\<dots> \<longleftrightarrow> (m < 24 \<and> 23 - m < n \<and> bit salt (23 - m)) \<or> (m = 23 - n \<and> bit salt (23 - m))"
        using True d by (auto simp: b)
      also have "\<dots> \<longleftrightarrow> ((m < 24 \<and> 23 - m < n) \<or> m = 23 - n) \<and> bit salt (23 - m)"
        by blast
      finally show ?thesis using c by blast
    next
      case False
      then have "bit (if salt AND saltbit \<noteq> 0 then sb OR obit else sb) m \<longleftrightarrow> bit sb m"
        by (simp add: t)
      also have "\<dots> \<longleftrightarrow> (m < 24 \<and> 23 - m < n \<and> bit salt (23 - m)) \<or> (m = 23 - n \<and> bit salt (23 - m))"
        using False d by (auto simp: b)
      also have "\<dots> \<longleftrightarrow> ((m < 24 \<and> 23 - m < n) \<or> m = 23 - n) \<and> bit salt (23 - m)"
        by blast
      finally show ?thesis using c by blast
    qed
  qed
  moreover have "Suc n < 24 \<Longrightarrow> drop_bit 1 obit = 2 ^ (23 - Suc n)"
    by (simp add: o drop_bit_exp_eq) arith
  moreover have "push_bit 1 saltbit = 2 ^ Suc n"
    by (simp add: s push_bit_eq_mult)
  ultimately show ?thesis
    by (simp add: st salt_step_def salt_inv_def)
qed

lemma salt_inv_fold:
  "n \<le> 24 \<Longrightarrow> salt_inv salt n (fold (salt_step salt) [0..<n] (0x800000, 1, 0))"
proof (induction n)
  case 0
  show ?case by (simp add: salt_inv_def)
next
  case (Suc n)
  then show ?case by (simp add: salt_inv_step)
qed

lemma saltbits_bit:
  "bit (saltbits (des_set_salt ctx salt)) m \<longleftrightarrow> m < 24 \<and> bit salt (23 - m)"
proof -
  define st where "st = fold (salt_step salt) [0..<24] (0x800000, 1, 0)"
  have "salt_inv salt 24 st"
    unfolding st_def by (rule salt_inv_fold) simp
  moreover have "saltbits (des_set_salt ctx salt) = snd (snd st)"
    unfolding des_set_salt_def st_def [symmetric] by (simp add: case_prod_beta)
  moreover have "23 - m < 24" by arith
  ultimately show ?thesis
    by (cases st) (simp add: salt_inv_def)
qed

lemma mask24: "(0xFFFFFF :: u32) = mask 24" by (simp add: mask_eq_exp_minus_1)

lemma less_2p24_iff: "x < 0x1000000 \<longleftrightarrow> take_bit 24 x = x" for x :: u32
  using mask_eq_iff_w2p [of 24 x] by (simp add: word_size take_bit_eq_mask)

lemma saltbits_less: "saltbits (des_set_salt ctx salt) < 0x1000000"
  unfolding less_2p24_iff
  by (rule bit_word_eqI) (simp add: bit_take_bit_iff saltbits_bit)

text \<open>
  C4. \<^verbatim>\<open>des_set_salt\<close> mirrors the low 24 bits of the salt: bit \<open>i\<close> of the salt, for
  \<open>i\<close> from 0 to 23, is bit \<open>23 - i\<close> of the mask; the mask is below \<open>2^24\<close>; and
  the bits of the salt from bit 24 on do not change it.
\<close>

theorem des_set_salt_reverses:
  "(\<forall>i<24. bit (saltbits (des_set_salt ctx salt)) (23 - i) \<longleftrightarrow> bit salt i) \<and>
   saltbits (des_set_salt ctx salt) < 2 ^ 24 \<and>
   saltbits (des_set_salt ctx salt) = saltbits (des_set_salt ctx (salt AND 0xFFFFFF))"
proof (intro conjI allI impI)
  fix i :: nat assume i: "i < 24"
  then have "23 - i < 24" "23 - (23 - i) = i" by arith+
  then show "bit (saltbits (des_set_salt ctx salt)) (23 - i) \<longleftrightarrow> bit salt i"
    by (simp add: saltbits_bit)
next
  show "saltbits (des_set_salt ctx salt) < 2 ^ 24" using saltbits_less [of ctx salt] by simp
next
  show "saltbits (des_set_salt ctx salt) = saltbits (des_set_salt ctx (salt AND 0xFFFFFF))"
    unfolding mask24
  proof (rule bit_word_eqI)
    fix m assume "m < LENGTH(32)"
    have "m < 24 \<Longrightarrow> 23 - m < 24" by arith
    then show "bit (saltbits (des_set_salt ctx salt)) m
      \<longleftrightarrow> bit (saltbits (des_set_salt ctx (salt AND mask 24))) m"
      by (auto simp: saltbits_bit bit_and_iff bit_mask_iff)
  qed
qed


theorem des_set_salt_reverses_witness:
  "(0 :: nat) < 24 \<and>
   (bit (saltbits (des_set_salt \<lparr>saltbits = 0, en_keysl = [], en_keysr = []\<rparr> 0x1000005)) (23 - 0)
      \<longleftrightarrow> bit (0x1000005 :: u32) 0) \<and>
   saltbits (des_set_salt \<lparr>saltbits = 0, en_keysl = [], en_keysr = []\<rparr> 0x1000005) < 2 ^ 24 \<and>
   saltbits (des_set_salt \<lparr>saltbits = 0, en_keysl = [], en_keysr = []\<rparr> 0x1000005) =
     saltbits (des_set_salt \<lparr>saltbits = 0, en_keysl = [], en_keysr = []\<rparr> (0x1000005 AND 0xFFFFFF))"
proof -
  have h: "(0 :: nat) < 24" by simp
  from des_set_salt_reverses [of "\<lparr>saltbits = 0, en_keysl = [], en_keysr = []\<rparr>" "0x1000005"] h
  show ?thesis by blast
qed

subsection \<open>The tables after initialisation\<close>

lemma des_tables_fields:
  "des_initialised des_tables = 1"
  "u_sbox des_tables = invert_sboxes"
  "m_sbox des_tables = merge_sboxes invert_sboxes (replicate 4 (replicate 4096 0))"
  "init_perm des_tables = fst (setup_perms (replicate 64 0, replicate 64 0, replicate 64 0))"
  "final_perm des_tables = fst (snd (setup_perms (replicate 64 0, replicate 64 0, replicate 64 0)))"
  "inv_key_perm des_tables =
     fst (invert_key_perm (snd (snd (setup_perms (replicate 64 0, replicate 64 0, replicate 64 0))),
                           replicate 56 0))"
  "inv_comp_perm des_tables =
     invert_comp_perm (snd (invert_key_perm
       (snd (snd (setup_perms (replicate 64 0, replicate 64 0, replicate 64 0))), replicate 56 0)))"
  "un_pbox des_tables = invert_pbox (replicate 32 0)"
  by (simp_all add: des_tables_def des_init_tables_def des_static_init_def Let_def case_prod_beta)

lemma des_tables_masks:
  "ip_maskl des_tables =
     map (\<lambda>k. map (\<lambda>i. fst (ip_fp_entry (init_perm des_tables) (final_perm des_tables) k i)) [0..<256]) [0..<8]"
  "ip_maskr des_tables =
     map (\<lambda>k. map (\<lambda>i. fst (snd (ip_fp_entry (init_perm des_tables) (final_perm des_tables) k i))) [0..<256]) [0..<8]"
  "fp_maskl des_tables =
     map (\<lambda>k. map (\<lambda>i. fst (snd (snd (ip_fp_entry (init_perm des_tables) (final_perm des_tables) k i)))) [0..<256]) [0..<8]"
  "fp_maskr des_tables =
     map (\<lambda>k. map (\<lambda>i. snd (snd (snd (ip_fp_entry (init_perm des_tables) (final_perm des_tables) k i)))) [0..<256]) [0..<8]"
  "key_perm_maskl des_tables =
     map (\<lambda>k. map (\<lambda>i. fst (key_perm_entry (inv_key_perm des_tables) k i)) [0..<128]) [0..<8]"
  "key_perm_maskr des_tables =
     map (\<lambda>k. map (\<lambda>i. snd (key_perm_entry (inv_key_perm des_tables) k i)) [0..<128]) [0..<8]"
  "comp_maskl des_tables =
     map (\<lambda>k. map (\<lambda>i. fst (comp_entry (inv_comp_perm des_tables) k i)) [0..<128]) [0..<8]"
  "comp_maskr des_tables =
     map (\<lambda>k. map (\<lambda>i. snd (comp_entry (inv_comp_perm des_tables) k i)) [0..<128]) [0..<8]"
  "psbox des_tables = map (\<lambda>b. map (\<lambda>i. psbox_entry (un_pbox des_tables) b i) [0..<256]) [0..<4]"
  by (simp_all add: des_tables_def des_init_tables_def des_static_init_def Let_def case_prod_beta)

lemma des_init_tables_tables: "des_init_tables des_tables = des_tables"
  by (simp add: des_init_tables_skip des_tables_fields)

lemma des_static_init_flag: "des_initialised des_static_init = 0"
  by (simp add: des_static_init_def)

lemma des_reachable_init_tables: "des_reachable s \<Longrightarrow> des_init_tables s = des_tables"
  unfolding des_reachable_def using des_init_tables_tables by (auto simp: des_tables_def)

lemma des_reachable_init:
  "des_reachable s \<Longrightarrow> (if des_initialised s = 0 then des_init_tables s else s) = des_tables"
  unfolding des_reachable_def
  using des_init_tables_tables by (auto simp: des_tables_fields des_static_init_flag des_tables_def)

lemma rd2_tabulate:
  "k < K \<Longrightarrow> i < N \<Longrightarrow> rd2 (map (\<lambda>k. map (f k) [0..<N]) [0..<K]) k i = Some (f k i)"
  by (simp add: rd2_def rd_def)

lemma rd_Some: "i < length xs \<Longrightarrow> rd xs i = Some (xs ! i)"
  by (simp add: rd_def)

text \<open>Stores through computed subscripts\<close>

lemma fold_update_length:
  "length (fold (\<lambda>k xs. xs[idx k := val k]) ks xs) = length xs"
  by (induction ks arbitrary: xs) simp_all

lemma fold_update_other:
  "i \<notin> idx ` set ks \<Longrightarrow> fold (\<lambda>k xs. xs[idx k := val k]) ks xs ! i = xs ! i"
  by (induction ks arbitrary: xs) auto

lemma fold_update_nth:
  "distinct (map idx ks) \<Longrightarrow> k \<in> set ks \<Longrightarrow> idx k < length xs \<Longrightarrow>
   fold (\<lambda>k xs. xs[idx k := val k]) ks xs ! idx k = val k"
proof (induction ks arbitrary: xs)
  case Nil
  then show ?case by simp
next
  case (Cons a ks)
  show ?case
  proof (cases "k = a")
    case True
    with Cons.prems have "idx k \<notin> idx ` set ks" by auto
    with Cons.prems True show ?thesis by (simp add: fold_update_other)
  next
    case False
    with Cons.prems have "k \<in> set ks" "distinct (map idx ks)" by auto
    with Cons.prems show ?thesis by (simp add: Cons.IH)
  qed
qed

lemma fold_fold_product:
  "fold (\<lambda>i. fold (g i) js) is = fold (\<lambda>(i, j). g i j) (List.product is js)"
proof (induction "is")
  case Nil
  show ?case by simp
next
  case (Cons i "is")
  have "fold (\<lambda>(i, j). g i j) (map (Pair i) js) = fold (g i) js"
    by (simp add: fold_map comp_def)
  with Cons show ?case by simp
qed

lemma sbox_pair_index:
  assumes "n < (4096 :: nat)"
  shows "drop_bit 6 n < 64" "take_bit 6 n < 64" "push_bit 6 (drop_bit 6 n) OR take_bit 6 n = n"
proof -
  show "drop_bit 6 n < 64" using assms by (simp add: drop_bit_eq_div)
  show "take_bit 6 n < 64" using take_bit_nat_less_exp [of 6 n] by simp
  show "push_bit 6 (drop_bit 6 n) OR take_bit 6 n = n"
    by (rule bit_eqI) (auto simp: bit_simps)
qed

lemma sbox_pair_inj:
  assumes "j < 64" "j' < 64" "push_bit 6 i OR j = push_bit 6 i' OR (j' :: nat)"
  shows "i = i' \<and> j = j'"
proof -
  have d: "drop_bit 6 x = 0" and t: "take_bit 6 x = x" if "x < 64" for x :: nat
    using that by (simp_all add: drop_bit_eq_div take_bit_nat_eq_self)
  from assms(3) have "drop_bit 6 (push_bit 6 i OR j) = drop_bit 6 (push_bit 6 i' OR j')"
    and "take_bit 6 (push_bit 6 i OR j) = take_bit 6 (push_bit 6 i' OR j')" by simp_all
  then show ?thesis
    using assms(1,2) by (simp add: d t take_bit_push_bit drop_bit_push_bit)
qed

text \<open>The small derived tables, computed\<close>

lemma setup_perms_static:
  "setup_perms (replicate 64 0, replicate 64 0, replicate 64 0) =
     ([39, 7, 47, 15, 55, 23, 63, 31, 38, 6, 46, 14, 54, 22, 62, 30,
      37, 5, 45, 13, 53, 21, 61, 29, 36, 4, 44, 12, 52, 20, 60, 28,
      35, 3, 43, 11, 51, 19, 59, 27, 34, 2, 42, 10, 50, 18, 58, 26,
      33, 1, 41, 9, 49, 17, 57, 25, 32, 0, 40, 8, 48, 16, 56, 24],
      [57, 49, 41, 33, 25, 17, 9, 1, 59, 51, 43, 35, 27, 19, 11, 3,
      61, 53, 45, 37, 29, 21, 13, 5, 63, 55, 47, 39, 31, 23, 15, 7,
      56, 48, 40, 32, 24, 16, 8, 0, 58, 50, 42, 34, 26, 18, 10, 2,
      60, 52, 44, 36, 28, 20, 12, 4, 62, 54, 46, 38, 30, 22, 14, 6],
      replicate 64 255)"
  by code_simp

lemma invert_key_perm_static:
  "invert_key_perm (replicate 64 255, replicate 56 0) =
     ([7, 15, 23, 55, 51, 43, 35, 255, 6, 14, 22, 54, 50, 42, 34, 255,
      5, 13, 21, 53, 49, 41, 33, 255, 4, 12, 20, 52, 48, 40, 32, 255,
      3, 11, 19, 27, 47, 39, 31, 255, 2, 10, 18, 26, 46, 38, 30, 255,
      1, 9, 17, 25, 45, 37, 29, 255, 0, 8, 16, 24, 44, 36, 28, 255],
      replicate 56 255)"
  by code_simp

lemma invert_comp_perm_static:
  "invert_comp_perm (replicate 56 255) =
     [4, 23, 6, 15, 5, 9, 19, 17, 255, 11, 2, 14, 22, 0, 8, 18,
      1, 255, 13, 21, 10, 255, 12, 3, 255, 16, 20, 7, 46, 30, 26, 47,
      34, 40, 255, 45, 27, 255, 38, 31, 24, 43, 255, 36, 33, 42, 28, 35,
      37, 44, 32, 25, 41, 255, 29, 39]"
  by code_simp

lemma invert_pbox_static:
  "invert_pbox (replicate 32 0) =
     [8, 16, 22, 30, 12, 27, 1, 17, 23, 15, 29, 5, 25, 19, 9, 0,
      7, 13, 24, 2, 3, 28, 10, 18, 31, 11, 21, 6, 4, 26, 14, 20]"
  by code_simp

lemma init_perm_tables:
  "init_perm des_tables =
     [39, 7, 47, 15, 55, 23, 63, 31, 38, 6, 46, 14, 54, 22, 62, 30,
      37, 5, 45, 13, 53, 21, 61, 29, 36, 4, 44, 12, 52, 20, 60, 28,
      35, 3, 43, 11, 51, 19, 59, 27, 34, 2, 42, 10, 50, 18, 58, 26,
      33, 1, 41, 9, 49, 17, 57, 25, 32, 0, 40, 8, 48, 16, 56, 24]"
  by (simp add: des_tables_fields setup_perms_static)

lemma final_perm_tables:
  "final_perm des_tables =
     [57, 49, 41, 33, 25, 17, 9, 1, 59, 51, 43, 35, 27, 19, 11, 3,
      61, 53, 45, 37, 29, 21, 13, 5, 63, 55, 47, 39, 31, 23, 15, 7,
      56, 48, 40, 32, 24, 16, 8, 0, 58, 50, 42, 34, 26, 18, 10, 2,
      60, 52, 44, 36, 28, 20, 12, 4, 62, 54, 46, 38, 30, 22, 14, 6]"
  by (simp add: des_tables_fields setup_perms_static)

lemma inv_key_perm_tables:
  "inv_key_perm des_tables =
     [7, 15, 23, 55, 51, 43, 35, 255, 6, 14, 22, 54, 50, 42, 34, 255,
      5, 13, 21, 53, 49, 41, 33, 255, 4, 12, 20, 52, 48, 40, 32, 255,
      3, 11, 19, 27, 47, 39, 31, 255, 2, 10, 18, 26, 46, 38, 30, 255,
      1, 9, 17, 25, 45, 37, 29, 255, 0, 8, 16, 24, 44, 36, 28, 255]"
  by (simp add: des_tables_fields setup_perms_static invert_key_perm_static)

lemma inv_comp_perm_tables:
  "inv_comp_perm des_tables =
     [4, 23, 6, 15, 5, 9, 19, 17, 255, 11, 2, 14, 22, 0, 8, 18,
      1, 255, 13, 21, 10, 255, 12, 3, 255, 16, 20, 7, 46, 30, 26, 47,
      34, 40, 255, 45, 27, 255, 38, 31, 24, 43, 255, 36, 33, 42, 28, 35,
      37, 44, 32, 25, 41, 255, 29, 39]"
  by (simp add: des_tables_fields setup_perms_static invert_key_perm_static invert_comp_perm_static)

lemma un_pbox_tables:
  "un_pbox des_tables =
     [8, 16, 22, 30, 12, 27, 1, 17, 23, 15, 29, 5, 25, 19, 9, 0,
      7, 13, 24, 2, 3, 28, 10, 18, 31, 11, 21, 6, 4, 26, 14, 20]"
  by (simp add: des_tables_fields invert_pbox_static)

text \<open>Lookups in the tables\<close>

lemma merge_sboxes_length: "length (merge_sboxes us ms) = 4"
  by (simp add: merge_sboxes_def)

lemma merge_sboxes_row_length:
  "b < 4 \<Longrightarrow> length (merge_sboxes us ms ! b) = length (ms ! b)"
  by (simp add: merge_sboxes_def fold_fold_product case_prod_unfold fold_update_length)

lemma merge_sboxes_nth:
  assumes "b < 4" "n < 4096" "length (ms ! b) = 4096"
  shows "merge_sboxes us ms ! b ! n = m_sbox_value us b (drop_bit 6 n) (take_bit 6 n)"
proof -
  let ?idx = "\<lambda>p :: nat \<times> nat. push_bit 6 (fst p) OR snd p"
  let ?val = "\<lambda>p :: nat \<times> nat. m_sbox_value us b (fst p) (snd p)"
  let ?ks = "List.product [0..<64] [0..<64]"
  let ?k = "(drop_bit 6 n, take_bit 6 n)"
  note ix = sbox_pair_index [OF assms(2)]
  have "inj_on ?idx (set ?ks)"
  proof (rule inj_onI)
    fix p q assume "p \<in> set ?ks" "q \<in> set ?ks" and e: "?idx p = ?idx q"
    then have "snd p < 64" "snd q < 64" by auto
    from sbox_pair_inj [OF this e] show "p = q" by (simp add: prod_eq_iff)
  qed
  moreover have "distinct ?ks" by (rule distinct_product) simp_all
  ultimately have "distinct (map ?idx ?ks)"
    by (simp only: distinct_map simp_thms)
  moreover have "?k \<in> set ?ks" using ix(1,2) by (simp only: set_product set_upt) simp
  moreover have "?idx ?k < length (ms ! b)"
    using assms(2) by (simp only: fst_conv snd_conv ix(3) assms(3))
  ultimately have "fold (\<lambda>k xs. xs[?idx k := ?val k]) ?ks (ms ! b) ! ?idx ?k = ?val ?k"
    by (rule fold_update_nth)
  then have "fold (\<lambda>k xs. xs[?idx k := ?val k]) ?ks (ms ! b) ! n
               = m_sbox_value us b (drop_bit 6 n) (take_bit 6 n)"
    by (simp only: fst_conv snd_conv ix(3))
  moreover have "merge_sboxes us ms ! b = fold (\<lambda>k xs. xs[?idx k := ?val k]) ?ks (ms ! b)"
    using assms(1) by (simp add: merge_sboxes_def fold_fold_product case_prod_unfold)
  ultimately show ?thesis by (simp only:)
qed

lemma rd2_m_sbox:
  "b < 4 \<Longrightarrow> n < 4096 \<Longrightarrow>
   rd2 (m_sbox des_tables) b n = Some (m_sbox_value invert_sboxes b (drop_bit 6 n) (take_bit 6 n))"
  by (simp add: rd2_def rd_def des_tables_fields merge_sboxes_length merge_sboxes_row_length
      merge_sboxes_nth)

lemma rd2_psbox:
  "b < 4 \<Longrightarrow> i < 256 \<Longrightarrow> rd2 (psbox des_tables) b i = Some (psbox_entry (un_pbox des_tables) b i)"
  unfolding des_tables_masks by (rule rd2_tabulate)

lemma rd2_ip_mask:
  assumes "k < 8" "i < 256"
  shows "rd2 (ip_maskl des_tables) k i =
           Some (fst (ip_fp_entry (init_perm des_tables) (final_perm des_tables) k i))"
    and "rd2 (ip_maskr des_tables) k i =
           Some (fst (snd (ip_fp_entry (init_perm des_tables) (final_perm des_tables) k i)))"
    and "rd2 (fp_maskl des_tables) k i =
           Some (fst (snd (snd (ip_fp_entry (init_perm des_tables) (final_perm des_tables) k i))))"
    and "rd2 (fp_maskr des_tables) k i =
           Some (snd (snd (snd (ip_fp_entry (init_perm des_tables) (final_perm des_tables) k i))))"
  unfolding des_tables_masks by (rule rd2_tabulate [OF assms])+

lemma rd2_key_mask:
  assumes "k < 8" "i < 128"
  shows "rd2 (key_perm_maskl des_tables) k i = Some (fst (key_perm_entry (inv_key_perm des_tables) k i))"
    and "rd2 (key_perm_maskr des_tables) k i = Some (snd (key_perm_entry (inv_key_perm des_tables) k i))"
    and "rd2 (comp_maskl des_tables) k i = Some (fst (comp_entry (inv_comp_perm des_tables) k i))"
    and "rd2 (comp_maskr des_tables) k i = Some (snd (comp_entry (inv_comp_perm des_tables) k i))"
  unfolding des_tables_masks by (rule rd2_tabulate [OF assms])+

subsection \<open>Values that fit in \<open>n\<close> bits\<close>

lemma fits_iff: "take_bit n x = x \<longleftrightarrow> (\<forall>m. bit x m \<longrightarrow> m < n)" for x :: "'a::len word"
proof
  assume "take_bit n x = x"
  then have "bit x m = bit (take_bit n x) m" for m by simp
  then show "\<forall>m. bit x m \<longrightarrow> m < n" unfolding bit_take_bit_iff by blast
next
  assume "\<forall>m. bit x m \<longrightarrow> m < n"
  then show "take_bit n x = x" by (intro bit_word_eqI) (auto simp: bit_take_bit_iff)
qed

lemma fits_or: "take_bit n a = a \<Longrightarrow> take_bit n b = b \<Longrightarrow> take_bit n (a OR b) = a OR b"
  for a b :: "'a::len word"
  by simp

lemma fits_xor: "take_bit n a = a \<Longrightarrow> take_bit n b = b \<Longrightarrow> take_bit n (a XOR b) = a XOR b"
  for a b :: "'a::len word"
  by simp

lemma fits_and1: "take_bit n a = a \<Longrightarrow> take_bit n (a AND b) = a AND b" for a b :: "'a::len word"
  unfolding fits_iff by (simp add: bit_and_iff)

lemma fits_and2: "take_bit n b = b \<Longrightarrow> take_bit n (a AND b) = a AND b" for a b :: "'a::len word"
  unfolding fits_iff by (simp add: bit_and_iff)

lemma fits_drop: "LENGTH('a) \<le> n + k \<Longrightarrow> take_bit n (drop_bit k x) = drop_bit k x"
  for x :: "'a::len word"
  unfolding fits_iff
proof (intro allI impI)
  fix m assume "LENGTH('a) \<le> n + k" "bit (drop_bit k x) m"
  then have "k + m < LENGTH('a)" by (auto simp: bit_drop_bit_eq dest: bit_imp_le_length)
  with \<open>LENGTH('a) \<le> n + k\<close> show "m < n" by simp
qed

lemma fits_push: "take_bit m a = a \<Longrightarrow> m + k \<le> n \<Longrightarrow> take_bit n (push_bit k a) = push_bit k a"
  for a :: "'a::len word"
  unfolding fits_iff
proof (intro allI impI)
  fix i assume a: "\<forall>j. bit a j \<longrightarrow> j < m" and "m + k \<le> n" and "bit (push_bit k a) i"
  then have "k \<le> i" "bit a (i - k)" by (simp_all add: bit_push_bit_iff)
  with a have "i - k < m" by blast
  with \<open>k \<le> i\<close> \<open>m + k \<le> n\<close> show "i < n" by simp
qed

lemma fits_mono: "take_bit m a = a \<Longrightarrow> m \<le> n \<Longrightarrow> take_bit n a = a" for a :: "'a::len word"
  unfolding fits_iff by (meson less_le_trans)

lemma fits_unat: "take_bit n x = x \<Longrightarrow> unat x < 2 ^ n" for x :: "'a::len word"
  by (metis unsigned_take_bit_eq take_bit_nat_less_exp)

lemma fits_less: "take_bit 24 x = x \<Longrightarrow> x < 2 ^ 24" for x :: u32
  using less_2p24_iff [of x] by simp

lemma fits_drop_fits: "take_bit n x = x \<Longrightarrow> take_bit (n - k) (drop_bit k x) = drop_bit k x"
  for x :: "'a::len word"
  unfolding fits_iff
proof (intro allI impI)
  fix m assume a: "\<forall>j. bit x j \<longrightarrow> j < n" and "bit (drop_bit k x) m"
  then have "bit x (k + m)" by (simp add: bit_drop_bit_eq)
  with a have "k + m < n" by blast
  then show "m < n - k" by simp
qed

lemma fits_unat_drop:
  fixes x :: u32
  assumes "take_bit 24 x = x"
  shows "unat (drop_bit 12 x) < 4096"
  using fits_unat [OF fits_drop_fits [OF assms, of 12]] by simp

lemma unat_and_less:
  fixes x :: u32
  shows "unat (x AND 0x7f) < 128" "unat (x AND 0xff) < 256" "unat (x AND 0xfff) < 4096"
proof -
  have "take_bit 7 (x AND 0x7f) = x AND 0x7f" by (rule fits_and2) simp
  from fits_unat [OF this] show "unat (x AND 0x7f) < 128" by simp
  have "take_bit 8 (x AND 0xff) = x AND 0xff" by (rule fits_and2) simp
  from fits_unat [OF this] show "unat (x AND 0xff) < 256" by simp
  have "take_bit 12 (x AND 0xfff) = x AND 0xfff" by (rule fits_and2) simp
  from fits_unat [OF this] show "unat (x AND 0xfff) < 4096" by simp
qed

lemma unat_drop_less:
  fixes x :: u32
  shows "unat (drop_bit 25 x) < 128" "unat (drop_bit 24 x) < 256"
proof -
  have "take_bit 7 (drop_bit 25 x) = drop_bit 25 x" by (rule fits_drop) simp
  from fits_unat [OF this] show "unat (drop_bit 25 x) < 128" by simp
  have "take_bit 8 (drop_bit 24 x) = drop_bit 24 x" by (rule fits_drop) simp
  from fits_unat [OF this] show "unat (drop_bit 24 x) < 256" by simp
qed

lemma expand_l_fits: "take_bit 24 (expand_l r) = expand_l r"
proof -
  have "take_bit 1 (r AND 1) = r AND 1" by (rule fits_and2) simp
  then have "take_bit 24 (push_bit 23 (r AND 1)) = push_bit 23 (r AND 1)"
    by (rule fits_push) simp
  then show ?thesis
    unfolding expand_l_def by (intro fits_or fits_drop) simp_all
qed

lemma expand_r_fits: "take_bit 24 (expand_r r) = expand_r r"
proof -
  have "take_bit 17 (r AND 0x0001f800) = r AND 0x0001f800" by (rule fits_and2) simp
  then have 1: "take_bit 24 (push_bit 7 (r AND 0x0001f800)) = push_bit 7 (r AND 0x0001f800)"
    by (rule fits_push) simp
  have "take_bit 13 (r AND 0x00001f80) = r AND 0x00001f80" by (rule fits_and2) simp
  then have 2: "take_bit 24 (push_bit 5 (r AND 0x00001f80)) = push_bit 5 (r AND 0x00001f80)"
    by (rule fits_push) simp
  have "take_bit 9 (r AND 0x000001f8) = r AND 0x000001f8" by (rule fits_and2) simp
  then have 3: "take_bit 24 (push_bit 3 (r AND 0x000001f8)) = push_bit 3 (r AND 0x000001f8)"
    by (rule fits_push) simp
  have "take_bit 5 (r AND 0x0000001f) = r AND 0x0000001f" by (rule fits_and2) simp
  then have 4: "take_bit 24 (push_bit 1 (r AND 0x0000001f)) = push_bit 1 (r AND 0x0000001f)"
    by (rule fits_push) simp
  have 5: "take_bit 24 (drop_bit 31 (r AND 0x80000000)) = drop_bit 31 (r AND 0x80000000)"
    by (rule fits_drop) simp
  show ?thesis
    unfolding expand_r_def by (intro fits_or 1 2 3 4 5)
qed

subsection \<open>No read of the key schedule or of the round engine fails\<close>

lemma rd2_tables:
  "k < 8 \<Longrightarrow> i < 256 \<Longrightarrow> rd2 (ip_maskl des_tables) k i = Some (ipl k i)"
  "k < 8 \<Longrightarrow> i < 256 \<Longrightarrow> rd2 (ip_maskr des_tables) k i = Some (ipr k i)"
  "k < 8 \<Longrightarrow> i < 256 \<Longrightarrow> rd2 (fp_maskl des_tables) k i = Some (fpl k i)"
  "k < 8 \<Longrightarrow> i < 256 \<Longrightarrow> rd2 (fp_maskr des_tables) k i = Some (fpr k i)"
  "k < 8 \<Longrightarrow> j < 128 \<Longrightarrow> rd2 (key_perm_maskl des_tables) k j = Some (kpl k j)"
  "k < 8 \<Longrightarrow> j < 128 \<Longrightarrow> rd2 (key_perm_maskr des_tables) k j = Some (kpr k j)"
  "k < 8 \<Longrightarrow> j < 128 \<Longrightarrow> rd2 (comp_maskl des_tables) k j = Some (cpl k j)"
  "k < 8 \<Longrightarrow> j < 128 \<Longrightarrow> rd2 (comp_maskr des_tables) k j = Some (cpr k j)"
  by (simp_all only: rd2_ip_mask rd2_key_mask ipl_def ipr_def fpl_def fpr_def kpl_def kpr_def
      cpl_def cpr_def)

lemma or_masks_Some:
  assumes "\<And>k. k < 8 \<Longrightarrow> rd2 tabl k (ix ! k) = Some (fl k (ix ! k))"
    and "\<And>k. k < 8 \<Longrightarrow> rd2 tabr k (ix ! k) = Some (fr k (ix ! k))"
  shows "or_masks tabl tabr ix = Some (or8 fl ix, or8 fr ix)"
  by (simp add: or_masks_def or8_def assms)

lemma index_bounds:
  "list_all (\<lambda>i. i < 256) (byte_index lt rt)"
  "list_all (\<lambda>i. i < 128) (key_perm_index k0 k1)"
  "list_all (\<lambda>i. i < 128) (comp_index t0 t1)"
  by (simp_all add: byte_index_def key_perm_index_def comp_index_def unat_and_less unat_drop_less)

lemma index_lengths:
  "length (byte_index lt rt) = 8" "length (key_perm_index k0 k1) = 8" "length (comp_index t0 t1) = 8"
  by (simp_all add: byte_index_def key_perm_index_def comp_index_def)

lemma index_nth:
  assumes "k < 8"
  shows "byte_index lt rt ! k < 256" "key_perm_index k0 k1 ! k < 128" "comp_index t0 t1 ! k < 128"
  using assms index_bounds(1) [of lt rt] index_bounds(2) [of k0 k1] index_bounds(3) [of t0 t1]
  by (simp_all add: list_all_length index_lengths)

lemma or_masks_ip:
  "or_masks (ip_maskl des_tables) (ip_maskr des_tables) (byte_index lt rt)
     = Some (or8 ipl (byte_index lt rt), or8 ipr (byte_index lt rt))"
  by (rule or_masks_Some) (simp_all add: rd2_tables index_nth)

lemma or_masks_fp:
  "or_masks (fp_maskl des_tables) (fp_maskr des_tables) (byte_index l r)
     = Some (or8 fpl (byte_index l r), or8 fpr (byte_index l r))"
  by (rule or_masks_Some) (simp_all add: rd2_tables index_nth)

lemma or_masks_key:
  "or_masks (key_perm_maskl des_tables) (key_perm_maskr des_tables) (key_perm_index a b)
     = Some (or8 kpl (key_perm_index a b), or8 kpr (key_perm_index a b))"
  by (rule or_masks_Some) (simp_all add: rd2_tables index_nth)

lemma or_masks_comp:
  "or_masks (comp_maskl des_tables) (comp_maskr des_tables) (comp_index t0 t1)
     = Some (or8 cpl (comp_index t0 t1), or8 cpr (comp_index t0 t1))"
  by (rule or_masks_Some) (simp_all add: rd2_tables index_nth)

lemma fold_invariant:
  "(\<And>x s. x \<in> set xs \<Longrightarrow> P s \<Longrightarrow> P (f x s)) \<Longrightarrow> P s \<Longrightarrow> P (fold f xs s)"
  by (induction xs arbitrary: s) simp_all

lemma bits24_fits: "n < 24 \<Longrightarrow> take_bit 24 (bits24 n) = bits24 n"
proof -
  have "list_all (\<lambda>n. take_bit 24 (bits24 n) = bits24 n) [0..<24]"
    by (simp add: bits24_def bits32_def upt_rec)
  then show "n < 24 \<Longrightarrow> take_bit 24 (bits24 n) = bits24 n"
    by (simp add: list_all_iff)
qed

lemma inv_comp_perm_range:
  assumes "m < 56"
  shows "unat (inv_comp_perm des_tables ! m) = 255 \<or> unat (inv_comp_perm des_tables ! m) < 48"
proof -
  have "list_all (\<lambda>x. unat x = 255 \<or> unat x < 48) (inv_comp_perm des_tables)"
    by (simp add: inv_comp_perm_tables)
  moreover have "length (inv_comp_perm des_tables) = 56"
    by (simp add: inv_comp_perm_tables)
  ultimately show ?thesis using assms by (simp add: list_all_length)
qed

lemma comp_bit_fits:
  assumes "k < 8" "j < 7" "take_bit 24 (fst p) = fst p \<and> take_bit 24 (snd p) = snd p"
  shows "take_bit 24 (fst (comp_bit (inv_comp_perm des_tables) k i j p)) =
           fst (comp_bit (inv_comp_perm des_tables) k i j p) \<and>
         take_bit 24 (snd (comp_bit (inv_comp_perm des_tables) k i j p)) =
           snd (comp_bit (inv_comp_perm des_tables) k i j p)"
proof -
  obtain il ir where p: "p = (il, ir)" by (cases p)
  from assms(1,2) have "7 * k + j < 56" by simp
  from inv_comp_perm_range [OF this]
  have r: "unat (inv_comp_perm des_tables ! (7 * k + j)) = 255 \<or>
           unat (inv_comp_perm des_tables ! (7 * k + j)) < 48" .
  have "\<not> obit < 24 \<Longrightarrow> obit < 48 \<Longrightarrow> obit - 24 < 24" for obit :: nat by simp
  with assms(3) r show ?thesis
    unfolding p comp_bit_def by (auto simp: Let_def bits24_fits)
qed

lemma comp_entry_fits:
  assumes "k < 8"
  shows "take_bit 24 (cpl k i) = cpl k i" and "take_bit 24 (cpr k i) = cpr k i"
proof -
  let ?P = "\<lambda>p :: u32 \<times> u32. take_bit 24 (fst p) = fst p \<and> take_bit 24 (snd p) = snd p"
  have "?P (fold (comp_bit (inv_comp_perm des_tables) k i) [0..<7] (0, 0))"
    by (rule fold_invariant) (use assms comp_bit_fits in simp_all)
  then show "take_bit 24 (cpl k i) = cpl k i" and "take_bit 24 (cpr k i) = cpr k i"
    by (simp_all add: cpl_def cpr_def comp_entry_def)
qed

lemma or8_fits:
  assumes "\<And>k i. k < 8 \<Longrightarrow> take_bit n (f k i) = f k i"
  shows "take_bit n (or8 f ix) = or8 f ix"
  by (simp add: or8_def assms)

lemma key_shifts_length: "length key_shifts = 16"
  by (simp add: key_shifts_def)

lemma key_round_Some:
  assumes "round < 16" "des_ctx_wf ctx"
  shows "key_round des_tables k0 k1 round (shifts, ctx) = Some (key_round_ref k0 k1 round (shifts, ctx))"
  using assms
  by (simp add: key_round_def key_round_ref_def or_masks_comp rd_Some key_shifts_length des_ctx_wf_def)
     (simp only: Let_def)

lemma key_round_ref_wf:
  "des_ctx_wf ctx \<Longrightarrow> des_ctx_wf (snd (key_round_ref k0 k1 round (shifts, ctx)))"
  by (simp add: key_round_ref_def des_ctx_wf_def Let_def)

lemma list_all_update: "list_all P xs \<Longrightarrow> P v \<Longrightarrow> list_all P (xs[i := v])"
  by (induction xs arbitrary: i) (simp_all split: nat.split)

lemma key_round_ref_fit:
  "keys_fit ctx \<Longrightarrow> keys_fit (snd (key_round_ref k0 k1 round (shifts, ctx)))"
  by (simp add: key_round_ref_def keys_fit_def des_ctx_wf_def Let_def list_all_update or8_fits comp_entry_fits)

lemma key_rounds_Some:
  "\<forall>r\<in>set rs. r < 16 \<Longrightarrow> des_ctx_wf (snd st) \<Longrightarrow>
   key_rounds des_tables k0 k1 rs st = Some (fold (key_round_ref k0 k1) rs st)"
proof (induction rs arbitrary: st)
  case Nil
  show ?case by simp
next
  case (Cons r rs)
  obtain sh ctx where st: "st = (sh, ctx)" by (cases st)
  from Cons.prems st have 1: "key_round des_tables k0 k1 r st = Some (key_round_ref k0 k1 r st)"
    by (simp add: key_round_Some)
  from Cons.prems st have "des_ctx_wf (snd (key_round_ref k0 k1 r st))"
    by (simp add: key_round_ref_wf)
  with Cons.prems Cons.IH [of "key_round_ref k0 k1 r st"] 1 show ?case by simp
qed

lemma key_round_ref_fields:
  "saltbits (snd (key_round_ref k0 k1 round (sh, ctx))) = saltbits ctx"
  "length (en_keysl (snd (key_round_ref k0 k1 round (sh, ctx)))) = length (en_keysl ctx)"
  "length (en_keysr (snd (key_round_ref k0 k1 round (sh, ctx)))) = length (en_keysr ctx)"
  "i \<noteq> round \<Longrightarrow> en_keysl (snd (key_round_ref k0 k1 round (sh, ctx))) ! i = en_keysl ctx ! i"
  "i \<noteq> round \<Longrightarrow> en_keysr (snd (key_round_ref k0 k1 round (sh, ctx))) ! i = en_keysr ctx ! i"
  "round < length (en_keysl ctx) \<Longrightarrow>
     take_bit 24 (en_keysl (snd (key_round_ref k0 k1 round (sh, ctx))) ! round) =
       en_keysl (snd (key_round_ref k0 k1 round (sh, ctx))) ! round"
  "round < length (en_keysr ctx) \<Longrightarrow>
     take_bit 24 (en_keysr (snd (key_round_ref k0 k1 round (sh, ctx))) ! round) =
       en_keysr (snd (key_round_ref k0 k1 round (sh, ctx))) ! round"
  by (simp_all add: key_round_ref_def Let_def or8_fits comp_entry_fits)

lemma key_sched_prefix:
  fixes k0 k1 :: u32 and ctx :: des_ctx and n :: nat
  assumes "des_ctx_wf ctx" "n \<le> 16"
  defines "c \<equiv> snd (fold (key_round_ref k0 k1) [0..<n] (0, ctx))"
  shows "des_ctx_wf c \<and> saltbits c = saltbits ctx \<and>
         (\<forall>i<n. take_bit 24 (en_keysl c ! i) = en_keysl c ! i \<and>
                 take_bit 24 (en_keysr c ! i) = en_keysr c ! i)"
  using assms(2) unfolding c_def
proof (induction n)
  case 0
  show ?case using assms(1) by simp
next
  case (Suc n)
  obtain sh c where f: "fold (key_round_ref k0 k1) [0..<n] (0, ctx) = (sh, c)"
    by (cases "fold (key_round_ref k0 k1) [0..<n] (0, ctx)")
  with Suc have c: "des_ctx_wf c" "saltbits c = saltbits ctx"
    and fit: "\<And>i. i < n \<Longrightarrow> take_bit 24 (en_keysl c ! i) = en_keysl c ! i \<and>
                 take_bit 24 (en_keysr c ! i) = en_keysr c ! i"
    by simp_all
  from c(1) Suc.prems have n: "n < length (en_keysl c)" "n < length (en_keysr c)"
    by (simp_all add: des_ctx_wf_def)
  have "take_bit 24 (en_keysl (snd (key_round_ref k0 k1 n (sh, c))) ! i) =
          en_keysl (snd (key_round_ref k0 k1 n (sh, c))) ! i \<and>
        take_bit 24 (en_keysr (snd (key_round_ref k0 k1 n (sh, c))) ! i) =
          en_keysr (snd (key_round_ref k0 k1 n (sh, c))) ! i" if "i < Suc n" for i
  proof (cases "i = n")
    case True
    then show ?thesis
      using key_round_ref_fields(6) [OF n(1), of k0 k1 sh] key_round_ref_fields(7) [OF n(2), of k0 k1 sh]
      by simp
  next
    case False
    with that have "i < n" by simp
    with False fit show ?thesis by (simp add: key_round_ref_fields)
  qed
  moreover have "des_ctx_wf (snd (key_round_ref k0 k1 n (sh, c)))"
    using c(1) by (rule key_round_ref_wf)
  ultimately show ?case
    using c(2) by (simp add: f key_round_ref_fields)
qed

lemma key_sched_ref_fit:
  assumes "des_ctx_wf ctx"
  shows "keys_fit (key_sched_ref a b ctx)" and "saltbits (key_sched_ref a b ctx) = saltbits ctx"
proof -
  have "(16 :: nat) \<le> 16" by simp
  note p = key_sched_prefix [OF assms this,
      of "or8 kpl (key_perm_index a b)" "or8 kpr (key_perm_index a b)", folded key_sched_ref_def]
  from p show "saltbits (key_sched_ref a b ctx) = saltbits ctx" by blast
  from p show "keys_fit (key_sched_ref a b ctx)"
    by (simp add: keys_fit_def list_all_length des_ctx_wf_def)
qed

lemma des_set_key_Some:
  assumes "des_reachable s" "unpack_block key = Some (rawkey0, rawkey1)" "des_ctx_wf ctx"
  shows "des_set_key s ctx key = Some (des_tables, key_sched_ref rawkey0 rawkey1 ctx)"
proof -
  have "key_rounds des_tables k0 k1 [0..<16] (0, ctx) = Some (fold (key_round_ref k0 k1) [0..<16] (0, ctx))"
    for k0 k1
    by (rule key_rounds_Some) (use assms(3) in simp_all)
  then show ?thesis
    using assms(1,2)
    by (simp add: des_set_key_def des_reachable_init_tables or_masks_key key_sched_ref_def
        case_prod_beta)
qed

lemma keys_fit_nth:
  assumes "keys_fit ctx" "ki < 16"
  shows "rd (en_keysl ctx) ki = Some (en_keysl ctx ! ki)"
    and "rd (en_keysr ctx) ki = Some (en_keysr ctx ! ki)"
    and "take_bit 24 (en_keysl ctx ! ki) = en_keysl ctx ! ki"
    and "take_bit 24 (en_keysr ctx ! ki) = en_keysr ctx ! ki"
  using assms by (simp_all add: keys_fit_def des_ctx_wf_def rd_def list_all_length)

lemma sp_bind:
  assumes "b < 4" "unat x < 4096"
  shows "(rd2 (m_sbox des_tables) b (unat x) \<bind> (\<lambda>m. rd2 (psbox des_tables) b (unat m) \<bind> g))
         = g (sp_entry b x)"
  using assms by (simp add: rd2_m_sbox rd2_psbox unat_u8_less sp_entry_def)

lemma des_round_Some:
  assumes "keys_fit ctx" "ki < 16"
  shows "des_round des_tables ctx ki st = Some (round_ref ctx ki st)"
proof -
  note k = keys_fit_nth [OF assms]
  let ?f = "(expand_l (reg_r st) XOR expand_r (reg_r st)) AND saltbits ctx"
  let ?r48l = "expand_l (reg_r st) XOR (?f XOR en_keysl ctx ! ki)"
  let ?r48r = "expand_r (reg_r st) XOR (?f XOR en_keysr ctx ! ki)"
  have f: "take_bit 24 ?f = ?f"
    by (intro fits_and1 fits_xor expand_l_fits expand_r_fits)
  have l: "take_bit 24 ?r48l = ?r48l"
    by (intro fits_xor expand_l_fits f k)
  have r: "take_bit 24 ?r48r = ?r48r"
    by (intro fits_xor expand_r_fits f k)
  have ix: "unat (drop_bit 12 ?r48l) < 4096" "unat (?r48l AND 0xfff) < 4096"
    "unat (drop_bit 12 ?r48r) < 4096" "unat (?r48r AND 0xfff) < 4096"
    by (rule fits_unat_drop [OF l] unat_and_less fits_unat_drop [OF r])+
  have n: "(0 :: nat) < 4" "(1 :: nat) < 4" "(2 :: nat) < 4" "(3 :: nat) < 4" by simp_all
  show ?thesis
    by (simp only: des_round_def round_ref_def Let_def k(1,2) Option.bind.simps sp_bind n ix)
qed

lemma des_rounds_Some:
  "keys_fit ctx \<Longrightarrow> ki + n \<le> 16 \<Longrightarrow>
   des_rounds des_tables ctx n ki st = Some (rounds_ref ctx n ki st)"
  by (induction n arbitrary: ki st) (simp_all add: des_round_Some)

lemma des_loop_Some:
  "keys_fit ctx \<Longrightarrow> des_loop des_tables ctx n st = Some ((rep_ref ctx ^^ n) st)"
  by (induction n arbitrary: st) (simp_all add: des_rounds_Some rep_ref_def Let_def funpow_swap1)



lemma do_des_Some:
  assumes "keys_fit ctx" "0 < count" "unpack_block input = Some (lt, rt)"
  shows "do_des des_tables ctx input output count =
           (case fp_words ((rep_ref ctx ^^ nat count) (ip_regs lt rt)) of
              (a, b) \<Rightarrow> pack_block output a b \<bind> (\<lambda>out. Some (0, out)))"
  using assms
  by (simp add: do_des_def or_masks_ip or_masks_fp des_loop_Some ip_regs_def fp_words_def)

lemma do_des_error: "count \<le> 0 \<Longrightarrow> do_des s ctx input output count = Some (1, output)"
  by (simp add: do_des_def)

subsection \<open>\<^verbatim>\<open>des_cipher_block\<close> as a whole\<close>

lemma des_set_salt_fields:
  "en_keysl (des_set_salt ctx salt) = en_keysl ctx"
  "en_keysr (des_set_salt ctx salt) = en_keysr ctx"
  by (simp_all add: des_set_salt_def case_prod_beta)

lemma des_set_salt_fit: "keys_fit (des_set_salt ctx salt) = keys_fit ctx"
  by (simp add: keys_fit_def des_ctx_wf_def des_set_salt_fields)

lemma memset_ctx_wf:
  "des_ctx_wf ctx \<Longrightarrow>
   memset_ctx ctx = \<lparr>saltbits = 0, en_keysl = replicate 16 0, en_keysr = replicate 16 0\<rparr>"
  by (simp add: memset_ctx_def des_ctx_wf_def map_replicate_const)

lemma unpack_block_Some: "length b = 8 \<Longrightarrow> \<exists>lt rt. unpack_block b = Some (lt, rt)"
  using list8 [of b] unpack_block_8 by fastforce

lemma pack_block_Some: "length b = 8 \<Longrightarrow> \<exists>out. pack_block b l r = Some out"
  by (simp add: pack_block_def)

lemma cipher_ctx_fit: "des_ctx_wf ctx0 \<Longrightarrow> keys_fit (cipher_ctx ctx0 a b salt)"
  by (simp add: cipher_ctx_def des_set_salt_fit key_sched_ref_fit)

lemma des_cipher_block_eq:
  assumes "des_reachable s" "des_ctx_wf ctx0" "unpack_block key = Some (k0, k1)"
  shows "des_cipher_block s ctx0 key input output salt count =
           do_des des_tables (cipher_ctx ctx0 k0 k1 salt) input output count \<bind>
             (\<lambda>(rc, out). Some (rc, out, des_tables,
                \<lparr>saltbits = 0, en_keysl = replicate 16 0, en_keysr = replicate 16 0\<rparr>))"
proof -
  have "des_reachable des_tables" by (simp add: des_reachable_def)
  then have "des_set_key des_tables ctx0 key = Some (des_tables, key_sched_ref k0 k1 ctx0)"
    using assms(2,3) by (simp add: des_set_key_Some)
  moreover have "memset_ctx (cipher_ctx ctx0 k0 k1 salt) =
      \<lparr>saltbits = 0, en_keysl = replicate 16 0, en_keysr = replicate 16 0\<rparr>"
    using cipher_ctx_fit [OF assms(2)] by (simp add: memset_ctx_wf keys_fit_def)
  ultimately show ?thesis
    unfolding des_cipher_block_def des_reachable_init [OF assms(1)]
    by (simp add: cipher_ctx_def Let_def)
qed

lemma des_cipher_block_error:
  assumes "des_reachable s" "des_ctx_wf ctx0" "length key = 8" "count \<le> 0"
  shows "des_cipher_block s ctx0 key input output salt count =
           Some (1, output, des_tables,
                 \<lparr>saltbits = 0, en_keysl = replicate 16 0, en_keysr = replicate 16 0\<rparr>)"
proof -
  from unpack_block_Some [OF assms(3)] obtain k0 k1 where "unpack_block key = Some (k0, k1)" by blast
  from des_cipher_block_eq [OF assms(1,2) this] assms(4) show ?thesis
    by (simp add: do_des_error)
qed

lemma des_cipher_block_success:
  assumes "des_reachable s" "des_ctx_wf ctx0" "unpack_block key = Some (k0, k1)"
    "unpack_block input = Some (lt, rt)" "0 < count"
  shows "des_cipher_block s ctx0 key input output salt count =
           (case fp_words ((rep_ref (cipher_ctx ctx0 k0 k1 salt) ^^ nat count) (ip_regs lt rt)) of
              (a, b) \<Rightarrow> pack_block output a b \<bind> (\<lambda>out.
                Some (0, out, des_tables,
                  \<lparr>saltbits = 0, en_keysl = replicate 16 0, en_keysr = replicate 16 0\<rparr>)))"
  unfolding des_cipher_block_eq [OF assms(1,2,3)]
    do_des_Some [OF cipher_ctx_fit [OF assms(2)] assms(5,4)]
  by (simp add: case_prod_beta)

subsection \<open>The claims about the entry point\<close>

text \<open>
  C2. With 8-byte buffers, \<^verbatim>\<open>des_cipher_block\<close> returns for every count, and it
  fails exactly when \<open>count \<le> 0\<close>. For \<open>count \<le> 0\<close> it returns the error 1 and the
  output buffer as it was. For \<open>count \<ge> 1\<close> it returns 0, and all eight bytes of the
  output buffer are stored: they are the big-endian bytes of the two words that the final
  permutation gives on the registers the round loop ends with, started on the initial
  permutation of the input under the key schedule and salt mask of the call.
\<close>

theorem des_cipher_block_status:
  assumes "des_reachable s" and "des_ctx_wf ctx0"
    and "length key = 8" and "length input = 8" and "length output = 8"
  shows "\<exists>rc out s' ctx'.
           des_cipher_block s ctx0 key input output salt count = Some (rc, out, s', ctx') \<and>
           (rc \<noteq> 0 \<longleftrightarrow> count \<le> 0) \<and>
           (count \<le> 0 \<longrightarrow> rc = 1 \<and> out = output) \<and>
           (1 \<le> count \<longrightarrow> rc = 0 \<and>
              (\<exists>ctx lt rt l r st a b.
                 des_set_key s ctx0 key = Some (des_tables, ctx) \<and>
                 unpack_block input = Some (lt, rt) \<and>
                 or_masks (ip_maskl des_tables) (ip_maskr des_tables) (byte_index lt rt) = Some (l, r) \<and>
                 des_loop des_tables (des_set_salt ctx (of_int salt)) (nat count)
                   \<lparr>reg_l = l, reg_r = r, reg_f = 0, rounds_run = 0, reps_run = 0\<rparr> = Some st \<and>
                 or_masks (fp_maskl des_tables) (fp_maskr des_tables)
                   (byte_index (reg_l st) (reg_r st)) = Some (a, b) \<and>
                 out = [ucast (drop_bit 24 a), ucast (drop_bit 16 a AND 0xff),
                        ucast (drop_bit 8 a AND 0xff), ucast (a AND 0xff),
                        ucast (drop_bit 24 b), ucast (drop_bit 16 b AND 0xff),
                        ucast (drop_bit 8 b AND 0xff), ucast (b AND 0xff)]))"
proof (cases "count \<le> 0")
  case True
  with des_cipher_block_error [OF assms(1,2,3) True] show ?thesis by simp
next
  case False
  then have c: "0 < count" by simp
  from unpack_block_Some [OF assms(3)] obtain k0 k1 where k: "unpack_block key = Some (k0, k1)" by blast
  from unpack_block_Some [OF assms(4)] obtain lt rt where i: "unpack_block input = Some (lt, rt)" by blast
  define ctx where "ctx = key_sched_ref k0 k1 ctx0"
  define st where "st = (rep_ref (cipher_ctx ctx0 k0 k1 salt) ^^ nat count) (ip_regs lt rt)"
  define a where "a = or8 fpl (byte_index (reg_l st) (reg_r st))"
  define b where "b = or8 fpr (byte_index (reg_l st) (reg_r st))"
  define out where "out = [ucast (drop_bit 24 a), ucast (drop_bit 16 a AND 0xff),
                        ucast (drop_bit 8 a AND 0xff), ucast (a AND 0xff),
                        ucast (drop_bit 24 b), ucast (drop_bit 16 b AND 0xff),
                        ucast (drop_bit 8 b AND 0xff), ucast (b AND 0xff) :: u8]"
  have 1: "des_set_key s ctx0 key = Some (des_tables, ctx)"
    unfolding ctx_def using assms(1) k assms(2) by (rule des_set_key_Some)
  have 2: "or_masks (ip_maskl des_tables) (ip_maskr des_tables) (byte_index lt rt)
             = Some (reg_l (ip_regs lt rt), reg_r (ip_regs lt rt))"
    by (simp add: or_masks_ip ip_regs_def)
  have 3: "des_loop des_tables (des_set_salt ctx (of_int salt)) (nat count)
             \<lparr>reg_l = reg_l (ip_regs lt rt), reg_r = reg_r (ip_regs lt rt), reg_f = 0,
              rounds_run = 0, reps_run = 0\<rparr> = Some st"
    using des_loop_Some [OF cipher_ctx_fit [OF assms(2)], of k0 k1 salt "nat count" "ip_regs lt rt"]
    by (simp add: st_def cipher_ctx_def ctx_def ip_regs_def)
  have 4: "or_masks (fp_maskl des_tables) (fp_maskr des_tables) (byte_index (reg_l st) (reg_r st))
             = Some (a, b)"
    by (simp add: or_masks_fp a_def b_def)
  from list8 [OF assms(5)] obtain o0 o1 o2 o3 o4 o5 o6 o7
    where o: "output = [o0, o1, o2, o3, o4, o5, o6, o7]" by blast
  have 5: "pack_block output a b = Some out"
    unfolding o pack_block_8 out_def by (rule refl)
  have f: "fp_words st = (a, b)" by (simp add: fp_words_def a_def b_def)
  have 6: "des_cipher_block s ctx0 key input output salt count =
             Some (0, out, des_tables,
               \<lparr>saltbits = 0, en_keysl = replicate 16 0, en_keysr = replicate 16 0\<rparr>)"
    unfolding des_cipher_block_success [OF assms(1,2) k i c] st_def [symmetric] f by (simp add: 5)
  from c have c': "\<not> count \<le> 0" "1 \<le> count" by simp_all
  have succ: "\<exists>ctx lt rt l r st a b.
                 des_set_key s ctx0 key = Some (des_tables, ctx) \<and>
                 unpack_block input = Some (lt, rt) \<and>
                 or_masks (ip_maskl des_tables) (ip_maskr des_tables) (byte_index lt rt) = Some (l, r) \<and>
                 des_loop des_tables (des_set_salt ctx (of_int salt)) (nat count)
                   \<lparr>reg_l = l, reg_r = r, reg_f = 0, rounds_run = 0, reps_run = 0\<rparr> = Some st \<and>
                 or_masks (fp_maskl des_tables) (fp_maskr des_tables)
                   (byte_index (reg_l st) (reg_r st)) = Some (a, b) \<and>
                 out = [ucast (drop_bit 24 a), ucast (drop_bit 16 a AND 0xff),
                        ucast (drop_bit 8 a AND 0xff), ucast (a AND 0xff),
                        ucast (drop_bit 24 b), ucast (drop_bit 16 b AND 0xff),
                        ucast (drop_bit 8 b AND 0xff), ucast (b AND 0xff)]"
    using 1 i 2 3 4 out_def by blast
  show ?thesis
  proof (intro exI conjI)
    show "des_cipher_block s ctx0 key input output salt count =
             Some (0, out, des_tables,
               \<lparr>saltbits = 0, en_keysl = replicate 16 0, en_keysr = replicate 16 0\<rparr>)"
      by (rule 6)
    show "(0 :: int) \<noteq> 0 \<longleftrightarrow> count \<le> 0" using c' by simp
    show "count \<le> 0 \<longrightarrow> (0 :: int) = 1 \<and> out = output" using c' by simp
    from succ show "1 \<le> count \<longrightarrow> (0 :: int) = 0 \<and>
              (\<exists>ctx lt rt l r st a b.
                 des_set_key s ctx0 key = Some (des_tables, ctx) \<and>
                 unpack_block input = Some (lt, rt) \<and>
                 or_masks (ip_maskl des_tables) (ip_maskr des_tables) (byte_index lt rt) = Some (l, r) \<and>
                 des_loop des_tables (des_set_salt ctx (of_int salt)) (nat count)
                   \<lparr>reg_l = l, reg_r = r, reg_f = 0, rounds_run = 0, reps_run = 0\<rparr> = Some st \<and>
                 or_masks (fp_maskl des_tables) (fp_maskr des_tables)
                   (byte_index (reg_l st) (reg_r st)) = Some (a, b) \<and>
                 out = [ucast (drop_bit 24 a), ucast (drop_bit 16 a AND 0xff),
                        ucast (drop_bit 8 a AND 0xff), ucast (a AND 0xff),
                        ucast (drop_bit 24 b), ucast (drop_bit 16 b AND 0xff),
                        ucast (drop_bit 8 b AND 0xff), ucast (b AND 0xff)])"
      by simp
  qed
qed


theorem des_cipher_block_status_witness:
  "des_reachable des_static_init \<and>
   des_ctx_wf \<lparr>saltbits = 0xdeadbeef, en_keysl = replicate 16 0xffffffff, en_keysr = replicate 16 7\<rparr> \<and>
   length [1, 2, 3, 4, 5, 6, 7, 8 :: u8] = 8 \<and>
   length [9, 10, 11, 12, 13, 14, 15, 16 :: u8] = 8 \<and>
   length (replicate 8 (0xAA :: u8)) = 8 \<and>
   (\<exists>s' ctx'. des_cipher_block des_static_init
        \<lparr>saltbits = 0xdeadbeef, en_keysl = replicate 16 0xffffffff, en_keysr = replicate 16 7\<rparr>
        [1, 2, 3, 4, 5, 6, 7, 8] [9, 10, 11, 12, 13, 14, 15, 16] (replicate 8 0xAA) 0x123456 (- 1)
      = Some (1, replicate 8 0xAA, s', ctx')) \<and>
   (\<exists>out s' ctx' ctx lt rt l r st a b. des_cipher_block des_static_init
        \<lparr>saltbits = 0xdeadbeef, en_keysl = replicate 16 0xffffffff, en_keysr = replicate 16 7\<rparr>
        [1, 2, 3, 4, 5, 6, 7, 8] [9, 10, 11, 12, 13, 14, 15, 16] (replicate 8 0xAA) 0x123456 25
      = Some (0, out, s', ctx') \<and>
      des_set_key des_static_init
        \<lparr>saltbits = 0xdeadbeef, en_keysl = replicate 16 0xffffffff, en_keysr = replicate 16 7\<rparr>
        [1, 2, 3, 4, 5, 6, 7, 8] = Some (des_tables, ctx) \<and>
      unpack_block [9, 10, 11, 12, 13, 14, 15, 16] = Some (lt, rt) \<and>
      or_masks (ip_maskl des_tables) (ip_maskr des_tables) (byte_index lt rt) = Some (l, r) \<and>
      des_loop des_tables (des_set_salt ctx (of_int 0x123456)) (nat 25)
        \<lparr>reg_l = l, reg_r = r, reg_f = 0, rounds_run = 0, reps_run = 0\<rparr> = Some st \<and>
      or_masks (fp_maskl des_tables) (fp_maskr des_tables)
        (byte_index (reg_l st) (reg_r st)) = Some (a, b) \<and>
      out = [ucast (drop_bit 24 a), ucast (drop_bit 16 a AND 0xff),
             ucast (drop_bit 8 a AND 0xff), ucast (a AND 0xff),
             ucast (drop_bit 24 b), ucast (drop_bit 16 b AND 0xff),
             ucast (drop_bit 8 b AND 0xff), ucast (b AND 0xff)])"
proof -
  let ?c = "\<lparr>saltbits = 0xdeadbeef, en_keysl = replicate 16 0xffffffff, en_keysr = replicate 16 7\<rparr> :: des_ctx"
  have h: "des_reachable des_static_init" "des_ctx_wf ?c"
    "length [1, 2, 3, 4, 5, 6, 7, 8 :: u8] = 8" "length [9, 10, 11, 12, 13, 14, 15, 16 :: u8] = 8"
    "length (replicate 8 (0xAA :: u8)) = 8"
    by (simp_all add: des_reachable_def des_ctx_wf_def)
  have n: "(- 1 :: int) \<le> 0" and p: "(1 :: int) \<le> 25" by simp_all
  from des_cipher_block_status [OF h, where salt = "0x123456" and count = "- 1"]
  obtain rc out s' ctx' where
    "des_cipher_block des_static_init ?c [1, 2, 3, 4, 5, 6, 7, 8] [9, 10, 11, 12, 13, 14, 15, 16]
       (replicate 8 0xAA) 0x123456 (- 1) = Some (rc, out, s', ctx')"
    and "- 1 \<le> (0 :: int) \<longrightarrow> rc = 1 \<and> out = replicate 8 0xAA"
    by blast
  with n have 1: "\<exists>s' ctx'. des_cipher_block des_static_init ?c [1, 2, 3, 4, 5, 6, 7, 8]
      [9, 10, 11, 12, 13, 14, 15, 16] (replicate 8 0xAA) 0x123456 (- 1) = Some (1, replicate 8 0xAA, s', ctx')"
    by blast
  from des_cipher_block_status [OF h, where salt = "0x123456" and count = 25] p
  have 2: "\<exists>out s' ctx' ctx lt rt l r st a b. des_cipher_block des_static_init ?c
        [1, 2, 3, 4, 5, 6, 7, 8] [9, 10, 11, 12, 13, 14, 15, 16] (replicate 8 0xAA) 0x123456 25
      = Some (0, out, s', ctx') \<and>
      des_set_key des_static_init ?c [1, 2, 3, 4, 5, 6, 7, 8] = Some (des_tables, ctx) \<and>
      unpack_block [9, 10, 11, 12, 13, 14, 15, 16] = Some (lt, rt) \<and>
      or_masks (ip_maskl des_tables) (ip_maskr des_tables) (byte_index lt rt) = Some (l, r) \<and>
      des_loop des_tables (des_set_salt ctx (of_int 0x123456)) (nat 25)
        \<lparr>reg_l = l, reg_r = r, reg_f = 0, rounds_run = 0, reps_run = 0\<rparr> = Some st \<and>
      or_masks (fp_maskl des_tables) (fp_maskr des_tables)
        (byte_index (reg_l st) (reg_r st)) = Some (a, b) \<and>
      out = [ucast (drop_bit 24 a), ucast (drop_bit 16 a AND 0xff),
             ucast (drop_bit 8 a AND 0xff), ucast (a AND 0xff),
             ucast (drop_bit 24 b), ucast (drop_bit 16 b AND 0xff),
             ucast (drop_bit 8 b AND 0xff), ucast (b AND 0xff)]"
    by blast
  from h 1 2 show ?thesis by blast
qed

subsection \<open>The round engine\<close>

lemma keys_fit_less:
  "keys_fit ctx \<longleftrightarrow>
     des_ctx_wf ctx \<and> list_all (\<lambda>k. k < 2 ^ 24) (en_keysl ctx) \<and> list_all (\<lambda>k. k < 2 ^ 24) (en_keysr ctx)"
  by (simp add: keys_fit_def less_2p24_iff)



subsection \<open>Subscripts\<close>

lemma round_bounds:
  assumes "keys_fit ctx" "ki < 16"
  shows "(let sb = saltbits ctx;
              f = (expand_l r XOR expand_r r) AND sb;
              r48l = expand_l r XOR (f XOR en_keysl ctx ! ki);
              r48r = expand_r r XOR (f XOR en_keysr ctx ! ki)
          in expand_l r < 2 ^ 24 \<and> expand_r r < 2 ^ 24 \<and> f < 2 ^ 24 \<and>
             r48l < 2 ^ 24 \<and> r48r < 2 ^ 24 \<and>
             unat (drop_bit 12 r48l) < 4096 \<and> unat (r48l AND 0xfff) < 4096 \<and>
             unat (drop_bit 12 r48r) < 4096 \<and> unat (r48r AND 0xfff) < 4096)"
proof -
  note k = keys_fit_nth [OF assms]
  let ?f = "(expand_l r XOR expand_r r) AND saltbits ctx"
  let ?r48l = "expand_l r XOR (?f XOR en_keysl ctx ! ki)"
  let ?r48r = "expand_r r XOR (?f XOR en_keysr ctx ! ki)"
  have f: "take_bit 24 ?f = ?f"
    by (intro fits_and1 fits_xor expand_l_fits expand_r_fits)
  have l: "take_bit 24 ?r48l = ?r48l"
    by (intro fits_xor expand_l_fits f k)
  have r: "take_bit 24 ?r48r = ?r48r"
    by (intro fits_xor expand_r_fits f k)
  have "unat (drop_bit 12 ?r48l) < 4096" "unat (?r48l AND 0xfff) < 4096"
    "unat (drop_bit 12 ?r48r) < 4096" "unat (?r48r AND 0xfff) < 4096"
    by (rule fits_unat_drop [OF l] unat_and_less fits_unat_drop [OF r])+
  moreover have "expand_l r < 2 ^ 24" "expand_r r < 2 ^ 24" "?f < 2 ^ 24" "?r48l < 2 ^ 24" "?r48r < 2 ^ 24"
    by (rule fits_less expand_l_fits expand_r_fits f l r)+
  ultimately show ?thesis unfolding Let_def by blast
qed

text \<open>
  C7. For \<open>count \<ge> 1\<close> and 8-byte buffers no read of a table or of the context is out of
  range: \<^verbatim>\<open>des_set_key\<close> and \<^verbatim>\<open>des_cipher_block\<close> return, which they do only if every
  checked read was inside its array. In particular \<^verbatim>\<open>saltbits\<close> and the 16 subkey halves
  on each side are below \<open>2^24\<close>; for every \<^verbatim>\<open>r\<close> and every round the expansions,
  \<^verbatim>\<open>f\<close> and the two halves after the XOR with \<^verbatim>\<open>f\<close> and the subkey are below \<open>2^24\<close>,
  so the four subscripts of \<^verbatim>\<open>m_sbox\<close> are below 4096; an element of \<^verbatim>\<open>m_sbox\<close> is
  below 256; the subscripts of the initial and final permutation masks are below 256 and
  those of the key and compression masks below 128.
\<close>

theorem des_lookups_in_range:
  fixes r t0 t1 a b :: u32 and m :: u8
  assumes "des_reachable s" and "des_ctx_wf ctx0"
    and "length key = 8" and "length input = 8" and "length output = 8" and "1 \<le> count"
  shows "\<exists>rawkey0 rawkey1 ctx out.
           unpack_block key = Some (rawkey0, rawkey1) \<and>
           des_set_key s ctx0 key = Some (des_tables, ctx) \<and>
           des_cipher_block s ctx0 key input output salt count =
             Some (0, out, des_tables, memset_ctx ctx) \<and>
           saltbits (des_set_salt ctx (of_int salt)) < 2 ^ 24 \<and>
           length (en_keysl ctx) = 16 \<and> length (en_keysr ctx) = 16 \<and>
           list_all (\<lambda>k. k < 2 ^ 24) (en_keysl ctx) \<and>
           list_all (\<lambda>k. k < 2 ^ 24) (en_keysr ctx) \<and>
           list_all (\<lambda>ki.
              let sb = saltbits (des_set_salt ctx (of_int salt));
                  f = (expand_l r XOR expand_r r) AND sb;
                  r48l = expand_l r XOR (f XOR en_keysl ctx ! ki);
                  r48r = expand_r r XOR (f XOR en_keysr ctx ! ki)
              in expand_l r < 2 ^ 24 \<and> expand_r r < 2 ^ 24 \<and> f < 2 ^ 24 \<and>
                 r48l < 2 ^ 24 \<and> r48r < 2 ^ 24 \<and>
                 unat (drop_bit 12 r48l) < 4096 \<and> unat (r48l AND 0xfff) < 4096 \<and>
                 unat (drop_bit 12 r48r) < 4096 \<and> unat (r48r AND 0xfff) < 4096) [0..<16] \<and>
           unat m < 256 \<and>
           list_all (\<lambda>i. i < 128) (key_perm_index rawkey0 rawkey1) \<and>
           list_all (\<lambda>i. i < 128) (comp_index t0 t1) \<and>
           list_all (\<lambda>i. i < 256) (byte_index a b)"
proof -
  from assms(6) have c: "0 < count" by simp
  from unpack_block_Some [OF assms(3)] obtain k0 k1 where k: "unpack_block key = Some (k0, k1)" by blast
  from unpack_block_Some [OF assms(4)] obtain lt rt where i: "unpack_block input = Some (lt, rt)" by blast
  define ctx where "ctx = key_sched_ref k0 k1 ctx0"
  have fit: "keys_fit ctx" unfolding ctx_def using assms(2) by (rule key_sched_ref_fit)
  then have fit': "keys_fit (des_set_salt ctx (of_int salt))" by (simp add: des_set_salt_fit)
  have 1: "des_set_key s ctx0 key = Some (des_tables, ctx)"
    unfolding ctx_def using assms(1) k assms(2) by (rule des_set_key_Some)
  obtain x y where f: "fp_words ((rep_ref (cipher_ctx ctx0 k0 k1 salt) ^^ nat count) (ip_regs lt rt)) = (x, y)"
    by (cases "fp_words ((rep_ref (cipher_ctx ctx0 k0 k1 salt) ^^ nat count) (ip_regs lt rt))")
  from pack_block_Some [OF assms(5)] obtain out where o: "pack_block output x y = Some out" by blast
  have m: "memset_ctx ctx = \<lparr>saltbits = 0, en_keysl = replicate 16 0, en_keysr = replicate 16 0\<rparr>"
    using fit by (simp add: memset_ctx_wf keys_fit_def)
  have 2: "des_cipher_block s ctx0 key input output salt count = Some (0, out, des_tables, memset_ctx ctx)"
    unfolding des_cipher_block_success [OF assms(1,2) k i c] f m using o by simp
  have 3: "saltbits (des_set_salt ctx (of_int salt)) < 2 ^ 24"
    using saltbits_less [of ctx "of_int salt"] by simp
  from fit have 4: "length (en_keysl ctx) = 16" "length (en_keysr ctx) = 16"
    "list_all (\<lambda>k. k < 2 ^ 24) (en_keysl ctx)" "list_all (\<lambda>k. k < 2 ^ 24) (en_keysr ctx)"
    by (simp_all add: keys_fit_less des_ctx_wf_def)
  have 5: "list_all (\<lambda>ki.
              let sb = saltbits (des_set_salt ctx (of_int salt));
                  f = (expand_l r XOR expand_r r) AND sb;
                  r48l = expand_l r XOR (f XOR en_keysl ctx ! ki);
                  r48r = expand_r r XOR (f XOR en_keysr ctx ! ki)
              in expand_l r < 2 ^ 24 \<and> expand_r r < 2 ^ 24 \<and> f < 2 ^ 24 \<and>
                 r48l < 2 ^ 24 \<and> r48r < 2 ^ 24 \<and>
                 unat (drop_bit 12 r48l) < 4096 \<and> unat (r48l AND 0xfff) < 4096 \<and>
                 unat (drop_bit 12 r48r) < 4096 \<and> unat (r48r AND 0xfff) < 4096) [0..<16]"
    unfolding list_all_iff
  proof
    fix ki :: nat assume "ki \<in> set [0..<16]"
    then have "ki < 16" by simp
    from round_bounds [OF fit' this, of r]
    show "let sb = saltbits (des_set_salt ctx (of_int salt));
                  f = (expand_l r XOR expand_r r) AND sb;
                  r48l = expand_l r XOR (f XOR en_keysl ctx ! ki);
                  r48r = expand_r r XOR (f XOR en_keysr ctx ! ki)
              in expand_l r < 2 ^ 24 \<and> expand_r r < 2 ^ 24 \<and> f < 2 ^ 24 \<and>
                 r48l < 2 ^ 24 \<and> r48r < 2 ^ 24 \<and>
                 unat (drop_bit 12 r48l) < 4096 \<and> unat (r48l AND 0xfff) < 4096 \<and>
                 unat (drop_bit 12 r48r) < 4096 \<and> unat (r48r AND 0xfff) < 4096"
      by (simp only: des_set_salt_fields)
  qed
  from k 1 2 3 4 5 unat_u8_less [of m] index_bounds(2) [of k0 k1] index_bounds(3) [of t0 t1]
    index_bounds(1) [of a b]
  show ?thesis by blast
qed

theorem des_lookups_in_range_witness:
  "des_reachable des_static_init \<and>
   des_ctx_wf \<lparr>saltbits = 0xdeadbeef, en_keysl = replicate 16 0xffffffff, en_keysr = replicate 16 7\<rparr> \<and>
   length [1, 2, 3, 4, 5, 6, 7, 8 :: u8] = 8 \<and>
   length [9, 10, 11, 12, 13, 14, 15, 16 :: u8] = 8 \<and>
   length (replicate 8 (0xAA :: u8)) = 8 \<and>
   (1 :: int) \<le> 25 \<and>
   (\<exists>rawkey0 rawkey1 ctx out.
      unpack_block [1, 2, 3, 4, 5, 6, 7, 8] = Some (rawkey0, rawkey1) \<and>
      des_set_key des_static_init
        \<lparr>saltbits = 0xdeadbeef, en_keysl = replicate 16 0xffffffff, en_keysr = replicate 16 7\<rparr>
        [1, 2, 3, 4, 5, 6, 7, 8] = Some (des_tables, ctx) \<and>
      des_cipher_block des_static_init
        \<lparr>saltbits = 0xdeadbeef, en_keysl = replicate 16 0xffffffff, en_keysr = replicate 16 7\<rparr>
        [1, 2, 3, 4, 5, 6, 7, 8] [9, 10, 11, 12, 13, 14, 15, 16] (replicate 8 0xAA) 0x123456 25 =
        Some (0, out, des_tables, memset_ctx ctx) \<and>
      saltbits (des_set_salt ctx (of_int 0x123456)) < 2 ^ 24 \<and>
      length (en_keysl ctx) = 16 \<and> length (en_keysr ctx) = 16 \<and>
      list_all (\<lambda>k. k < 2 ^ 24) (en_keysl ctx) \<and>
      list_all (\<lambda>k. k < 2 ^ 24) (en_keysr ctx) \<and>
      list_all (\<lambda>ki.
         let sb = saltbits (des_set_salt ctx (of_int 0x123456));
             f = (expand_l 0x89abcdef XOR expand_r 0x89abcdef) AND sb;
             r48l = expand_l 0x89abcdef XOR (f XOR en_keysl ctx ! ki);
             r48r = expand_r 0x89abcdef XOR (f XOR en_keysr ctx ! ki)
         in expand_l 0x89abcdef < 2 ^ 24 \<and> expand_r 0x89abcdef < 2 ^ 24 \<and> f < 2 ^ 24 \<and>
            r48l < 2 ^ 24 \<and> r48r < 2 ^ 24 \<and>
            unat (drop_bit 12 r48l) < 4096 \<and> unat (r48l AND 0xfff) < 4096 \<and>
            unat (drop_bit 12 r48r) < 4096 \<and> unat (r48r AND 0xfff) < 4096) [0..<16] \<and>
      unat (0xff :: u8) < 256 \<and>
      list_all (\<lambda>i. i < 128) (key_perm_index rawkey0 rawkey1) \<and>
      list_all (\<lambda>i. i < 128) (comp_index 0xffffffff 0xfedcba98) \<and>
      list_all (\<lambda>i. i < 256) (byte_index 0xffffffff 0x01234567))"
proof -
  let ?c = "\<lparr>saltbits = 0xdeadbeef, en_keysl = replicate 16 0xffffffff, en_keysr = replicate 16 7\<rparr> :: des_ctx"
  have h: "des_reachable des_static_init" "des_ctx_wf ?c"
    "length [1, 2, 3, 4, 5, 6, 7, 8 :: u8] = 8" "length [9, 10, 11, 12, 13, 14, 15, 16 :: u8] = 8"
    "length (replicate 8 (0xAA :: u8)) = 8" "(1 :: int) \<le> 25"
    by (simp_all add: des_reachable_def des_ctx_wf_def)
  note r = des_lookups_in_range [OF h, where salt = "0x123456" and r = "0x89abcdef" and m = "0xff"
      and ?t0.0 = "0xffffffff" and ?t1.0 = "0xfedcba98" and a = "0xffffffff" and b = "0x01234567"]
  show ?thesis
    by (intro conjI h r)
qed

subsection \<open>The parity bits of the key\<close>

lemma mask7: "(0x7f :: u32) = mask 7" by (simp add: mask_eq_exp_minus_1)

lemma key_slices:
  fixes a b c d :: u8
  defines "w \<equiv> (push_bit 24 (ucast a) OR push_bit 16 (ucast b) OR push_bit 8 (ucast c) OR ucast d :: u32)"
  shows "drop_bit 25 w = ucast (drop_bit 1 a)"
    and "drop_bit 17 w AND 0x7f = ucast (drop_bit 1 b)"
    and "drop_bit 9 w AND 0x7f = ucast (drop_bit 1 c)"
    and "drop_bit 1 w AND 0x7f = ucast (drop_bit 1 d)"
proof -
  have e: "bit x (Suc n) \<Longrightarrow> n < 7" for x :: u8 and n
    using bit_imp_le_length [of x "Suc n"] by simp
  show "drop_bit 25 w = ucast (drop_bit 1 a)"
    unfolding w_def
    by (rule bit_word_eqI) (auto simp: bit_simps dest: bit_imp_le_length)
  show "drop_bit 17 w AND 0x7f = ucast (drop_bit 1 b)"
    unfolding w_def mask7
    by (rule bit_word_eqI) (auto simp: bit_simps dest: bit_imp_le_length e)
  show "drop_bit 9 w AND 0x7f = ucast (drop_bit 1 c)"
    unfolding w_def mask7
    by (rule bit_word_eqI) (auto simp: bit_simps dest: bit_imp_le_length e)
  show "drop_bit 1 w AND 0x7f = ucast (drop_bit 1 d)"
    unfolding w_def mask7
    by (rule bit_word_eqI) (auto simp: bit_simps dest: bit_imp_le_length e)
qed

lemma key_perm_index_8:
  "unpack_block [a, b, c, d, e, f, g, h] = Some (w0, w1) \<Longrightarrow>
   key_perm_index w0 w1 =
     [unat (ucast (drop_bit 1 a) :: u32), unat (ucast (drop_bit 1 b) :: u32),
      unat (ucast (drop_bit 1 c) :: u32), unat (ucast (drop_bit 1 d) :: u32),
      unat (ucast (drop_bit 1 e) :: u32), unat (ucast (drop_bit 1 f) :: u32),
      unat (ucast (drop_bit 1 g) :: u32), unat (ucast (drop_bit 1 h) :: u32)]"
  unfolding unpack_block_8 key_perm_index_def
  by (auto simp only: key_slices)

lemma key_perm_index_parity:
  assumes "length key1 = 8" "map (drop_bit 1) key1 = map (drop_bit 1) key2"
    and "unpack_block key1 = Some (a0, a1)" "unpack_block key2 = Some (b0, b1)"
  shows "key_perm_index a0 a1 = key_perm_index b0 b1"
proof -
  from assms(2) have "length key2 = length key1" by (metis length_map)
  with assms(1) have l2: "length key2 = 8" by simp
  from list8 [OF assms(1)] obtain a b c d e f g h where 1: "key1 = [a, b, c, d, e, f, g, h]" by blast
  from list8 [OF l2] obtain a' b' c' d' e' f' g' h' where 2: "key2 = [a', b', c', d', e', f', g', h']"
    by blast
  from assms(2) have "drop_bit 1 a = drop_bit 1 a'" "drop_bit 1 b = drop_bit 1 b'"
    "drop_bit 1 c = drop_bit 1 c'" "drop_bit 1 d = drop_bit 1 d'" "drop_bit 1 e = drop_bit 1 e'"
    "drop_bit 1 f = drop_bit 1 f'" "drop_bit 1 g = drop_bit 1 g'" "drop_bit 1 h = drop_bit 1 h'"
    unfolding 1 2 by simp_all
  then show ?thesis
    using key_perm_index_8 [OF assms(3) [unfolded 1]] key_perm_index_8 [OF assms(4) [unfolded 2]]
    by (simp only:)
qed

lemma des_cipher_block_returns:
  assumes "des_reachable s" "des_ctx_wf ctx0" "length key = 8" "length input = 8" "length output = 8"
  shows "\<exists>res. des_cipher_block s ctx0 key input output salt count = Some res"
proof (cases "count \<le> 0")
  case True
  with des_cipher_block_error [OF assms(1,2,3) True] show ?thesis by simp
next
  case False
  then have c: "0 < count" by simp
  from unpack_block_Some [OF assms(3)] obtain k0 k1 where k: "unpack_block key = Some (k0, k1)" by blast
  from unpack_block_Some [OF assms(4)] obtain lt rt where i: "unpack_block input = Some (lt, rt)" by blast
  obtain a b where f: "fp_words ((rep_ref (cipher_ctx ctx0 k0 k1 salt) ^^ nat count) (ip_regs lt rt)) = (a, b)"
    by (cases "fp_words ((rep_ref (cipher_ctx ctx0 k0 k1 salt) ^^ nat count) (ip_regs lt rt))")
  from pack_block_Some [OF assms(5)] obtain out where o: "pack_block output a b = Some out" by blast
  from des_cipher_block_success [OF assms(1,2) k i c] f o show ?thesis by simp
qed

text \<open>
  C5. Two 8-byte keys whose bytes agree in their seven high bits give the same key
  schedule and the same result of \<^verbatim>\<open>des_cipher_block\<close>, for every input, salt and count.
\<close>

theorem des_key_parity_ignored:
  assumes "des_reachable s" and "des_ctx_wf ctx0"
    and "length key1 = 8" and "map (drop_bit 1) key1 = map (drop_bit 1) key2"
    and "length input = 8" and "length output = 8"
  shows "\<exists>ctx res.
           des_set_key s ctx0 key1 = Some (des_tables, ctx) \<and>
           des_set_key s ctx0 key2 = Some (des_tables, ctx) \<and>
           des_cipher_block s ctx0 key1 input output salt count = Some res \<and>
           des_cipher_block s ctx0 key2 input output salt count = Some res"
proof -
  from assms(4) have "length key2 = length key1" by (metis length_map)
  with assms(3) have l2: "length key2 = 8" by simp
  from unpack_block_Some [OF assms(3)] obtain a0 a1 where 1: "unpack_block key1 = Some (a0, a1)" by blast
  from unpack_block_Some [OF l2] obtain b0 b1 where 2: "unpack_block key2 = Some (b0, b1)" by blast
  from key_perm_index_parity [OF assms(3,4) 1 2]
  have e: "key_sched_ref a0 a1 ctx0 = key_sched_ref b0 b1 ctx0"
    by (simp add: key_sched_ref_def)
  then have "cipher_ctx ctx0 a0 a1 salt = cipher_ctx ctx0 b0 b1 salt"
    by (simp add: cipher_ctx_def)
  then have "des_cipher_block s ctx0 key1 input output salt count =
             des_cipher_block s ctx0 key2 input output salt count"
    unfolding des_cipher_block_eq [OF assms(1,2) 1] des_cipher_block_eq [OF assms(1,2) 2] by simp
  moreover from des_cipher_block_returns [OF assms(1,2,3,5,6)]
  obtain res where "des_cipher_block s ctx0 key1 input output salt count = Some res" by blast
  moreover have "des_set_key s ctx0 key1 = Some (des_tables, key_sched_ref a0 a1 ctx0)"
    using assms(1) 1 assms(2) by (rule des_set_key_Some)
  moreover have "des_set_key s ctx0 key2 = Some (des_tables, key_sched_ref a0 a1 ctx0)"
    unfolding e using assms(1) 2 assms(2) by (rule des_set_key_Some)
  ultimately show ?thesis by (intro exI [of _ "key_sched_ref a0 a1 ctx0"] exI [of _ res]) simp
qed

theorem des_key_parity_ignored_witness:
  "des_reachable des_static_init \<and>
   des_ctx_wf \<lparr>saltbits = 0xdeadbeef, en_keysl = replicate 16 0xffffffff, en_keysr = replicate 16 7\<rparr> \<and>
   length [0x01, 0x23, 0x45, 0x67, 0x89, 0xab, 0xcd, 0xef :: u8] = 8 \<and>
   map (drop_bit 1) [0x01, 0x23, 0x45, 0x67, 0x89, 0xab, 0xcd, 0xef :: u8] =
     map (drop_bit 1) [0x00, 0x22, 0x44, 0x66, 0x88, 0xaa, 0xcc, 0xee] \<and>
   length [9, 10, 11, 12, 13, 14, 15, 16 :: u8] = 8 \<and>
   length (replicate 8 (0xAA :: u8)) = 8 \<and>
   (\<exists>ctx res.
      des_set_key des_static_init
        \<lparr>saltbits = 0xdeadbeef, en_keysl = replicate 16 0xffffffff, en_keysr = replicate 16 7\<rparr>
        [0x01, 0x23, 0x45, 0x67, 0x89, 0xab, 0xcd, 0xef] = Some (des_tables, ctx) \<and>
      des_set_key des_static_init
        \<lparr>saltbits = 0xdeadbeef, en_keysl = replicate 16 0xffffffff, en_keysr = replicate 16 7\<rparr>
        [0x00, 0x22, 0x44, 0x66, 0x88, 0xaa, 0xcc, 0xee] = Some (des_tables, ctx) \<and>
      des_cipher_block des_static_init
        \<lparr>saltbits = 0xdeadbeef, en_keysl = replicate 16 0xffffffff, en_keysr = replicate 16 7\<rparr>
        [0x01, 0x23, 0x45, 0x67, 0x89, 0xab, 0xcd, 0xef] [9, 10, 11, 12, 13, 14, 15, 16]
        (replicate 8 0xAA) 0x123456 25 = Some res \<and>
      des_cipher_block des_static_init
        \<lparr>saltbits = 0xdeadbeef, en_keysl = replicate 16 0xffffffff, en_keysr = replicate 16 7\<rparr>
        [0x00, 0x22, 0x44, 0x66, 0x88, 0xaa, 0xcc, 0xee] [9, 10, 11, 12, 13, 14, 15, 16]
        (replicate 8 0xAA) 0x123456 25 = Some res)"
proof -
  let ?c = "\<lparr>saltbits = 0xdeadbeef, en_keysl = replicate 16 0xffffffff, en_keysr = replicate 16 7\<rparr> :: des_ctx"
  have h: "des_reachable des_static_init" "des_ctx_wf ?c"
    "length [0x01, 0x23, 0x45, 0x67, 0x89, 0xab, 0xcd, 0xef :: u8] = 8"
    "map (drop_bit 1) [0x01, 0x23, 0x45, 0x67, 0x89, 0xab, 0xcd, 0xef :: u8] =
       map (drop_bit 1) [0x00, 0x22, 0x44, 0x66, 0x88, 0xaa, 0xcc, 0xee]"
    "length [9, 10, 11, 12, 13, 14, 15, 16 :: u8] = 8" "length (replicate 8 (0xAA :: u8)) = 8"
    by (simp_all add: des_reachable_def des_ctx_wf_def)
  note r = des_key_parity_ignored [OF h, where salt = "0x123456" and count = 25]
  show ?thesis
    by (intro conjI h r)
qed

subsection \<open>The known vector\<close>

lemma upt8: "[0..<8] = [0, 1, 2, 3, 4, 5, 6, 7]"
  by (simp add: upt_rec)

lemma upt7: "[0..<7] = [0, 1, 2, 3, 4, 5, 6]"
  by (simp add: upt_rec)

lemma invert_sboxes_static:
  "invert_sboxes =
     [[14, 0, 4, 15, 13, 7, 1, 4, 2, 14, 15, 2, 11, 13, 8, 1,
       3, 10, 10, 6, 6, 12, 12, 11, 5, 9, 9, 5, 0, 3, 7, 8,
       4, 15, 1, 12, 14, 8, 8, 2, 13, 4, 6, 9, 2, 1, 11, 7,
       15, 5, 12, 11, 9, 3, 7, 14, 3, 10, 10, 0, 5, 6, 0, 13],
      [15, 3, 1, 13, 8, 4, 14, 7, 6, 15, 11, 2, 3, 8, 4, 14,
       9, 12, 7, 0, 2, 1, 13, 10, 12, 6, 0, 9, 5, 11, 10, 5,
       0, 13, 14, 8, 7, 10, 11, 1, 10, 3, 4, 15, 13, 4, 1, 2,
       5, 11, 8, 6, 12, 7, 6, 12, 9, 0, 3, 5, 2, 14, 15, 9],
      [10, 13, 0, 7, 9, 0, 14, 9, 6, 3, 3, 4, 15, 6, 5, 10,
       1, 2, 13, 8, 12, 5, 7, 14, 11, 12, 4, 11, 2, 15, 8, 1,
       13, 1, 6, 10, 4, 13, 9, 0, 8, 6, 15, 9, 3, 8, 0, 7,
       11, 4, 1, 15, 2, 14, 12, 3, 5, 11, 10, 5, 14, 2, 7, 12],
      [7, 13, 13, 8, 14, 11, 3, 5, 0, 6, 6, 15, 9, 0, 10, 3,
       1, 4, 2, 7, 8, 2, 5, 12, 11, 1, 12, 10, 4, 14, 15, 9,
       10, 3, 6, 15, 9, 0, 0, 6, 12, 10, 11, 1, 7, 13, 13, 8,
       15, 9, 1, 4, 3, 5, 14, 11, 5, 12, 2, 7, 8, 2, 4, 14],
      [2, 14, 12, 11, 4, 2, 1, 12, 7, 4, 10, 7, 11, 13, 6, 1,
       8, 5, 5, 0, 3, 15, 15, 10, 13, 3, 0, 9, 14, 8, 9, 6,
       4, 11, 2, 8, 1, 12, 11, 7, 10, 1, 13, 14, 7, 2, 8, 13,
       15, 6, 9, 15, 12, 0, 5, 9, 6, 10, 3, 4, 0, 5, 14, 3],
      [12, 10, 1, 15, 10, 4, 15, 2, 9, 7, 2, 12, 6, 9, 8, 5,
       0, 6, 13, 1, 3, 13, 4, 14, 14, 0, 7, 11, 5, 3, 11, 8,
       9, 4, 14, 3, 15, 2, 5, 12, 2, 9, 8, 5, 12, 15, 3, 10,
       7, 11, 0, 14, 4, 1, 10, 7, 1, 6, 13, 0, 11, 8, 6, 13],
      [4, 13, 11, 0, 2, 11, 14, 7, 15, 4, 0, 9, 8, 1, 13, 10,
       3, 14, 12, 3, 9, 5, 7, 12, 5, 2, 10, 15, 6, 8, 1, 6,
       1, 6, 4, 11, 11, 13, 13, 8, 12, 1, 3, 4, 7, 10, 14, 7,
       10, 9, 15, 5, 6, 0, 8, 15, 0, 14, 5, 2, 9, 3, 2, 12],
      [13, 1, 2, 15, 8, 13, 4, 8, 6, 10, 15, 3, 11, 7, 1, 4,
       10, 12, 9, 5, 3, 6, 14, 11, 5, 0, 0, 14, 12, 9, 7, 2,
       7, 2, 11, 1, 4, 14, 1, 7, 9, 4, 12, 10, 14, 8, 2, 13,
       0, 15, 6, 12, 10, 9, 13, 0, 15, 3, 3, 5, 5, 6, 8, 11]]"
  by code_simp

lemma m_sbox_value_rows:
  "m_sbox_value us 0 i j = ucast (push_bit 4 (ucast (us ! 0 ! i) :: u32) OR ucast (us ! 1 ! j))"
  "m_sbox_value us (Suc 0) i j = ucast (push_bit 4 (ucast (us ! 2 ! i) :: u32) OR ucast (us ! 3 ! j))"
  "m_sbox_value us 2 i j = ucast (push_bit 4 (ucast (us ! 4 ! i) :: u32) OR ucast (us ! 5 ! j))"
  "m_sbox_value us 3 i j = ucast (push_bit 4 (ucast (us ! 6 ! i) :: u32) OR ucast (us ! 7 ! j))"
  by (simp_all add: m_sbox_value_def)

lemmas m_sbox_eval = m_sbox_value_rows invert_sboxes_static

lemmas psbox_eval = un_pbox_tables psbox_entry_def bits8_def bits32_def upt8

lemmas fp_eval = fpl_def fpr_def ip_fp_entry_def ip_fp_bit_def init_perm_tables final_perm_tables
  bits8_def bits32_def upt8

text \<open>Entries of the OR-mask tables at value 0 are 0.\<close>

lemma mask_entries_zero:
  "ip_fp_entry ip fp k 0 = (0, 0, 0, 0)" "key_perm_entry ikp k 0 = (0, 0)" "comp_entry icp k 0 = (0, 0)"
  by (simp_all add: ip_fp_entry_def ip_fp_bit_def key_perm_entry_def key_perm_bit_def
      comp_entry_def comp_bit_def upt8 upt7)

lemma or8_zero:
  "or8 ipl [0, 0, 0, 0, 0, 0, 0, 0] = 0" "or8 ipr [0, 0, 0, 0, 0, 0, 0, 0] = 0"
  "or8 kpl [0, 0, 0, 0, 0, 0, 0, 0] = 0" "or8 kpr [0, 0, 0, 0, 0, 0, 0, 0] = 0"
  "or8 cpl [0, 0, 0, 0, 0, 0, 0, 0] = 0" "or8 cpr [0, 0, 0, 0, 0, 0, 0, 0] = 0"
  by (simp_all add: or8_def ipl_def ipr_def kpl_def kpr_def cpl_def cpr_def mask_entries_zero)

lemma key_round_ref_zero:
  "key_round_ref 0 0 round (sh, ctx) =
     (sh + unat (key_shifts ! round),
      ctx\<lparr>en_keysl := (en_keysl ctx)[round := 0], en_keysr := (en_keysr ctx)[round := 0]\<rparr>)"
  by (simp add: key_round_ref_def comp_index_def or8_zero)

lemma key_sched_zero_prefix:
  fixes ctx :: des_ctx and n :: nat
  assumes "des_ctx_wf ctx" "n \<le> 16"
  defines "c \<equiv> snd (fold (key_round_ref 0 0) [0..<n] (0, ctx))"
  shows "des_ctx_wf c \<and> saltbits c = saltbits ctx \<and> (\<forall>i<n. en_keysl c ! i = 0 \<and> en_keysr c ! i = 0)"
  using assms(2) unfolding c_def
proof (induction n)
  case 0
  show ?case using assms(1) by simp
next
  case (Suc n)
  obtain sh c where f: "fold (key_round_ref 0 0) [0..<n] (0, ctx) = (sh, c)"
    by (cases "fold (key_round_ref 0 0) [0..<n] (0, ctx)")
  with Suc have c: "des_ctx_wf c" "saltbits c = saltbits ctx"
    and z: "\<And>i. i < n \<Longrightarrow> en_keysl c ! i = 0 \<and> en_keysr c ! i = 0"
    by simp_all
  from c(1) Suc.prems have n: "n < length (en_keysl c)" "n < length (en_keysr c)"
    by (simp_all add: des_ctx_wf_def)
  have "(en_keysl c)[n := 0] ! i = 0 \<and> (en_keysr c)[n := 0] ! i = 0" if "i < Suc n" for i
    using that n z [of i] by (cases "i = n") simp_all
  then show ?case
    using c by (simp add: f key_round_ref_zero des_ctx_wf_def)
qed

lemma cipher_ctx_zero:
  assumes "des_ctx_wf ctx0"
  shows "cipher_ctx ctx0 0 0 0 = \<lparr>saltbits = 0, en_keysl = replicate 16 0, en_keysr = replicate 16 0\<rparr>"
proof -
  define c where "c = key_sched_ref 0 0 ctx0"
  have "(16 :: nat) \<le> 16" by simp
  from key_sched_zero_prefix [OF assms this]
  have "des_ctx_wf c" and z: "\<And>i. i < 16 \<Longrightarrow> en_keysl c ! i = 0 \<and> en_keysr c ! i = 0"
    by (simp_all add: c_def key_sched_ref_def key_perm_index_def or8_zero)
  then have "en_keysl c = replicate 16 0" "en_keysr c = replicate 16 0"
    by (simp_all add: list_eq_iff_nth_eq des_ctx_wf_def)
  moreover have "saltbits (des_set_salt c 0) = 0"
    by (rule bit_word_eqI) (simp add: saltbits_bit)
  ultimately show ?thesis
    by (simp add: cipher_ctx_def c_def [symmetric] des_set_salt_fields)
qed

lemma ip_regs_zero:
  "ip_regs 0 0 = \<lparr>reg_l = 0, reg_r = 0, reg_f = 0, rounds_run = 0, reps_run = 0\<rparr>"
  by (simp add: ip_regs_def byte_index_def or8_zero)

lemma rounds_ref_fold: "rounds_ref ctx n ki st = fold (round_ref ctx) [ki..<ki + n] st"
proof (induction n arbitrary: ki st)
  case 0
  show ?case by simp
next
  case (Suc n)
  have "[ki..<ki + Suc n] = ki # [Suc ki..<Suc ki + n]"
    by (simp add: upt_conv_Cons)
  with Suc [of "Suc ki" "round_ref ctx ki st"] show ?case by simp
qed

lemma upt16: "[0..<16] = [0, 1, 2, 3, 4, 5, 6, 7, 8, 9, 10, 11, 12, 13, 14, 15]"
  by (simp add: upt_rec)

text \<open>The sixteen rounds on the zero block under the zero key, one at a time.\<close>

lemma zero_round_0:
  "round_ref \<lparr>saltbits = 0, en_keysl = replicate 16 0, en_keysr = replicate 16 0\<rparr> 0
     \<lparr>reg_l = 0x00000000, reg_r = 0x00000000, reg_f = 0x00000000, rounds_run = 0, reps_run = 0\<rparr> =
   \<lparr>reg_l = 0x00000000, reg_r = 0xd8d8dbbc, reg_f = 0xd8d8dbbc, rounds_run = (Suc 0), reps_run = 0\<rparr>"
proof -
  have e: "expand_l 0x00000000 = 0x00000000" "expand_r 0x00000000 = 0x00000000"
    by (simp_all add: expand_l_def expand_r_def)
  have m0: "m_sbox_value invert_sboxes (0) (0) (0) = 239"
    by (simp add: m_sbox_eval)
  have p0: "psbox_entry (un_pbox des_tables) (0) (239) = 0x4088c210"
    by (simp add: psbox_eval)
  have s0: "sp_entry (0) 0x00000000 = 0x4088c210"
    by (simp add: sp_entry_def m0 p0)
  have m1: "m_sbox_value invert_sboxes ((Suc 0)) (0) (0) = 167"
    by (simp add: m_sbox_eval)
  have p1: "psbox_entry (un_pbox des_tables) ((Suc 0)) (167) = 0x80401104"
    by (simp add: psbox_eval)
  have s1: "sp_entry ((Suc 0)) 0x00000000 = 0x80401104"
    by (simp add: sp_entry_def m1 p1)
  have m2: "m_sbox_value invert_sboxes (2) (0) (0) = 44"
    by (simp add: m_sbox_eval)
  have p2: "psbox_entry (un_pbox des_tables) (2) (44) = 0x10000088"
    by (simp add: psbox_eval)
  have s2: "sp_entry (2) 0x00000000 = 0x10000088"
    by (simp add: sp_entry_def m2 p2)
  have m3: "m_sbox_value invert_sboxes (3) (0) (0) = 77"
    by (simp add: m_sbox_eval)
  have p3: "psbox_entry (un_pbox des_tables) (3) (77) = 0x08100820"
    by (simp add: psbox_eval)
  have s3: "sp_entry (3) 0x00000000 = 0x08100820"
    by (simp add: sp_entry_def m3 p3)
  show ?thesis
    by (simp add: round_ref_def e s0 s1 s2 s3)
qed

lemma zero_round_1:
  "round_ref \<lparr>saltbits = 0, en_keysl = replicate 16 0, en_keysr = replicate 16 0\<rparr> (Suc 0)
     \<lparr>reg_l = 0x00000000, reg_r = 0xd8d8dbbc, reg_f = 0xd8d8dbbc, rounds_run = (Suc 0), reps_run = 0\<rparr> =
   \<lparr>reg_l = 0xd8d8dbbc, reg_r = 0xe73aed4f, reg_f = 0xe73aed4f, rounds_run = 2, reps_run = 0\<rparr>"
proof -
  have e: "expand_l 0xd8d8dbbc = 0x006f16f1" "expand_r 0xd8d8dbbc = 0x006f7df9"
    by (simp_all add: expand_l_def expand_r_def)
  have m0: "m_sbox_value invert_sboxes (0) (27) (49) = 91"
    by (simp add: m_sbox_eval)
  have p0: "psbox_entry (un_pbox des_tables) (0) (91) = 0x4008c002"
    by (simp add: psbox_eval)
  have s0: "sp_entry (0) 0x000006f1 = 0x4008c002"
    by (simp add: sp_entry_def m0 p0)
  have m1: "m_sbox_value invert_sboxes ((Suc 0)) (27) (49) = 185"
    by (simp add: m_sbox_eval)
  have p1: "psbox_entry (un_pbox des_tables) ((Suc 0)) (185) = 0x84000144"
    by (simp add: psbox_eval)
  have s1: "sp_entry ((Suc 0)) 0x000006f1 = 0x84000144"
    by (simp add: sp_entry_def m1 p1)
  have m2: "m_sbox_value invert_sboxes (2) (27) (55) = 151"
    by (simp add: m_sbox_eval)
  have p2: "psbox_entry (un_pbox des_tables) (2) (151) = 0x21202008"
    by (simp add: psbox_eval)
  have s2: "sp_entry (2) 0x000006f7 = 0x21202008"
    by (simp add: sp_entry_def m2 p2)
  have m3: "m_sbox_value invert_sboxes (3) (55) (57) = 243"
    by (simp add: m_sbox_eval)
  have p3: "psbox_entry (un_pbox des_tables) (3) (243) = 0x02120c01"
    by (simp add: psbox_eval)
  have s3: "sp_entry (3) 0x00000df9 = 0x02120c01"
    by (simp add: sp_entry_def m3 p3)
  show ?thesis
    by (simp add: round_ref_def e s0 s1 s2 s3)
qed

lemma zero_round_2:
  "round_ref \<lparr>saltbits = 0, en_keysl = replicate 16 0, en_keysr = replicate 16 0\<rparr> 2
     \<lparr>reg_l = 0xd8d8dbbc, reg_r = 0xe73aed4f, reg_f = 0xe73aed4f, rounds_run = 2, reps_run = 0\<rparr> =
   \<lparr>reg_l = 0xe73aed4f, reg_r = 0x5bfa6ba6, reg_f = 0x5bfa6ba6, rounds_run = 3, reps_run = 0\<rparr>"
proof -
  have e: "expand_l 0xe73aed4f = 0x00f0e9f5" "expand_r 0xe73aed4f = 0x0075aa5f"
    by (simp_all add: expand_l_def expand_r_def)
  have m0: "m_sbox_value invert_sboxes (0) (60) (14) = 84"
    by (simp add: m_sbox_eval)
  have p0: "psbox_entry (un_pbox des_tables) (0) (84) = 0x00008012"
    by (simp add: psbox_eval)
  have s0: "sp_entry (0) 0x00000f0e = 0x00008012"
    by (simp add: sp_entry_def m0 p0)
  have m1: "m_sbox_value invert_sboxes ((Suc 0)) (39) (53) = 5"
    by (simp add: m_sbox_eval)
  have p1: "psbox_entry (un_pbox des_tables) ((Suc 0)) (5) = 0x80001000"
    by (simp add: psbox_eval)
  have s1: "sp_entry ((Suc 0)) 0x000009f5 = 0x80001000"
    by (simp add: sp_entry_def m1 p1)
  have m2: "m_sbox_value invert_sboxes (2) (29) (26) = 135"
    by (simp add: m_sbox_eval)
  have p2: "psbox_entry (un_pbox des_tables) (2) (135) = 0x01202008"
    by (simp add: psbox_eval)
  have s2: "sp_entry (2) 0x0000075a = 0x01202008"
    by (simp add: sp_entry_def m2 p2)
  have m3: "m_sbox_value invert_sboxes (3) (41) (31) = 18"
    by (simp add: m_sbox_eval)
  have p3: "psbox_entry (un_pbox des_tables) (3) (18) = 0x02020000"
    by (simp add: psbox_eval)
  have s3: "sp_entry (3) 0x00000a5f = 0x02020000"
    by (simp add: sp_entry_def m3 p3)
  show ?thesis
    by (simp add: round_ref_def e s0 s1 s2 s3)
qed

lemma zero_round_3:
  "round_ref \<lparr>saltbits = 0, en_keysl = replicate 16 0, en_keysr = replicate 16 0\<rparr> 3
     \<lparr>reg_l = 0xe73aed4f, reg_r = 0x5bfa6ba6, reg_f = 0x5bfa6ba6, rounds_run = 3, reps_run = 0\<rparr> =
   \<lparr>reg_l = 0x5bfa6ba6, reg_r = 0x5e45e257, reg_f = 0x5e45e257, rounds_run = 4, reps_run = 0\<rparr>"
proof -
  have e: "expand_l 0x5bfa6ba6 = 0x002f7ff4" "expand_r 0x5bfa6ba6 = 0x00357d0c"
    by (simp_all add: expand_l_def expand_r_def)
  have m0: "m_sbox_value invert_sboxes (0) (11) (55) = 44"
    by (simp add: m_sbox_eval)
  have p0: "psbox_entry (un_pbox des_tables) (0) (44) = 0x00080210"
    by (simp add: psbox_eval)
  have s0: "sp_entry (0) 0x000002f7 = 0x00080210"
    by (simp add: sp_entry_def m0 p0)
  have m1: "m_sbox_value invert_sboxes ((Suc 0)) (63) (52) = 195"
    by (simp add: m_sbox_eval)
  have p1: "psbox_entry (un_pbox des_tables) ((Suc 0)) (195) = 0x80410100"
    by (simp add: psbox_eval)
  have s1: "sp_entry ((Suc 0)) 0x00000ff4 = 0x80410100"
    by (simp add: sp_entry_def m1 p1)
  have m2: "m_sbox_value invert_sboxes (2) (13) (23) = 222"
    by (simp add: m_sbox_eval)
  have p2: "psbox_entry (un_pbox des_tables) (2) (222) = 0x31240008"
    by (simp add: psbox_eval)
  have s2: "sp_entry (2) 0x00000357 = 0x31240008"
    by (simp add: sp_entry_def m2 p2)
  have m3: "m_sbox_value invert_sboxes (3) (52) (12) = 107"
    by (simp add: m_sbox_eval)
  have p3: "psbox_entry (un_pbox des_tables) (3) (107) = 0x08120c00"
    by (simp add: psbox_eval)
  have s3: "sp_entry (3) 0x00000d0c = 0x08120c00"
    by (simp add: sp_entry_def m3 p3)
  show ?thesis
    by (simp add: round_ref_def e s0 s1 s2 s3)
qed

lemma zero_round_4:
  "round_ref \<lparr>saltbits = 0, en_keysl = replicate 16 0, en_keysr = replicate 16 0\<rparr> 4
     \<lparr>reg_l = 0x5bfa6ba6, reg_r = 0x5e45e257, reg_f = 0x5e45e257, rounds_run = 4, reps_run = 0\<rparr> =
   \<lparr>reg_l = 0x5e45e257, reg_r = 0x8b197be0, reg_f = 0x8b197be0, rounds_run = 5, reps_run = 0\<rparr>"
proof -
  have e: "expand_l 0x5e45e257 = 0x00afc20b" "expand_r 0x5e45e257 = 0x00f042ae"
    by (simp_all add: expand_l_def expand_r_def)
  have m0: "m_sbox_value invert_sboxes (0) (43) (60) = 146"
    by (simp add: m_sbox_eval)
  have p0: "psbox_entry (un_pbox des_tables) (0) (146) = 0x40800002"
    by (simp add: psbox_eval)
  have s0: "sp_entry (0) 0x00000afc = 0x40800002"
    by (simp add: sp_entry_def m0 p0)
  have m1: "m_sbox_value invert_sboxes ((Suc 0)) (8) (11) = 111"
    by (simp add: m_sbox_eval)
  have p1: "psbox_entry (un_pbox des_tables) ((Suc 0)) (111) = 0x80411044"
    by (simp add: psbox_eval)
  have s1: "sp_entry ((Suc 0)) 0x0000020b = 0x80411044"
    by (simp add: sp_entry_def m1 p1)
  have m2: "m_sbox_value invert_sboxes (2) (60) (4) = 10"
    by (simp add: m_sbox_eval)
  have p2: "psbox_entry (un_pbox des_tables) (2) (10) = 0x10200000"
    by (simp add: psbox_eval)
  have s2: "sp_entry (2) 0x00000f04 = 0x10200000"
    by (simp add: sp_entry_def m2 p2)
  have m3: "m_sbox_value invert_sboxes (3) (10) (46) = 2"
    by (simp add: m_sbox_eval)
  have p3: "psbox_entry (un_pbox des_tables) (3) (2) = 0x00020000"
    by (simp add: psbox_eval)
  have s3: "sp_entry (3) 0x000002ae = 0x00020000"
    by (simp add: sp_entry_def m3 p3)
  show ?thesis
    by (simp add: round_ref_def e s0 s1 s2 s3)
qed

lemma zero_round_5:
  "round_ref \<lparr>saltbits = 0, en_keysl = replicate 16 0, en_keysr = replicate 16 0\<rparr> 5
     \<lparr>reg_l = 0x5e45e257, reg_r = 0x8b197be0, reg_f = 0x8b197be0, rounds_run = 5, reps_run = 0\<rparr> =
   \<lparr>reg_l = 0x8b197be0, reg_r = 0xfde9894a, reg_f = 0xfde9894a, rounds_run = 6, reps_run = 0\<rparr>"
proof -
  have e: "expand_l 0x8b197be0 = 0x004568f2" "expand_r 0x8b197be0 = 0x00bf7f01"
    by (simp_all add: expand_l_def expand_r_def)
  have m0: "m_sbox_value invert_sboxes (0) (17) (22) = 173"
    by (simp add: m_sbox_eval)
  have p0: "psbox_entry (un_pbox des_tables) (0) (173) = 0x00884210"
    by (simp add: psbox_eval)
  have s0: "sp_entry (0) 0x00000456 = 0x00884210"
    by (simp add: sp_entry_def m0 p0)
  have m1: "m_sbox_value invert_sboxes ((Suc 0)) (35) (50) = 161"
    by (simp add: m_sbox_eval)
  have p1: "psbox_entry (un_pbox des_tables) ((Suc 0)) (161) = 0x80000104"
    by (simp add: psbox_eval)
  have s1: "sp_entry ((Suc 0)) 0x000008f2 = 0x80000104"
    by (simp add: sp_entry_def m1 p1)
  have m2: "m_sbox_value invert_sboxes (2) (47) (55) = 215"
    by (simp add: m_sbox_eval)
  have p2: "psbox_entry (un_pbox des_tables) (2) (215) = 0x21242008"
    by (simp add: psbox_eval)
  have s2: "sp_entry (2) 0x00000bf7 = 0x21242008"
    by (simp add: sp_entry_def m2 p2)
  have m3: "m_sbox_value invert_sboxes (3) (60) ((Suc 0)) = 145"
    by (simp add: m_sbox_eval)
  have p3: "psbox_entry (un_pbox des_tables) (3) (145) = 0x02000801"
    by (simp add: psbox_eval)
  have s3: "sp_entry (3) 0x00000f01 = 0x02000801"
    by (simp add: sp_entry_def m3 p3)
  show ?thesis
    by (simp add: round_ref_def e s0 s1 s2 s3)
qed

lemma zero_round_6:
  "round_ref \<lparr>saltbits = 0, en_keysl = replicate 16 0, en_keysr = replicate 16 0\<rparr> 6
     \<lparr>reg_l = 0x8b197be0, reg_r = 0xfde9894a, reg_f = 0xfde9894a, rounds_run = 6, reps_run = 0\<rparr> =
   \<lparr>reg_l = 0xfde9894a, reg_r = 0x19df0b5c, reg_f = 0x19df0b5c, rounds_run = 7, reps_run = 0\<rparr>"
proof -
  have e: "expand_l 0xfde9894a = 0x007fbf53" "expand_r 0xfde9894a = 0x00c52a55"
    by (simp_all add: expand_l_def expand_r_def)
  have m0: "m_sbox_value invert_sboxes (0) (31) (59) = 133"
    by (simp add: m_sbox_eval)
  have p0: "psbox_entry (un_pbox des_tables) (0) (133) = 0x00804010"
    by (simp add: psbox_eval)
  have s0: "sp_entry (0) 0x000007fb = 0x00804010"
    by (simp add: sp_entry_def m0 p0)
  have m1: "m_sbox_value invert_sboxes ((Suc 0)) (61) (19) = 39"
    by (simp add: m_sbox_eval)
  have p1: "psbox_entry (un_pbox des_tables) ((Suc 0)) (39) = 0x80401004"
    by (simp add: psbox_eval)
  have s1: "sp_entry ((Suc 0)) 0x00000f53 = 0x80401004"
    by (simp add: sp_entry_def m1 p1)
  have m2: "m_sbox_value invert_sboxes (2) (49) (18) = 109"
    by (simp add: m_sbox_eval)
  have p2: "psbox_entry (un_pbox des_tables) (2) (109) = 0x10042088"
    by (simp add: psbox_eval)
  have s2: "sp_entry (2) 0x00000c52 = 0x10042088"
    by (simp add: sp_entry_def m2 p2)
  have m3: "m_sbox_value invert_sboxes (3) (41) (21) = 22"
    by (simp add: m_sbox_eval)
  have p3: "psbox_entry (un_pbox des_tables) (3) (22) = 0x02020020"
    by (simp add: psbox_eval)
  have s3: "sp_entry (3) 0x00000a55 = 0x02020020"
    by (simp add: sp_entry_def m3 p3)
  show ?thesis
    by (simp add: round_ref_def e s0 s1 s2 s3)
qed

lemma zero_round_7:
  "round_ref \<lparr>saltbits = 0, en_keysl = replicate 16 0, en_keysr = replicate 16 0\<rparr> 7
     \<lparr>reg_l = 0xfde9894a, reg_r = 0x19df0b5c, reg_f = 0x19df0b5c, rounds_run = 7, reps_run = 0\<rparr> =
   \<lparr>reg_l = 0x19df0b5c, reg_r = 0x907a13f0, reg_f = 0x907a13f0, rounds_run = 8, reps_run = 0\<rparr>"
proof -
  have e: "expand_l 0x19df0b5c = 0x000f3efe" "expand_r 0x19df0b5c = 0x00856af8"
    by (simp_all add: expand_l_def expand_r_def)
  have m0: "m_sbox_value invert_sboxes (0) (3) (51) = 246"
    by (simp add: m_sbox_eval)
  have p0: "psbox_entry (un_pbox des_tables) (0) (246) = 0x40808212"
    by (simp add: psbox_eval)
  have s0: "sp_entry (0) 0x000000f3 = 0x40808212"
    by (simp add: sp_entry_def m0 p0)
  have m1: "m_sbox_value invert_sboxes ((Suc 0)) (59) (62) = 84"
    by (simp add: m_sbox_eval)
  have p1: "psbox_entry (un_pbox des_tables) ((Suc 0)) (84) = 0x04011000"
    by (simp add: psbox_eval)
  have s1: "sp_entry ((Suc 0)) 0x00000efe = 0x04011000"
    by (simp add: sp_entry_def m1 p1)
  have m2: "m_sbox_value invert_sboxes (2) (33) (22) = 180"
    by (simp add: m_sbox_eval)
  have p2: "psbox_entry (un_pbox des_tables) (2) (180) = 0x21000088"
    by (simp add: psbox_eval)
  have s2: "sp_entry (2) 0x00000856 = 0x21000088"
    by (simp add: sp_entry_def m2 p2)
  have m3: "m_sbox_value invert_sboxes (3) (43) (56) = 79"
    by (simp add: m_sbox_eval)
  have p3: "psbox_entry (un_pbox des_tables) (3) (79) = 0x08120820"
    by (simp add: psbox_eval)
  have s3: "sp_entry (3) 0x00000af8 = 0x08120820"
    by (simp add: sp_entry_def m3 p3)
  show ?thesis
    by (simp add: round_ref_def e s0 s1 s2 s3)
qed

lemma zero_round_8:
  "round_ref \<lparr>saltbits = 0, en_keysl = replicate 16 0, en_keysr = replicate 16 0\<rparr> 8
     \<lparr>reg_l = 0x19df0b5c, reg_r = 0x907a13f0, reg_f = 0x907a13f0, rounds_run = 8, reps_run = 0\<rparr> =
   \<lparr>reg_l = 0x907a13f0, reg_r = 0x88190c50, reg_f = 0x88190c50, rounds_run = 9, reps_run = 0\<rparr>"
proof -
  have e: "expand_l 0x907a13f0 = 0x004a03f4" "expand_r 0x907a13f0 = 0x000a7fa1"
    by (simp_all add: expand_l_def expand_r_def)
  have m0: "m_sbox_value invert_sboxes (0) (18) (32) = 160"
    by (simp add: m_sbox_eval)
  have p0: "psbox_entry (un_pbox des_tables) (0) (160) = 0x00800200"
    by (simp add: psbox_eval)
  have s0: "sp_entry (0) 0x000004a0 = 0x00800200"
    by (simp add: sp_entry_def m0 p0)
  have m1: "m_sbox_value invert_sboxes ((Suc 0)) (15) (52) = 163"
    by (simp add: m_sbox_eval)
  have p1: "psbox_entry (un_pbox des_tables) ((Suc 0)) (163) = 0x80400104"
    by (simp add: psbox_eval)
  have s1: "sp_entry ((Suc 0)) 0x000003f4 = 0x80400104"
    by (simp add: sp_entry_def m1 p1)
  have m2: "m_sbox_value invert_sboxes (2) (2) (39) = 204"
    by (simp add: m_sbox_eval)
  have p2: "psbox_entry (un_pbox des_tables) (2) (204) = 0x11040008"
    by (simp add: psbox_eval)
  have s2: "sp_entry (2) 0x000000a7 = 0x11040008"
    by (simp add: sp_entry_def m2 p2)
  have m3: "m_sbox_value invert_sboxes (3) (62) (33) = 34"
    by (simp add: m_sbox_eval)
  have p3: "psbox_entry (un_pbox des_tables) (3) (34) = 0x00020400"
    by (simp add: psbox_eval)
  have s3: "sp_entry (3) 0x00000fa1 = 0x00020400"
    by (simp add: sp_entry_def m3 p3)
  show ?thesis
    by (simp add: round_ref_def e s0 s1 s2 s3)
qed

lemma zero_round_9:
  "round_ref \<lparr>saltbits = 0, en_keysl = replicate 16 0, en_keysr = replicate 16 0\<rparr> 9
     \<lparr>reg_l = 0x907a13f0, reg_r = 0x88190c50, reg_f = 0x88190c50, rounds_run = 9, reps_run = 0\<rparr> =
   \<lparr>reg_l = 0x88190c50, reg_r = 0x25d1517c, reg_f = 0x25d1517c, rounds_run = 10, reps_run = 0\<rparr>"
proof -
  have e: "expand_l 0x88190c50 = 0x004500f2" "expand_r 0x88190c50 = 0x008582a1"
    by (simp_all add: expand_l_def expand_r_def)
  have m0: "m_sbox_value invert_sboxes (0) (17) (16) = 169"
    by (simp add: m_sbox_eval)
  have p0: "psbox_entry (un_pbox des_tables) (0) (169) = 0x00884200"
    by (simp add: psbox_eval)
  have s0: "sp_entry (0) 0x00000450 = 0x00884200"
    by (simp add: sp_entry_def m0 p0)
  have m1: "m_sbox_value invert_sboxes ((Suc 0)) (3) (50) = 113"
    by (simp add: m_sbox_eval)
  have p1: "psbox_entry (un_pbox des_tables) ((Suc 0)) (113) = 0x84010004"
    by (simp add: psbox_eval)
  have s1: "sp_entry ((Suc 0)) 0x000000f2 = 0x84010004"
    by (simp add: sp_entry_def m1 p1)
  have m2: "m_sbox_value invert_sboxes (2) (33) (24) = 190"
    by (simp add: m_sbox_eval)
  have p2: "psbox_entry (un_pbox des_tables) (2) (190) = 0x31200088"
    by (simp add: psbox_eval)
  have s2: "sp_entry (2) 0x00000858 = 0x31200088"
    by (simp add: sp_entry_def m2 p2)
  have m3: "m_sbox_value invert_sboxes (3) (10) (33) = 2"
    by (simp add: m_sbox_eval)
  have p3: "psbox_entry (un_pbox des_tables) (3) (2) = 0x00020000"
    by (simp add: psbox_eval)
  have s3: "sp_entry (3) 0x000002a1 = 0x00020000"
    by (simp add: sp_entry_def m3 p3)
  show ?thesis
    by (simp add: round_ref_def e s0 s1 s2 s3)
qed

lemma zero_round_10:
  "round_ref \<lparr>saltbits = 0, en_keysl = replicate 16 0, en_keysr = replicate 16 0\<rparr> 10
     \<lparr>reg_l = 0x88190c50, reg_r = 0x25d1517c, reg_f = 0x25d1517c, rounds_run = 10, reps_run = 0\<rparr> =
   \<lparr>reg_l = 0x25d1517c, reg_r = 0xf3ef917e, reg_f = 0xf3ef917e, rounds_run = 11, reps_run = 0\<rparr>"
proof -
  have e: "expand_l 0x25d1517c = 0x0010bea2" "expand_r 0x25d1517c = 0x00aa2bf8"
    by (simp_all add: expand_l_def expand_r_def)
  have m0: "m_sbox_value invert_sboxes (0) (4) (11) = 210"
    by (simp add: m_sbox_eval)
  have p0: "psbox_entry (un_pbox des_tables) (0) (210) = 0x40808002"
    by (simp add: psbox_eval)
  have s0: "sp_entry (0) 0x0000010b = 0x40808002"
    by (simp add: sp_entry_def m0 p0)
  have m1: "m_sbox_value invert_sboxes ((Suc 0)) (58) (34) = 166"
    by (simp add: m_sbox_eval)
  have p1: "psbox_entry (un_pbox des_tables) ((Suc 0)) (166) = 0x00401104"
    by (simp add: psbox_eval)
  have s1: "sp_entry ((Suc 0)) 0x00000ea2 = 0x00401104"
    by (simp add: sp_entry_def m1 p1)
  have m2: "m_sbox_value invert_sboxes (2) (42) (34) = 222"
    by (simp add: m_sbox_eval)
  have p2: "psbox_entry (un_pbox des_tables) (2) (222) = 0x31240008"
    by (simp add: psbox_eval)
  have s2: "sp_entry (2) 0x00000aa2 = 0x31240008"
    by (simp add: sp_entry_def m2 p2)
  have m3: "m_sbox_value invert_sboxes (3) (47) (56) = 127"
    by (simp add: m_sbox_eval)
  have p3: "psbox_entry (un_pbox des_tables) (3) (127) = 0x0a120c20"
    by (simp add: psbox_eval)
  have s3: "sp_entry (3) 0x00000bf8 = 0x0a120c20"
    by (simp add: sp_entry_def m3 p3)
  show ?thesis
    by (simp add: round_ref_def e s0 s1 s2 s3)
qed

lemma zero_round_11:
  "round_ref \<lparr>saltbits = 0, en_keysl = replicate 16 0, en_keysr = replicate 16 0\<rparr> 11
     \<lparr>reg_l = 0x25d1517c, reg_r = 0xf3ef917e, reg_f = 0xf3ef917e, rounds_run = 11, reps_run = 0\<rparr> =
   \<lparr>reg_l = 0xf3ef917e, reg_r = 0x96e39712, reg_f = 0x96e39712, rounds_run = 12, reps_run = 0\<rparr>"
proof -
  have e: "expand_l 0xf3ef917e = 0x007a7f5f" "expand_r 0xf3ef917e = 0x00ca2bfd"
    by (simp_all add: expand_l_def expand_r_def)
  have m0: "m_sbox_value invert_sboxes (0) (30) (39) = 113"
    by (simp add: m_sbox_eval)
  have p0: "psbox_entry (un_pbox des_tables) (0) (113) = 0x0000c202"
    by (simp add: psbox_eval)
  have s0: "sp_entry (0) 0x000007a7 = 0x0000c202"
    by (simp add: sp_entry_def m0 p0)
  have m1: "m_sbox_value invert_sboxes ((Suc 0)) (61) (31) = 41"
    by (simp add: m_sbox_eval)
  have p1: "psbox_entry (un_pbox des_tables) ((Suc 0)) (41) = 0x80000044"
    by (simp add: psbox_eval)
  have s1: "sp_entry ((Suc 0)) 0x00000f5f = 0x80000044"
    by (simp add: sp_entry_def m1 p1)
  have m2: "m_sbox_value invert_sboxes (2) (50) (34) = 158"
    by (simp add: m_sbox_eval)
  have p2: "psbox_entry (un_pbox des_tables) (2) (158) = 0x31200008"
    by (simp add: psbox_eval)
  have s2: "sp_entry (2) 0x00000ca2 = 0x31200008"
    by (simp add: sp_entry_def m2 p2)
  have m3: "m_sbox_value invert_sboxes (3) (47) (61) = 118"
    by (simp add: m_sbox_eval)
  have p3: "psbox_entry (un_pbox des_tables) (3) (118) = 0x02120420"
    by (simp add: psbox_eval)
  have s3: "sp_entry (3) 0x00000bfd = 0x02120420"
    by (simp add: sp_entry_def m3 p3)
  show ?thesis
    by (simp add: round_ref_def e s0 s1 s2 s3)
qed

lemma zero_round_12:
  "round_ref \<lparr>saltbits = 0, en_keysl = replicate 16 0, en_keysr = replicate 16 0\<rparr> 12
     \<lparr>reg_l = 0xf3ef917e, reg_r = 0x96e39712, reg_f = 0x96e39712, rounds_run = 12, reps_run = 0\<rparr> =
   \<lparr>reg_l = 0x96e39712, reg_r = 0x5a5da34a, reg_f = 0x5a5da34a, rounds_run = 13, reps_run = 0\<rparr>"
proof -
  have e: "expand_l 0x96e39712 = 0x004ad707" "expand_r 0x96e39712 = 0x00cae8a5"
    by (simp_all add: expand_l_def expand_r_def)
  have m0: "m_sbox_value invert_sboxes (0) (18) (45) = 164"
    by (simp add: m_sbox_eval)
  have p0: "psbox_entry (un_pbox des_tables) (0) (164) = 0x00800210"
    by (simp add: psbox_eval)
  have s0: "sp_entry (0) 0x000004ad = 0x00800210"
    by (simp add: sp_entry_def m0 p0)
  have m1: "m_sbox_value invert_sboxes ((Suc 0)) (28) (7) = 37"
    by (simp add: m_sbox_eval)
  have p1: "psbox_entry (un_pbox des_tables) ((Suc 0)) (37) = 0x80001004"
    by (simp add: psbox_eval)
  have s1: "sp_entry ((Suc 0)) 0x00000707 = 0x80001004"
    by (simp add: sp_entry_def m1 p1)
  have m2: "m_sbox_value invert_sboxes (2) (50) (46) = 147"
    by (simp add: m_sbox_eval)
  have p2: "psbox_entry (un_pbox des_tables) (2) (147) = 0x21202000"
    by (simp add: psbox_eval)
  have s2: "sp_entry (2) 0x00000cae = 0x21202000"
    by (simp add: sp_entry_def m2 p2)
  have m3: "m_sbox_value invert_sboxes (3) (34) (37) = 78"
    by (simp add: m_sbox_eval)
  have p3: "psbox_entry (un_pbox des_tables) (3) (78) = 0x08120020"
    by (simp add: psbox_eval)
  have s3: "sp_entry (3) 0x000008a5 = 0x08120020"
    by (simp add: sp_entry_def m3 p3)
  show ?thesis
    by (simp add: round_ref_def e s0 s1 s2 s3)
qed

lemma zero_round_13:
  "round_ref \<lparr>saltbits = 0, en_keysl = replicate 16 0, en_keysr = replicate 16 0\<rparr> 13
     \<lparr>reg_l = 0x96e39712, reg_r = 0x5a5da34a, reg_f = 0x5a5da34a, rounds_run = 13, reps_run = 0\<rparr> =
   \<lparr>reg_l = 0x5a5da34a, reg_r = 0x058cad0a, reg_f = 0x058cad0a, rounds_run = 14, reps_run = 0\<rparr>"
proof -
  have e: "expand_l 0x5a5da34a = 0x002f42fb" "expand_r 0x5a5da34a = 0x00d06a54"
    by (simp_all add: expand_l_def expand_r_def)
  have m0: "m_sbox_value invert_sboxes (0) (11) (52) = 44"
    by (simp add: m_sbox_eval)
  have p0: "psbox_entry (un_pbox des_tables) (0) (44) = 0x00080210"
    by (simp add: psbox_eval)
  have s0: "sp_entry (0) 0x000002f4 = 0x00080210"
    by (simp add: sp_entry_def m0 p0)
  have m1: "m_sbox_value invert_sboxes ((Suc 0)) (11) (59) = 71"
    by (simp add: m_sbox_eval)
  have p1: "psbox_entry (un_pbox des_tables) ((Suc 0)) (71) = 0x80411000"
    by (simp add: psbox_eval)
  have s1: "sp_entry ((Suc 0)) 0x000002fb = 0x80411000"
    by (simp add: sp_entry_def m1 p1)
  have m2: "m_sbox_value invert_sboxes (2) (52) (6) = 207"
    by (simp add: m_sbox_eval)
  have p2: "psbox_entry (un_pbox des_tables) (2) (207) = 0x11242008"
    by (simp add: psbox_eval)
  have s2: "sp_entry (2) 0x00000d06 = 0x11242008"
    by (simp add: sp_entry_def m2 p2)
  have m3: "m_sbox_value invert_sboxes (3) (41) (20) = 19"
    by (simp add: m_sbox_eval)
  have p3: "psbox_entry (un_pbox des_tables) (3) (19) = 0x02020800"
    by (simp add: psbox_eval)
  have s3: "sp_entry (3) 0x00000a54 = 0x02020800"
    by (simp add: sp_entry_def m3 p3)
  show ?thesis
    by (simp add: round_ref_def e s0 s1 s2 s3)
qed

lemma zero_round_14:
  "round_ref \<lparr>saltbits = 0, en_keysl = replicate 16 0, en_keysr = replicate 16 0\<rparr> 14
     \<lparr>reg_l = 0x5a5da34a, reg_r = 0x058cad0a, reg_f = 0x058cad0a, rounds_run = 14, reps_run = 0\<rparr> =
   \<lparr>reg_l = 0x058cad0a, reg_r = 0xbbea0dc2, reg_f = 0xbbea0dc2, rounds_run = 15, reps_run = 0\<rparr>"
proof -
  have e: "expand_l 0x058cad0a = 0x0000bc59" "expand_r 0x058cad0a = 0x0055a854"
    by (simp_all add: expand_l_def expand_r_def)
  have m0: "m_sbox_value invert_sboxes (0) (0) (11) = 226"
    by (simp add: m_sbox_eval)
  have p0: "psbox_entry (un_pbox des_tables) (0) (226) = 0x40808200"
    by (simp add: psbox_eval)
  have s0: "sp_entry (0) 0x0000000b = 0x40808200"
    by (simp add: sp_entry_def m0 p0)
  have m1: "m_sbox_value invert_sboxes ((Suc 0)) (49) (25) = 65"
    by (simp add: m_sbox_eval)
  have p1: "psbox_entry (un_pbox des_tables) ((Suc 0)) (65) = 0x80010000"
    by (simp add: psbox_eval)
  have s1: "sp_entry ((Suc 0)) 0x00000c59 = 0x80010000"
    by (simp add: sp_entry_def m1 p1)
  have m2: "m_sbox_value invert_sboxes (2) (21) (26) = 247"
    by (simp add: m_sbox_eval)
  have p2: "psbox_entry (un_pbox des_tables) (2) (247) = 0x21242088"
    by (simp add: psbox_eval)
  have s2: "sp_entry (2) 0x0000055a = 0x21242088"
    by (simp add: sp_entry_def m2 p2)
  have m3: "m_sbox_value invert_sboxes (3) (33) (20) = 99"
    by (simp add: m_sbox_eval)
  have p3: "psbox_entry (un_pbox des_tables) (3) (99) = 0x00120c00"
    by (simp add: psbox_eval)
  have s3: "sp_entry (3) 0x00000854 = 0x00120c00"
    by (simp add: sp_entry_def m3 p3)
  show ?thesis
    by (simp add: round_ref_def e s0 s1 s2 s3)
qed

lemma zero_round_15:
  "round_ref \<lparr>saltbits = 0, en_keysl = replicate 16 0, en_keysr = replicate 16 0\<rparr> 15
     \<lparr>reg_l = 0x058cad0a, reg_r = 0xbbea0dc2, reg_f = 0xbbea0dc2, rounds_run = 15, reps_run = 0\<rparr> =
   \<lparr>reg_l = 0xbbea0dc2, reg_r = 0x1c2087fc, reg_f = 0x1c2087fc, rounds_run = 16, reps_run = 0\<rparr>"
proof -
  have e: "expand_l 0xbbea0dc2 = 0x005f7f54" "expand_r 0xbbea0dc2 = 0x0005be05"
    by (simp_all add: expand_l_def expand_r_def)
  have m0: "m_sbox_value invert_sboxes (0) (23) (55) = 188"
    by (simp add: m_sbox_eval)
  have p0: "psbox_entry (un_pbox des_tables) (0) (188) = 0x00880212"
    by (simp add: psbox_eval)
  have s0: "sp_entry (0) 0x000005f7 = 0x00880212"
    by (simp add: sp_entry_def m0 p0)
  have m1: "m_sbox_value invert_sboxes ((Suc 0)) (61) (20) = 40"
    by (simp add: m_sbox_eval)
  have p1: "psbox_entry (un_pbox des_tables) ((Suc 0)) (40) = 0x00000044"
    by (simp add: psbox_eval)
  have s1: "sp_entry ((Suc 0)) 0x00000f54 = 0x00000044"
    by (simp add: sp_entry_def m1 p1)
  have m2: "m_sbox_value invert_sboxes (2) ((Suc 0)) (27) = 235"
    by (simp add: m_sbox_eval)
  have p2: "psbox_entry (un_pbox des_tables) (2) (235) = 0x11242080"
    by (simp add: psbox_eval)
  have s2: "sp_entry (2) 0x0000005b = 0x11242080"
    by (simp add: sp_entry_def m2 p2)
  have m3: "m_sbox_value invert_sboxes (3) (56) (5) = 13"
    by (simp add: m_sbox_eval)
  have p3: "psbox_entry (un_pbox des_tables) (3) (13) = 0x08000820"
    by (simp add: psbox_eval)
  have s3: "sp_entry (3) 0x00000e05 = 0x08000820"
    by (simp add: sp_entry_def m3 p3)
  show ?thesis
    by (simp add: round_ref_def e s0 s1 s2 s3)
qed

lemma zero_rounds:
  "rounds_ref \<lparr>saltbits = 0, en_keysl = replicate 16 0, en_keysr = replicate 16 0\<rparr> 16 0
     \<lparr>reg_l = 0x00000000, reg_r = 0x00000000, reg_f = 0x00000000, rounds_run = 0, reps_run = 0\<rparr> =
   \<lparr>reg_l = 0xbbea0dc2, reg_r = 0x1c2087fc, reg_f = 0x1c2087fc, rounds_run = 16, reps_run = 0\<rparr>"
  by (simp add: rounds_ref_fold upt16 zero_round_0 zero_round_1 zero_round_2 zero_round_3 zero_round_4 zero_round_5 zero_round_6 zero_round_7 zero_round_8 zero_round_9 zero_round_10 zero_round_11 zero_round_12 zero_round_13 zero_round_14 zero_round_15)

lemma zero_final:
  "fp_words \<lparr>reg_l = 0x1c2087fc, reg_r = 0xbbea0dc2, reg_f = 0x1c2087fc, rounds_run = 16, reps_run = (Suc 0)\<rparr> = (0x8ca64de9, 0xc1b123a7)"
proof -
  have f0: "fpl (0) (28) = 0x00004040" "fpr (0) (28) = 0x40000000"
    by (simp_all add: fp_eval)
  have f1: "fpl ((Suc 0)) (32) = 0x00000000" "fpr ((Suc 0)) (32) = 0x00100000"
    by (simp_all add: fp_eval)
  have f2: "fpl (2) (135) = 0x04040400" "fpr (2) (135) = 0x00000004"
    by (simp_all add: fp_eval)
  have f3: "fpl (3) (252) = 0x00000101" "fpr (3) (252) = 0x01010101"
    by (simp_all add: fp_eval)
  have f4: "fpl (4) (187) = 0x80800080" "fpr (4) (187) = 0x80800080"
    by (simp_all add: fp_eval)
  have f5: "fpl (5) (234) = 0x00200020" "fpr (5) (234) = 0x00202020"
    by (simp_all add: fp_eval)
  have f6: "fpl (6) (13) = 0x08000808" "fpr (6) (13) = 0x00000000"
    by (simp_all add: fp_eval)
  have f7: "fpl (7) (194) = 0x00020000" "fpr (7) (194) = 0x00000202"
    by (simp_all add: fp_eval)
  show ?thesis
    by (simp add: fp_words_def byte_index_def or8_def f0 f1 f2 f3 f4 f5 f6 f7)
qed

lemma zero_vector:
  assumes "des_reachable s" "des_ctx_wf ctx0" "length output = 8"
  shows "des_cipher_block s ctx0 (replicate 8 0) (replicate 8 0) output 0 1 =
           Some (0, [0x8C, 0xA6, 0x4D, 0xE9, 0xC1, 0xB1, 0x23, 0xA7], des_tables,
                 \<lparr>saltbits = 0, en_keysl = replicate 16 0, en_keysr = replicate 16 0\<rparr>)"
proof -
  have u: "unpack_block (replicate 8 0) = Some (0, 0)"
    by (simp add: unpack_block_def rd_def)
  have r: "rep_ref \<lparr>saltbits = 0, en_keysl = replicate 16 0, en_keysr = replicate 16 0\<rparr>
             \<lparr>reg_l = 0x00000000, reg_r = 0x00000000, reg_f = 0x00000000, rounds_run = 0, reps_run = 0\<rparr> =
           \<lparr>reg_l = 0x1c2087fc, reg_r = 0xbbea0dc2, reg_f = 0x1c2087fc, rounds_run = 16, reps_run = (Suc 0)\<rparr>"
    by (simp add: rep_ref_def zero_rounds)
  from list8 [OF assms(3)] obtain a b c d e f g h where o: "output = [a, b, c, d, e, f, g, h]" by blast
  have p: "pack_block output 0x8ca64de9 0xc1b123a7 = Some [0x8C, 0xA6, 0x4D, 0xE9, 0xC1, 0xB1, 0x23, 0xA7]"
    unfolding o pack_block_8 by simp
  have c: "(0 :: int) < 1" by simp
  show ?thesis
    unfolding des_cipher_block_success [OF assms(1,2) u u c]
    by (simp add: cipher_ctx_zero [OF assms(2)] ip_regs_zero r zero_final p)
qed

text \<open>
  C1. With the key of eight zero bytes, the input of eight zero bytes, salt 0 and count 1,
  \<^verbatim>\<open>des_cipher_block\<close> returns 0 and the output buffer holds the bytes
  \<^verbatim>\<open>8C A6 4D E9 C1 B1 23 A7\<close>.
\<close>

theorem des_known_vector:
  assumes "des_reachable s" and "des_ctx_wf ctx0" and "length output = 8"
  shows "\<exists>s' ctx'. des_cipher_block s ctx0 (replicate 8 0) (replicate 8 0) output 0 1 =
           Some (0, [0x8C, 0xA6, 0x4D, 0xE9, 0xC1, 0xB1, 0x23, 0xA7], s', ctx')"
  using zero_vector [OF assms] by blast

theorem des_known_vector_witness:
  "des_reachable des_static_init \<and>
   des_ctx_wf \<lparr>saltbits = 0xdeadbeef, en_keysl = replicate 16 0xffffffff, en_keysr = replicate 16 7\<rparr> \<and>
   length (replicate 8 (0xAA :: u8)) = 8 \<and>
   (\<exists>s' ctx'. des_cipher_block des_static_init
        \<lparr>saltbits = 0xdeadbeef, en_keysl = replicate 16 0xffffffff, en_keysr = replicate 16 7\<rparr>
        (replicate 8 0) (replicate 8 0) (replicate 8 0xAA) 0 1 =
      Some (0, [0x8C, 0xA6, 0x4D, 0xE9, 0xC1, 0xB1, 0x23, 0xA7], s', ctx'))"
proof -
  let ?c = "\<lparr>saltbits = 0xdeadbeef, en_keysl = replicate 16 0xffffffff, en_keysr = replicate 16 7\<rparr> :: des_ctx"
  have h: "des_reachable des_static_init" "des_ctx_wf ?c" "length (replicate 8 (0xAA :: u8)) = 8"
    by (simp_all add: des_reachable_def des_ctx_wf_def)
  show ?thesis
    by (intro conjI h des_known_vector [OF h])
qed

subsection \<open>Chaining of repetitions\<close>

text \<open>The OR-mask tables of the two permutations, bit by bit.\<close>

lemma bits32_nth: "n < 32 \<Longrightarrow> bits32 ! n = 2 ^ (31 - n)"
proof -
  have "list_all (\<lambda>n. bits32 ! n = 2 ^ (31 - n)) [0..<32]"
    by (simp add: bits32_def upt_rec)
  then show "n < 32 \<Longrightarrow> bits32 ! n = 2 ^ (31 - n)"
    by (simp add: list_all_iff)
qed

lemma bits8_nth: "j < 8 \<Longrightarrow> unat (bits8 ! j) = 2 ^ (7 - j)"
proof -
  have "list_all (\<lambda>j. unat (bits8 ! j) = 2 ^ (7 - j)) [0..<8]"
    by (simp add: bits8_def upt_rec)
  then show "j < 8 \<Longrightarrow> unat (bits8 ! j) = 2 ^ (7 - j)"
    by (simp add: list_all_iff)
qed

lemma bits8_test: "j < 8 \<Longrightarrow> (i AND unat (bits8 ! j) \<noteq> 0) \<longleftrightarrow> bit i (7 - j)" for i :: nat
  by (simp add: bits8_nth and_exp_eq_0_iff_not_bit)

lemma bit_or_bits32:
  assumes "ob < 32" "n < 32"
  shows "bit (x OR bits32 ! ob) n \<longleftrightarrow> bit x n \<or> ob = 31 - n"
proof -
  have "n = 31 - ob \<longleftrightarrow> ob = 31 - n" using assms by arith
  then show ?thesis
    using assms by (simp add: bit_or_iff bits32_nth bit_exp_iff)
qed

lemma perm_range:
  assumes "p < 64"
  shows "unat (init_perm des_tables ! p) < 64" "unat (final_perm des_tables ! p) < 64"
proof -
  have "list_all (\<lambda>x. unat x < 64) (init_perm des_tables)"
    "list_all (\<lambda>x. unat x < 64) (final_perm des_tables)"
    by (simp_all add: init_perm_tables final_perm_tables)
  moreover have "length (init_perm des_tables) = 64" "length (final_perm des_tables) = 64"
    by (simp_all add: init_perm_tables final_perm_tables)
  ultimately show "unat (init_perm des_tables ! p) < 64" "unat (final_perm des_tables ! p) < 64"
    using assms by (simp_all add: list_all_length)
qed

lemma perm_inverse:
  assumes "p < 64"
  shows "unat (init_perm des_tables ! unat (final_perm des_tables ! p)) = p"
    and "unat (final_perm des_tables ! unat (init_perm des_tables ! p)) = p"
proof -
  have "list_all (\<lambda>p. unat (init_perm des_tables ! unat (final_perm des_tables ! p)) = p) [0..<64]"
    "list_all (\<lambda>p. unat (final_perm des_tables ! unat (init_perm des_tables ! p)) = p) [0..<64]"
    by (simp_all add: init_perm_tables final_perm_tables upt_rec)
  then show "unat (init_perm des_tables ! unat (final_perm des_tables ! p)) = p"
    and "unat (final_perm des_tables ! unat (init_perm des_tables ! p)) = p"
    using assms by (simp_all add: list_all_iff)
qed


text \<open>One pass of the \<open>j\<close> loop, bit by bit.\<close>

lemma ip_fp_bit_bits:
  assumes "j < 8" "n < 32" "unat (ip ! (8 * k + j)) < 64" "unat (fp ! (8 * k + j)) < 64"
  shows "bit (fst (ip_fp_bit ip fp k i j s)) n \<longleftrightarrow>
           bit (fst s) n \<or> bit i (7 - j) \<and> unat (ip ! (8 * k + j)) = 31 - n"
    and "bit (fst (snd (ip_fp_bit ip fp k i j s))) n \<longleftrightarrow>
           bit (fst (snd s)) n \<or> bit i (7 - j) \<and> unat (ip ! (8 * k + j)) = 63 - n"
    and "bit (fst (snd (snd (ip_fp_bit ip fp k i j s)))) n \<longleftrightarrow>
           bit (fst (snd (snd s))) n \<or> bit i (7 - j) \<and> unat (fp ! (8 * k + j)) = 31 - n"
    and "bit (snd (snd (snd (ip_fp_bit ip fp k i j s)))) n \<longleftrightarrow>
           bit (snd (snd (snd s))) n \<or> bit i (7 - j) \<and> unat (fp ! (8 * k + j)) = 63 - n"
proof -
  obtain il ir fl fr where s: "s = (il, ir, fl, fr)" by (cases s)
  define a where "a = unat (ip ! (8 * k + j))"
  define b where "b = unat (fp ! (8 * k + j))"
  have a: "a < 64" and b: "b < 64" using assms by (simp_all add: a_def b_def)
  have e: "ip_fp_bit ip fp k i j (il, ir, fl, fr) =
     (if bit i (7 - j) then
        (if a < 32 then il OR bits32 ! a else il, if a < 32 then ir else ir OR bits32 ! (a - 32),
         if b < 32 then fl OR bits32 ! b else fl, if b < 32 then fr else fr OR bits32 ! (b - 32))
      else (il, ir, fl, fr))"
  proof -
    have c: "(i AND unat (bits8 ! j) \<noteq> 0) = bit i (7 - j)"
      using assms(1) by (rule bits8_test)
    show ?thesis
      unfolding ip_fp_bit_def c a_def b_def by (simp only: Let_def prod.case split: if_split) simp
  qed
  have l: "x < 32 \<Longrightarrow> x \<noteq> 63 - n" "\<not> x < 32 \<Longrightarrow> x \<noteq> 31 - n" for x
    using assms(2) by arith+
  have h: "\<not> x < 32 \<Longrightarrow> x < 64 \<Longrightarrow> x - 32 < 32"
    "\<not> x < 32 \<Longrightarrow> x < 64 \<Longrightarrow> (x - 32 = 31 - n \<longleftrightarrow> x = 63 - n)" for x
    using assms(2) by arith+
  show "bit (fst (ip_fp_bit ip fp k i j s)) n \<longleftrightarrow>
           bit (fst s) n \<or> bit i (7 - j) \<and> unat (ip ! (8 * k + j)) = 31 - n"
    unfolding s e a_def [symmetric] using assms(2) a l [of a] by (simp add: bit_or_bits32)
  show "bit (fst (snd (ip_fp_bit ip fp k i j s))) n \<longleftrightarrow>
           bit (fst (snd s)) n \<or> bit i (7 - j) \<and> unat (ip ! (8 * k + j)) = 63 - n"
    unfolding s e a_def [symmetric] using assms(2) a l [of a] h [of a] by (simp add: bit_or_bits32)
  show "bit (fst (snd (snd (ip_fp_bit ip fp k i j s)))) n \<longleftrightarrow>
           bit (fst (snd (snd s))) n \<or> bit i (7 - j) \<and> unat (fp ! (8 * k + j)) = 31 - n"
    unfolding s e b_def [symmetric] using assms(2) b l [of b] by (simp add: bit_or_bits32)
  show "bit (snd (snd (snd (ip_fp_bit ip fp k i j s)))) n \<longleftrightarrow>
           bit (snd (snd (snd s))) n \<or> bit i (7 - j) \<and> unat (fp ! (8 * k + j)) = 63 - n"
    unfolding s e b_def [symmetric] using assms(2) b l [of b] h [of b] by (simp add: bit_or_bits32)
qed


lemma ip_fp_prefix_bits:
  fixes i k n m :: nat and ip fp :: "u8 list"
  assumes "k < 8" "n < 32" "m \<le> 8"
    and range: "\<And>p. p < 64 \<Longrightarrow> unat (ip ! p) < 64 \<and> unat (fp ! p) < 64"
  defines "s \<equiv> fold (ip_fp_bit ip fp k i) [0..<m] (0, 0, 0, 0)"
  shows "(bit (fst s) n \<longleftrightarrow> (\<exists>j<m. bit i (7 - j) \<and> unat (ip ! (8 * k + j)) = 31 - n)) \<and>
         (bit (fst (snd s)) n \<longleftrightarrow> (\<exists>j<m. bit i (7 - j) \<and> unat (ip ! (8 * k + j)) = 63 - n)) \<and>
         (bit (fst (snd (snd s))) n \<longleftrightarrow> (\<exists>j<m. bit i (7 - j) \<and> unat (fp ! (8 * k + j)) = 31 - n)) \<and>
         (bit (snd (snd (snd s))) n \<longleftrightarrow> (\<exists>j<m. bit i (7 - j) \<and> unat (fp ! (8 * k + j)) = 63 - n))"
  using assms(3) unfolding s_def
proof (induction m)
  case 0
  show ?case by simp
next
  case (Suc m)
  then have m: "m < 8" and "m \<le> 8" by simp_all
  with assms(1) have "8 * k + m < 64" by simp
  from range [OF this] have r: "unat (ip ! (8 * k + m)) < 64" "unat (fp ! (8 * k + m)) < 64"
    by simp_all
  note b = ip_fp_bit_bits [OF m assms(2) r, of i "fold (ip_fp_bit ip fp k i) [0..<m] (0, 0, 0, 0)"]
  note ih = Suc.IH [OF \<open>m \<le> 8\<close>]
  have x: "(\<exists>j<Suc m. P j) \<longleftrightarrow> (\<exists>j<m. P j) \<or> P m" for P
    by (auto simp: less_Suc_eq)
  show ?case
    unfolding x by (simp add: b ih)
qed

lemma mask_entry_bits:
  assumes "k < 8" "n < 32"
  shows "bit (ipl k i) n \<longleftrightarrow> (\<exists>j<8. bit i (7 - j) \<and> unat (init_perm des_tables ! (8 * k + j)) = 31 - n)"
    and "bit (ipr k i) n \<longleftrightarrow> (\<exists>j<8. bit i (7 - j) \<and> unat (init_perm des_tables ! (8 * k + j)) = 63 - n)"
    and "bit (fpl k i) n \<longleftrightarrow> (\<exists>j<8. bit i (7 - j) \<and> unat (final_perm des_tables ! (8 * k + j)) = 31 - n)"
    and "bit (fpr k i) n \<longleftrightarrow> (\<exists>j<8. bit i (7 - j) \<and> unat (final_perm des_tables ! (8 * k + j)) = 63 - n)"
proof -
  have "(8 :: nat) \<le> 8" by simp
  note p = ip_fp_prefix_bits [OF assms this, of "init_perm des_tables" "final_perm des_tables" i,
      folded ip_fp_entry_def]
  have r: "\<And>p. p < 64 \<Longrightarrow> unat (init_perm des_tables ! p) < 64 \<and> unat (final_perm des_tables ! p) < 64"
    using perm_range by blast
  from p [OF r]
  show "bit (ipl k i) n \<longleftrightarrow> (\<exists>j<8. bit i (7 - j) \<and> unat (init_perm des_tables ! (8 * k + j)) = 31 - n)"
    and "bit (ipr k i) n \<longleftrightarrow> (\<exists>j<8. bit i (7 - j) \<and> unat (init_perm des_tables ! (8 * k + j)) = 63 - n)"
    and "bit (fpl k i) n \<longleftrightarrow> (\<exists>j<8. bit i (7 - j) \<and> unat (final_perm des_tables ! (8 * k + j)) = 31 - n)"
    and "bit (fpr k i) n \<longleftrightarrow> (\<exists>j<8. bit i (7 - j) \<and> unat (final_perm des_tables ! (8 * k + j)) = 63 - n)"
    unfolding ipl_def ipr_def fpl_def fpr_def by blast+
qed


lemma ex_less_8:
  "(\<exists>k<8. P k) \<longleftrightarrow> P 0 \<or> P 1 \<or> P 2 \<or> P 3 \<or> P 4 \<or> P 5 \<or> P 6 \<or> P (7 :: nat)"
proof
  assume "\<exists>k<8. P k"
  then obtain k where k: "k < 8" "P k" by blast
  then have "k = 0 \<or> k = 1 \<or> k = 2 \<or> k = 3 \<or> k = 4 \<or> k = 5 \<or> k = 6 \<or> k = 7" by arith
  with k(2) show "P 0 \<or> P 1 \<or> P 2 \<or> P 3 \<or> P 4 \<or> P 5 \<or> P 6 \<or> P 7" by blast
next
  have "(0 :: nat) < 8" "(1 :: nat) < 8" "(2 :: nat) < 8" "(3 :: nat) < 8" "(4 :: nat) < 8"
    "(5 :: nat) < 8" "(6 :: nat) < 8" "(7 :: nat) < 8" by simp_all
  moreover assume "P 0 \<or> P 1 \<or> P 2 \<or> P 3 \<or> P 4 \<or> P 5 \<or> P 6 \<or> P 7"
  ultimately show "\<exists>k<8. P k" by blast
qed

lemma or8_bits: "bit (or8 f ix) n \<longleftrightarrow> (\<exists>k<8. bit (f k (ix ! k)) n)"
  unfolding ex_less_8 by (simp add: or8_def bit_or_iff)

lemma byte_bits:
  fixes a :: u32
  assumes "j < 8"
  shows "bit (unat (drop_bit 24 a)) (7 - j) \<longleftrightarrow> bit a (31 - j)"
    and "bit (unat (drop_bit 16 a AND 0xff)) (7 - j) \<longleftrightarrow> bit a (23 - j)"
    and "bit (unat (drop_bit 8 a AND 0xff)) (7 - j) \<longleftrightarrow> bit a (15 - j)"
    and "bit (unat (a AND 0xff)) (7 - j) \<longleftrightarrow> bit a (7 - j)"
proof -
  have e: "24 + (7 - j) = 31 - j" "16 + (7 - j) = 23 - j" "8 + (7 - j) = 15 - j" "7 - j < 8"
    "7 - j < 32"
    using assms by arith+
  show "bit (unat (drop_bit 24 a)) (7 - j) \<longleftrightarrow> bit a (31 - j)"
    by (simp add: bit_unsigned_iff bit_drop_bit_eq e)
  show "bit (unat (drop_bit 16 a AND 0xff)) (7 - j) \<longleftrightarrow> bit a (23 - j)"
    unfolding mask8 by (simp add: bit_unsigned_iff bit_and_iff bit_mask_iff bit_drop_bit_eq e)
  show "bit (unat (drop_bit 8 a AND 0xff)) (7 - j) \<longleftrightarrow> bit a (15 - j)"
    unfolding mask8 by (simp add: bit_unsigned_iff bit_and_iff bit_mask_iff bit_drop_bit_eq e)
  show "bit (unat (a AND 0xff)) (7 - j) \<longleftrightarrow> bit a (7 - j)"
    unfolding mask8 by (simp add: bit_unsigned_iff bit_and_iff bit_mask_iff e)
qed

lemma byte_index_bits:
  assumes "k < 8" "j < 8"
  shows "bit (byte_index a b ! k) (7 - j) \<longleftrightarrow> in64 a b (8 * k + j)"
proof -
  from assms(1) consider "k = 0" | "k = 1" | "k = 2" | "k = 3" | "k = 4" | "k = 5" | "k = 6" | "k = 7"
    by arith
  then show ?thesis
  proof cases
    case 1
    have i: "byte_index a b ! k = unat (drop_bit 24 a)"
      unfolding 1 by (simp add: byte_index_def)
    have "31 - (8 * k + j) = 31 - j" unfolding 1 using assms(2) by arith
    then have p: "in64 a b (8 * k + j) = bit a (31 - j)"
      unfolding 1 using assms(2) by (simp add: in64_def)
    show ?thesis
      unfolding i p by (rule byte_bits(1) [OF assms(2)])
  next
    case 2
    have i: "byte_index a b ! k = unat (drop_bit 16 a AND 0xff)"
      unfolding 2 by (simp add: byte_index_def)
    have "31 - (8 * k + j) = 23 - j" unfolding 2 using assms(2) by arith
    then have p: "in64 a b (8 * k + j) = bit a (23 - j)"
      unfolding 2 using assms(2) by (simp add: in64_def)
    show ?thesis
      unfolding i p by (rule byte_bits(2) [OF assms(2)])
  next
    case 3
    have i: "byte_index a b ! k = unat (drop_bit 8 a AND 0xff)"
      unfolding 3 by (simp add: byte_index_def)
    have "31 - (8 * k + j) = 15 - j" unfolding 3 using assms(2) by arith
    then have p: "in64 a b (8 * k + j) = bit a (15 - j)"
      unfolding 3 using assms(2) by (simp add: in64_def)
    show ?thesis
      unfolding i p by (rule byte_bits(3) [OF assms(2)])
  next
    case 4
    have i: "byte_index a b ! k = unat (a AND 0xff)"
      unfolding 4 by (simp add: byte_index_def)
    have "31 - (8 * k + j) = 7 - j" unfolding 4 using assms(2) by arith
    then have p: "in64 a b (8 * k + j) = bit a (7 - j)"
      unfolding 4 using assms(2) by (simp add: in64_def)
    show ?thesis
      unfolding i p by (rule byte_bits(4) [OF assms(2)])
  next
    case 5
    have i: "byte_index a b ! k = unat (drop_bit 24 b)"
      unfolding 5 by (simp add: byte_index_def)
    have "63 - (8 * k + j) = 31 - j" unfolding 5 using assms(2) by arith
    then have p: "in64 a b (8 * k + j) = bit b (31 - j)"
      unfolding 5 using assms(2) by (simp add: in64_def)
    show ?thesis
      unfolding i p by (rule byte_bits(1) [OF assms(2)])
  next
    case 6
    have i: "byte_index a b ! k = unat (drop_bit 16 b AND 0xff)"
      unfolding 6 by (simp add: byte_index_def)
    have "63 - (8 * k + j) = 23 - j" unfolding 6 using assms(2) by arith
    then have p: "in64 a b (8 * k + j) = bit b (23 - j)"
      unfolding 6 using assms(2) by (simp add: in64_def)
    show ?thesis
      unfolding i p by (rule byte_bits(2) [OF assms(2)])
  next
    case 7
    have i: "byte_index a b ! k = unat (drop_bit 8 b AND 0xff)"
      unfolding 7 by (simp add: byte_index_def)
    have "63 - (8 * k + j) = 15 - j" unfolding 7 using assms(2) by arith
    then have p: "in64 a b (8 * k + j) = bit b (15 - j)"
      unfolding 7 using assms(2) by (simp add: in64_def)
    show ?thesis
      unfolding i p by (rule byte_bits(3) [OF assms(2)])
  next
    case 8
    have i: "byte_index a b ! k = unat (b AND 0xff)"
      unfolding 8 by (simp add: byte_index_def)
    have "63 - (8 * k + j) = 7 - j" unfolding 8 using assms(2) by arith
    then have p: "in64 a b (8 * k + j) = bit b (7 - j)"
      unfolding 8 using assms(2) by (simp add: in64_def)
    show ?thesis
      unfolding i p by (rule byte_bits(4) [OF assms(2)])
  qed
qed


lemma ex_less_64:
  "(\<exists>k<8. \<exists>j<8. P (8 * k + j)) \<longleftrightarrow> (\<exists>p<64. P (p :: nat))"
proof
  assume "\<exists>k<8. \<exists>j<8. P (8 * k + j)"
  then obtain k j where kj: "k < 8" "j < 8" "P (8 * k + j)" by blast
  then have "8 * k + j < 64" by arith
  with kj(3) show "\<exists>p<64. P p" by blast
next
  assume "\<exists>p<64. P p"
  then obtain p where p: "p < 64" "P p" by blast
  then have "p div 8 < 8" "p mod 8 < 8" "8 * (p div 8) + p mod 8 = p" by arith+
  with p(2) show "\<exists>k<8. \<exists>j<8. P (8 * k + j)" by metis
qed

lemma or8_index_bits:
  assumes "n < 32"
  shows "bit (or8 ipl (byte_index a b)) n \<longleftrightarrow>
           (\<exists>p<64. in64 a b p \<and> unat (init_perm des_tables ! p) = 31 - n)"
    and "bit (or8 ipr (byte_index a b)) n \<longleftrightarrow>
           (\<exists>p<64. in64 a b p \<and> unat (init_perm des_tables ! p) = 63 - n)"
    and "bit (or8 fpl (byte_index a b)) n \<longleftrightarrow>
           (\<exists>p<64. in64 a b p \<and> unat (final_perm des_tables ! p) = 31 - n)"
    and "bit (or8 fpr (byte_index a b)) n \<longleftrightarrow>
           (\<exists>p<64. in64 a b p \<and> unat (final_perm des_tables ! p) = 63 - n)"
proof -
  have e: "(\<exists>k<8. \<exists>j<8. bit (byte_index a b ! k) (7 - j) \<and> Q (8 * k + j)) \<longleftrightarrow>
           (\<exists>p<64. in64 a b p \<and> Q p)" for Q
    unfolding ex_less_64 [symmetric, of "\<lambda>p. in64 a b p \<and> Q p"]
    using byte_index_bits [of _ _ a b] by blast
  have m: "(\<exists>k<8. bit (f k (byte_index a b ! k)) n) \<longleftrightarrow>
           (\<exists>k<8. \<exists>j<8. bit (byte_index a b ! k) (7 - j) \<and> Q (8 * k + j))"
    if "\<And>k i. k < 8 \<Longrightarrow> bit (f k i) n \<longleftrightarrow> (\<exists>j<8. bit i (7 - j) \<and> Q (8 * k + j))"
    for f :: "nat \<Rightarrow> nat \<Rightarrow> u32" and Q
    using that by blast
  show "bit (or8 ipl (byte_index a b)) n \<longleftrightarrow>
           (\<exists>p<64. in64 a b p \<and> unat (init_perm des_tables ! p) = 31 - n)"
    unfolding or8_bits e [symmetric]
    by (rule m) (rule mask_entry_bits(1) [OF _ assms])
  show "bit (or8 ipr (byte_index a b)) n \<longleftrightarrow>
           (\<exists>p<64. in64 a b p \<and> unat (init_perm des_tables ! p) = 63 - n)"
    unfolding or8_bits e [symmetric]
    by (rule m) (rule mask_entry_bits(2) [OF _ assms])
  show "bit (or8 fpl (byte_index a b)) n \<longleftrightarrow>
           (\<exists>p<64. in64 a b p \<and> unat (final_perm des_tables ! p) = 31 - n)"
    unfolding or8_bits e [symmetric]
    by (rule m) (rule mask_entry_bits(3) [OF _ assms])
  show "bit (or8 fpr (byte_index a b)) n \<longleftrightarrow>
           (\<exists>p<64. in64 a b p \<and> unat (final_perm des_tables ! p) = 63 - n)"
    unfolding or8_bits e [symmetric]
    by (rule m) (rule mask_entry_bits(4) [OF _ assms])
qed

lemma perm_preimage:
  assumes "q < 64"
  shows "(\<exists>p<64. P p \<and> unat (final_perm des_tables ! p) = q) \<longleftrightarrow>
           P (unat (init_perm des_tables ! q))"
    and "(\<exists>p<64. P p \<and> unat (init_perm des_tables ! p) = q) \<longleftrightarrow>
           P (unat (final_perm des_tables ! q))"
proof -
  show "(\<exists>p<64. P p \<and> unat (final_perm des_tables ! p) = q) \<longleftrightarrow>
           P (unat (init_perm des_tables ! q))"
  proof
    assume "\<exists>p<64. P p \<and> unat (final_perm des_tables ! p) = q"
    then obtain p where p: "p < 64" "P p" "unat (final_perm des_tables ! p) = q" by blast
    from perm_inverse(1) [OF p(1)] p(3) have "unat (init_perm des_tables ! q) = p" by simp
    with p(2) show "P (unat (init_perm des_tables ! q))" by simp
  next
    assume "P (unat (init_perm des_tables ! q))"
    with perm_range(1) [OF assms] perm_inverse(2) [OF assms]
    show "\<exists>p<64. P p \<and> unat (final_perm des_tables ! p) = q" by blast
  qed
  show "(\<exists>p<64. P p \<and> unat (init_perm des_tables ! p) = q) \<longleftrightarrow>
           P (unat (final_perm des_tables ! q))"
  proof
    assume "\<exists>p<64. P p \<and> unat (init_perm des_tables ! p) = q"
    then obtain p where p: "p < 64" "P p" "unat (init_perm des_tables ! p) = q" by blast
    from perm_inverse(2) [OF p(1)] p(3) have "unat (final_perm des_tables ! q) = p" by simp
    with p(2) show "P (unat (final_perm des_tables ! q))" by simp
  next
    assume "P (unat (final_perm des_tables ! q))"
    with perm_range(2) [OF assms] perm_inverse(1) [OF assms]
    show "\<exists>p<64. P p \<and> unat (init_perm des_tables ! p) = q" by blast
  qed
qed

lemma in64_perm:
  assumes "q < 64"
  shows "in64 (or8 fpl (byte_index a b)) (or8 fpr (byte_index a b)) q \<longleftrightarrow>
           in64 a b (unat (init_perm des_tables ! q))"
    and "in64 (or8 ipl (byte_index a b)) (or8 ipr (byte_index a b)) q \<longleftrightarrow>
           in64 a b (unat (final_perm des_tables ! q))"
proof -
  show "in64 (or8 fpl (byte_index a b)) (or8 fpr (byte_index a b)) q \<longleftrightarrow>
           in64 a b (unat (init_perm des_tables ! q))"
  proof (cases "q < 32")
    case True
    then have n: "31 - q < 32" "31 - (31 - q) = q" by arith+
    show ?thesis
      using True or8_index_bits(3) [OF n(1), of a b] perm_preimage(1) [OF assms, of "in64 a b"]
      by (simp add: in64_def [of "or8 fpl (byte_index a b)"] n(2))
  next
    case False
    with assms have n: "63 - q < 32" "63 - (63 - q) = q" by arith+
    show ?thesis
      using False or8_index_bits(4) [OF n(1), of a b] perm_preimage(1) [OF assms, of "in64 a b"]
      by (simp add: in64_def [of "or8 fpl (byte_index a b)"] n(2))
  qed
  show "in64 (or8 ipl (byte_index a b)) (or8 ipr (byte_index a b)) q \<longleftrightarrow>
           in64 a b (unat (final_perm des_tables ! q))"
  proof (cases "q < 32")
    case True
    then have n: "31 - q < 32" "31 - (31 - q) = q" by arith+
    show ?thesis
      using True or8_index_bits(1) [OF n(1), of a b] perm_preimage(2) [OF assms, of "in64 a b"]
      by (simp add: in64_def [of "or8 ipl (byte_index a b)"] n(2))
  next
    case False
    with assms have n: "63 - q < 32" "63 - (63 - q) = q" by arith+
    show ?thesis
      using False or8_index_bits(2) [OF n(1), of a b] perm_preimage(2) [OF assms, of "in64 a b"]
      by (simp add: in64_def [of "or8 ipl (byte_index a b)"] n(2))
  qed
qed

lemma in64_ip_fp:
  assumes "q < 64"
  shows "in64 (or8 ipl (byte_index (or8 fpl (byte_index a b)) (or8 fpr (byte_index a b))))
              (or8 ipr (byte_index (or8 fpl (byte_index a b)) (or8 fpr (byte_index a b)))) q
         \<longleftrightarrow> in64 a b q"
  unfolding in64_perm(2) [OF assms] in64_perm(1) [OF perm_range(2) [OF assms]]
    perm_inverse(1) [OF assms] ..

lemma ip_after_fp:
  "or8 ipl (byte_index (or8 fpl (byte_index a b)) (or8 fpr (byte_index a b))) = a"
  "or8 ipr (byte_index (or8 fpl (byte_index a b)) (or8 fpr (byte_index a b))) = b"
proof -
  let ?A = "or8 ipl (byte_index (or8 fpl (byte_index a b)) (or8 fpr (byte_index a b)))"
  let ?B = "or8 ipr (byte_index (or8 fpl (byte_index a b)) (or8 fpr (byte_index a b)))"
  show "?A = a"
  proof (rule bit_word_eqI)
    fix n assume "n < LENGTH(32)"
    then have n: "31 - n < 64" "31 - n < 32" "31 - (31 - n) = n" by simp_all
    from in64_ip_fp [OF n(1), of a b] n(2) show "bit ?A n \<longleftrightarrow> bit a n"
      by (simp only: in64_def n(3) if_True)
  qed
  show "?B = b"
  proof (rule bit_word_eqI)
    fix n assume "n < LENGTH(32)"
    then have n: "63 - n < 64" "\<not> 63 - n < 32" "63 - (63 - n) = n" by simp_all
    from in64_ip_fp [OF n(1), of a b] n(2) show "bit ?B n \<longleftrightarrow> bit b n"
      by (simp only: in64_def n(3) if_False)
  qed
qed


lemma round_ref_regs:
  assumes "reg_l st = reg_l st'" "reg_r st = reg_r st'"
  shows "reg_l (round_ref ctx ki st) = reg_l (round_ref ctx ki st')"
    and "reg_r (round_ref ctx ki st) = reg_r (round_ref ctx ki st')"
    and "reg_f (round_ref ctx ki st) = reg_f (round_ref ctx ki st')"
  using assms by (simp_all add: round_ref_def Let_def)

lemma rounds_ref_regs:
  assumes "reg_l st = reg_l st'" "reg_r st = reg_r st'" "0 < n"
  shows "reg_l (rounds_ref ctx n ki st) = reg_l (rounds_ref ctx n ki st') \<and>
         reg_r (rounds_ref ctx n ki st) = reg_r (rounds_ref ctx n ki st') \<and>
         reg_f (rounds_ref ctx n ki st) = reg_f (rounds_ref ctx n ki st')"
  using assms
proof (induction n arbitrary: ki st st')
  case 0
  then show ?case by simp
next
  case (Suc n)
  note r = round_ref_regs [OF Suc.prems(1,2), of ctx ki]
  show ?case
  proof (cases n)
    case 0
    with r show ?thesis by simp
  next
    case (Suc m)
    then have "0 < n" by simp
    from Suc.IH [OF r(1,2) this, of "ki + 1"] show ?thesis by simp
  qed
qed

lemma rep_ref_regs:
  assumes "reg_l st = reg_l st'" "reg_r st = reg_r st'"
  shows "reg_l (rep_ref ctx st) = reg_l (rep_ref ctx st')"
    and "reg_r (rep_ref ctx st) = reg_r (rep_ref ctx st')"
proof -
  have "(0 :: nat) < 16" by simp
  from rounds_ref_regs [OF assms this, of ctx 0]
  show "reg_l (rep_ref ctx st) = reg_l (rep_ref ctx st')"
    and "reg_r (rep_ref ctx st) = reg_r (rep_ref ctx st')"
    by (simp_all add: rep_ref_def Let_def)
qed

lemma fp_words_regs:
  "reg_l st = reg_l st' \<Longrightarrow> reg_r st = reg_r st' \<Longrightarrow> fp_words st = fp_words st'"
  by (simp add: fp_words_def)

text \<open>
  The initial permutation of the final permutation of a state gives the registers of that
  state: a call that starts on the output of another continues where that one stopped.
\<close>

lemma rep_ref_chain:
  assumes "fp_words st = (a, b)"
  shows "fp_words (rep_ref ctx (ip_regs a b)) = fp_words (rep_ref ctx st)"
proof -
  from assms have a: "a = or8 fpl (byte_index (reg_l st) (reg_r st))"
    and b: "b = or8 fpr (byte_index (reg_l st) (reg_r st))"
    by (simp_all add: fp_words_def)
  have "reg_l (ip_regs a b) = reg_l st" "reg_r (ip_regs a b) = reg_r st"
    unfolding a b by (simp_all add: ip_regs_def ip_after_fp)
  from rep_ref_regs [OF this] show ?thesis by (rule fp_words_regs)
qed

lemma des_cipher_block_twice:
  assumes "des_reachable s" "des_ctx_wf ctx0" "des_reachable s1"
    "length key = 8" "length input = 8" "length output = 8" "length output' = 8"
  shows "\<exists>out1 out2 s' ctx'.
           des_cipher_block s ctx0 key input output salt 1 = Some (0, out1, s', ctx') \<and>
           des_cipher_block s1 ctx0 key out1 output' salt 1 = Some (0, out2, s', ctx') \<and>
           des_cipher_block s ctx0 key input output salt 2 = Some (0, out2, s', ctx')"
proof -
  from unpack_block_Some [OF assms(4)] obtain k0 k1 where k: "unpack_block key = Some (k0, k1)"
    by blast
  from unpack_block_Some [OF assms(5)] obtain lt rt where i: "unpack_block input = Some (lt, rt)"
    by blast
  define c where "c = cipher_ctx ctx0 k0 k1 salt"
  define st1 where "st1 = rep_ref c (ip_regs lt rt)"
  obtain a b where f1: "fp_words st1 = (a, b)" by (cases "fp_words st1")
  obtain a2 b2 where f2: "fp_words (rep_ref c st1) = (a2, b2)" by (cases "fp_words (rep_ref c st1)")
  from unpack_pack_block [OF assms(6), of a b] obtain out1
    where o1: "pack_block output a b = Some out1" "length out1 = 8" "unpack_block out1 = Some (a, b)"
    by blast
  from list8 [OF assms(6)] obtain x0 x1 x2 x3 x4 x5 x6 x7
    where ob: "output = [x0, x1, x2, x3, x4, x5, x6, x7]" by blast
  from list8 [OF assms(7)] obtain y0 y1 y2 y3 y4 y5 y6 y7
    where ob': "output' = [y0, y1, y2, y3, y4, y5, y6, y7]" by blast
  obtain out2 where o2: "pack_block output a2 b2 = Some out2" "pack_block output' a2 b2 = Some out2"
    unfolding ob ob' pack_block_8 by blast
  let ?z = "\<lparr>saltbits = 0, en_keysl = replicate 16 0, en_keysr = replicate 16 0\<rparr> :: des_ctx"
  have p1: "(0 :: int) < 1" and p2: "(0 :: int) < 2" by simp_all
  have n2: "nat 2 = Suc (Suc 0)" by simp
  have 1: "des_cipher_block s ctx0 key input output salt 1 = Some (0, out1, des_tables, ?z)"
    unfolding des_cipher_block_success [OF assms(1,2) k i p1]
    using f1 o1(1) by (simp add: c_def [symmetric] st1_def [symmetric])
  have 2: "des_cipher_block s1 ctx0 key out1 output' salt 1 = Some (0, out2, des_tables, ?z)"
    unfolding des_cipher_block_success [OF assms(3,2) k o1(3) p1]
    using rep_ref_chain [OF f1, of c] f2 o2(2) by (simp add: c_def [symmetric])
  have 3: "des_cipher_block s ctx0 key input output salt 2 = Some (0, out2, des_tables, ?z)"
    unfolding des_cipher_block_success [OF assms(1,2) k i p2] n2
    using f2 o2(1) by (simp add: c_def [symmetric] st1_def [symmetric])
  from 1 2 3 show ?thesis by blast
qed


text \<open>
  C3. With count 2, \<^verbatim>\<open>des_cipher_block\<close> applies the initial permutation once, runs
  the sixteen rounds twice with only \<^verbatim>\<open>r = l; l = f\<close> between the two runs, and applies
  the final permutation once. For every key, salt and input this is also what two calls
  with count 1 give, the second on the output of the first: the final permutation that ends
  the first call and the initial permutation that starts the second cancel.
\<close>

theorem des_count_chaining:
  assumes "des_reachable s" "des_ctx_wf ctx0" "length key = 8" "length input = 8"
    "length output = 8"
  shows "\<exists>ctx lt rt l r st1 st2 a b out out1 s' ctx'.
       des_set_key s ctx0 key = Some (des_tables, ctx) \<and>
       unpack_block input = Some (lt, rt) \<and>
       or_masks (ip_maskl des_tables) (ip_maskr des_tables) (byte_index lt rt) = Some (l, r) \<and>
       des_rounds des_tables (des_set_salt ctx (of_int salt)) 16 0
         \<lparr>reg_l = l, reg_r = r, reg_f = 0, rounds_run = 0, reps_run = 0\<rparr> = Some st1 \<and>
       des_rounds des_tables (des_set_salt ctx (of_int salt)) 16 0
         (st1\<lparr>reg_r := reg_l st1, reg_l := reg_f st1, reps_run := reps_run st1 + 1\<rparr>) = Some st2 \<and>
       or_masks (fp_maskl des_tables) (fp_maskr des_tables) (byte_index (reg_f st2) (reg_l st2))
         = Some (a, b) \<and>
       pack_block output a b = Some out \<and>
       des_cipher_block s ctx0 key input output salt 2 = Some (0, out, s', ctx') \<and>
       des_cipher_block s ctx0 key input output salt 1 = Some (0, out1, s', ctx') \<and>
       des_cipher_block s' ctx0 key out1 output salt 1 = Some (0, out, s', ctx')"
proof -
  from unpack_block_Some [OF assms(3)] obtain k0 k1 where k: "unpack_block key = Some (k0, k1)"
    by blast
  from unpack_block_Some [OF assms(4)] obtain lt rt where i: "unpack_block input = Some (lt, rt)"
    by blast
  define ctx where "ctx = key_sched_ref k0 k1 ctx0"
  define c where "c = des_set_salt ctx (of_int salt)"
  have fit: "keys_fit c"
    unfolding c_def ctx_def using cipher_ctx_fit [OF assms(2), of k0 k1 salt]
    by (simp add: cipher_ctx_def)
  have cc: "cipher_ctx ctx0 k0 k1 salt = c"
    by (simp add: cipher_ctx_def c_def ctx_def)
  define st0 where "st0 = ip_regs lt rt"
  define st1 where "st1 = rounds_ref c 16 0 st0"
  define st1' where "st1' = st1\<lparr>reg_r := reg_l st1, reg_l := reg_f st1, reps_run := reps_run st1 + 1\<rparr>"
  define st2 where "st2 = rounds_ref c 16 0 st1'"
  define a where "a = or8 fpl (byte_index (reg_f st2) (reg_l st2))"
  define b where "b = or8 fpr (byte_index (reg_f st2) (reg_l st2))"
  have b16: "(0 :: nat) + 16 \<le> 16" by simp
  have r1: "rep_ref c st0 = st1'"
    by (simp add: rep_ref_def Let_def st1_def st1'_def)
  have r2: "fp_words (rep_ref c st1') = (a, b)"
    by (simp add: rep_ref_def Let_def st2_def a_def b_def fp_words_def)
  have rs: "des_reachable des_tables" by (simp add: des_reachable_def)
  from pack_block_Some [OF assms(5), of a b] obtain out where o: "pack_block output a b = Some out"
    by blast
  let ?z = "\<lparr>saltbits = 0, en_keysl = replicate 16 0, en_keysr = replicate 16 0\<rparr> :: des_ctx"
  have p2: "(0 :: int) < 2" by simp
  have n2: "nat 2 = Suc (Suc 0)" by simp
  have 1: "des_set_key s ctx0 key = Some (des_tables, ctx)"
    unfolding ctx_def using assms(1) k assms(2) by (rule des_set_key_Some)
  have 3: "or_masks (ip_maskl des_tables) (ip_maskr des_tables) (byte_index lt rt) =
      Some (or8 ipl (byte_index lt rt), or8 ipr (byte_index lt rt))"
    by (rule or_masks_ip)
  have 4: "des_rounds des_tables (des_set_salt ctx (of_int salt)) 16 0
      \<lparr>reg_l = or8 ipl (byte_index lt rt), reg_r = or8 ipr (byte_index lt rt), reg_f = 0,
        rounds_run = 0, reps_run = 0\<rparr> = Some st1"
    unfolding c_def [symmetric] st1_def st0_def ip_regs_def using fit b16 by (rule des_rounds_Some)
  have 5: "des_rounds des_tables (des_set_salt ctx (of_int salt)) 16 0
      (st1\<lparr>reg_r := reg_l st1, reg_l := reg_f st1, reps_run := reps_run st1 + 1\<rparr>) = Some st2"
    unfolding c_def [symmetric] st2_def st1'_def using fit b16 by (rule des_rounds_Some)
  have 6: "or_masks (fp_maskl des_tables) (fp_maskr des_tables) (byte_index (reg_f st2) (reg_l st2))
      = Some (a, b)"
    unfolding a_def b_def by (rule or_masks_fp)
  have 8: "des_cipher_block s ctx0 key input output salt 2 = Some (0, out, des_tables, ?z)"
    unfolding des_cipher_block_success [OF assms(1,2) k i p2] n2 cc
    using r2 o by (simp add: st0_def [symmetric] r1)
  from des_cipher_block_twice [OF assms(1,2) rs assms(3,4,5,5), of salt] 8
  obtain out1 where 9: "des_cipher_block s ctx0 key input output salt 1 = Some (0, out1, des_tables, ?z)"
    and 10: "des_cipher_block des_tables ctx0 key out1 output salt 1 = Some (0, out, des_tables, ?z)"
    by auto
  from 1 i 3 4 5 6 o 8 9 10 show ?thesis by blast
qed

theorem des_count_chaining_witness:
  "des_reachable des_static_init \<and>
   des_ctx_wf \<lparr>saltbits = 0xdeadbeef, en_keysl = replicate 16 0xffffffff, en_keysr = replicate 16 7\<rparr> \<and>
   length [1, 2, 3, 4, 5, 6, 7, 8 :: u8] = 8 \<and>
   length [9, 10, 11, 12, 13, 14, 15, 16 :: u8] = 8 \<and>
   length (replicate 8 (0xAA :: u8)) = 8 \<and>
   (\<exists>ctx lt rt l r st1 st2 a b out out1 s' ctx'.
     des_set_key des_static_init 
         \<lparr>saltbits = 0xdeadbeef, en_keysl = replicate 16 0xffffffff, en_keysr = replicate 16 7\<rparr>
         [1, 2, 3, 4, 5, 6, 7, 8] = Some (des_tables, ctx) \<and>
     unpack_block [9, 10, 11, 12, 13, 14, 15, 16] = Some (lt, rt) \<and>
     or_masks (ip_maskl des_tables) (ip_maskr des_tables) (byte_index lt rt) = Some (l, r) \<and>
     des_rounds des_tables (des_set_salt ctx (of_int 0x123456)) 16 0
       \<lparr>reg_l = l, reg_r = r, reg_f = 0, rounds_run = 0, reps_run = 0\<rparr> = Some st1 \<and>
     des_rounds des_tables (des_set_salt ctx (of_int 0x123456)) 16 0
       (st1\<lparr>reg_r := reg_l st1, reg_l := reg_f st1, reps_run := reps_run st1 + 1\<rparr>) = Some st2 \<and>
     or_masks (fp_maskl des_tables) (fp_maskr des_tables) (byte_index (reg_f st2) (reg_l st2))
       = Some (a, b) \<and>
     pack_block (replicate 8 0xAA) a b = Some out \<and>
     des_cipher_block des_static_init 
         \<lparr>saltbits = 0xdeadbeef, en_keysl = replicate 16 0xffffffff, en_keysr = replicate 16 7\<rparr>
         [1, 2, 3, 4, 5, 6, 7, 8] [9, 10, 11, 12, 13, 14, 15, 16] (replicate 8 0xAA) 0x123456 2 = Some (0, out, s', ctx') \<and>
     des_cipher_block des_static_init 
         \<lparr>saltbits = 0xdeadbeef, en_keysl = replicate 16 0xffffffff, en_keysr = replicate 16 7\<rparr>
         [1, 2, 3, 4, 5, 6, 7, 8] [9, 10, 11, 12, 13, 14, 15, 16] (replicate 8 0xAA) 0x123456 1 = Some (0, out1, s', ctx') \<and>
     des_cipher_block s' 
         \<lparr>saltbits = 0xdeadbeef, en_keysl = replicate 16 0xffffffff, en_keysr = replicate 16 7\<rparr>
         [1, 2, 3, 4, 5, 6, 7, 8] out1 (replicate 8 0xAA) 0x123456 1 = Some (0, out, s', ctx'))"
proof -
  let ?c = "\<lparr>saltbits = 0xdeadbeef, en_keysl = replicate 16 0xffffffff, en_keysr = replicate 16 7\<rparr> :: des_ctx"
  have h: "des_reachable des_static_init" "des_ctx_wf ?c"
    "length [1, 2, 3, 4, 5, 6, 7, 8 :: u8] = 8" "length [9, 10, 11, 12, 13, 14, 15, 16 :: u8] = 8"
    "length (replicate 8 (0xAA :: u8)) = 8"
    by (simp_all add: des_reachable_def des_ctx_wf_def)
  show ?thesis
    by (intro conjI h des_count_chaining [OF h])
qed

subsection \<open>A vector with a key schedule\<close>

text \<open>
  The key \<^verbatim>\<open>01 23 45 67 89 AB CD EF\<close> and the input \<^verbatim>\<open>4E 6F 77 20 69 73 20 74\<close>
  with salt 0, evaluated table entry by table entry.
\<close>

lemmas kp_eval = kpl_def kpr_def key_perm_entry_def key_perm_bit_def inv_key_perm_tables
  bits8_def bits28_def bits32_def upt7

lemmas cp_eval = cpl_def cpr_def comp_entry_def comp_bit_def inv_comp_perm_tables
  bits8_def bits24_def bits32_def upt7

lemmas ip_eval = ipl_def ipr_def ip_fp_entry_def ip_fp_bit_def init_perm_tables final_perm_tables
  bits8_def bits32_def upt8

lemma replicate16:
  "replicate 16 x = [x, x, x, x, x, x, x, x, x, x, x, x, x, x, x, x]"
  by (simp add: numeral_eq_Suc)

lemma cv_key:
  "or8 kpl (key_perm_index 0x01234567 0x89abcdef) = 0x0f0ccaa0"
  "or8 kpr (key_perm_index 0x01234567 0x89abcdef) = 0x0aaccf00"
proof -
  have x: "key_perm_index 0x01234567 0x89abcdef = [0, 17, 34, 51, 68, 85, 102, 119]"
    by (simp add: key_perm_index_def)
  have k0: "kpl 0 0 = 0x00000000" "kpr 0 0 = 0x00000000"
    by (simp_all add: kp_eval)
  have k1: "kpl (Suc 0) 17 = 0x00000020" "kpr (Suc 0) 17 = 0x00200000"
    by (simp_all add: kp_eval)
  have k2: "kpl 2 34 = 0x00004000" "kpr 2 34 = 0x00004000"
    by (simp_all add: kp_eval)
  have k3: "kpl 3 51 = 0x00008080" "kpr 3 51 = 0x00808000"
    by (simp_all add: kp_eval)
  have k4: "kpl 4 68 = 0x01000000" "kpr 4 68 = 0x00000100"
    by (simp_all add: kp_eval)
  have k5: "kpl 5 85 = 0x02000200" "kpr 5 85 = 0x02000200"
    by (simp_all add: kp_eval)
  have k6: "kpl 6 102 = 0x04040000" "kpr 6 102 = 0x00040400"
    by (simp_all add: kp_eval)
  have k7: "kpl 7 119 = 0x08080800" "kpr 7 119 = 0x08080800"
    by (simp_all add: kp_eval)
  show "or8 kpl (key_perm_index 0x01234567 0x89abcdef) = 0x0f0ccaa0"
    by (simp add: x or8_def k0 k1 k2 k3 k4 k5 k6 k7)
  show "or8 kpr (key_perm_index 0x01234567 0x89abcdef) = 0x0aaccf00"
    by (simp add: x or8_def k0 k1 k2 k3 k4 k5 k6 k7)
qed

text \<open>The sixteen rounds of the key schedule.\<close>

lemma cv_key_round_0:
  "key_round_ref 0x0f0ccaa0 0x0aaccf00 0
     (0, \<lparr>saltbits = 0,
        en_keysl = [0x00000000, 0x00000000, 0x00000000, 0x00000000,
                     0x00000000, 0x00000000, 0x00000000, 0x00000000,
                     0x00000000, 0x00000000, 0x00000000, 0x00000000,
                     0x00000000, 0x00000000, 0x00000000, 0x00000000],
        en_keysr = [0x00000000, 0x00000000, 0x00000000, 0x00000000,
                     0x00000000, 0x00000000, 0x00000000, 0x00000000,
                     0x00000000, 0x00000000, 0x00000000, 0x00000000,
                     0x00000000, 0x00000000, 0x00000000, 0x00000000]\<rparr>) =
   ((Suc 0), \<lparr>saltbits = 0,
      en_keysl = [0x000b0267, 0x00000000, 0x00000000, 0x00000000,
                   0x00000000, 0x00000000, 0x00000000, 0x00000000,
                   0x00000000, 0x00000000, 0x00000000, 0x00000000,
                   0x00000000, 0x00000000, 0x00000000, 0x00000000],
      en_keysr = [0x009b49a5, 0x00000000, 0x00000000, 0x00000000,
                   0x00000000, 0x00000000, 0x00000000, 0x00000000,
                   0x00000000, 0x00000000, 0x00000000, 0x00000000,
                   0x00000000, 0x00000000, 0x00000000, 0x00000000]\<rparr>)"
proof -
  have c0: "cpl 0 112 = 0x000a0001" "cpr 0 112 = 0x00000000"
    by (simp_all add: cp_eval)
  have c1: "cpl (Suc 0) 102 = 0x00000242" "cpr (Suc 0) 102 = 0x00000000"
    by (simp_all add: cp_eval)
  have c2: "cpl 2 42 = 0x00000024" "cpr 2 42 = 0x00000000"
    by (simp_all add: cp_eval)
  have c3: "cpl 3 65 = 0x00010000" "cpr 3 65 = 0x00000000"
    by (simp_all add: cp_eval)
  have c4: "cpl 4 42 = 0x00000000" "cpr 4 42 = 0x00020081"
    by (simp_all add: cp_eval)
  have c5: "cpl 5 102 = 0x00000000" "cpr 5 102 = 0x00910004"
    by (simp_all add: cp_eval)
  have c6: "cpl 6 60 = 0x00000000" "cpr 6 60 = 0x00084820"
    by (simp_all add: cp_eval)
  have c7: "cpl 7 (Suc 0) = 0x00000000" "cpr 7 (Suc 0) = 0x00000100"
    by (simp_all add: cp_eval)
  have o: "or8 cpl [112, 102, 42, 65, 42, 102, 60, (Suc 0)] = 0x000b0267" "or8 cpr [112, 102, 42, 65, 42, 102, 60, (Suc 0)] = 0x009b49a5"
    by (simp_all add: or8_def c0 c1 c2 c3 c4 c5 c6 c7)
  show ?thesis
    by (simp add: key_round_ref_def key_shifts_def comp_index_def o)
qed

lemma cv_key_round_1:
  "key_round_ref 0x0f0ccaa0 0x0aaccf00 (Suc 0)
     ((Suc 0), \<lparr>saltbits = 0,
        en_keysl = [0x000b0267, 0x00000000, 0x00000000, 0x00000000,
                     0x00000000, 0x00000000, 0x00000000, 0x00000000,
                     0x00000000, 0x00000000, 0x00000000, 0x00000000,
                     0x00000000, 0x00000000, 0x00000000, 0x00000000],
        en_keysr = [0x009b49a5, 0x00000000, 0x00000000, 0x00000000,
                     0x00000000, 0x00000000, 0x00000000, 0x00000000,
                     0x00000000, 0x00000000, 0x00000000, 0x00000000,
                     0x00000000, 0x00000000, 0x00000000, 0x00000000]\<rparr>) =
   (2, \<lparr>saltbits = 0,
      en_keysl = [0x000b0267, 0x0069a659, 0x00000000, 0x00000000,
                   0x00000000, 0x00000000, 0x00000000, 0x00000000,
                   0x00000000, 0x00000000, 0x00000000, 0x00000000,
                   0x00000000, 0x00000000, 0x00000000, 0x00000000],
      en_keysr = [0x009b49a5, 0x00256a26, 0x00000000, 0x00000000,
                   0x00000000, 0x00000000, 0x00000000, 0x00000000,
                   0x00000000, 0x00000000, 0x00000000, 0x00000000,
                   0x00000000, 0x00000000, 0x00000000, 0x00000000]\<rparr>)"
proof -
  have c0: "cpl 0 97 = 0x00080011" "cpr 0 97 = 0x00000000"
    by (simp_all add: cp_eval)
  have c1: "cpl (Suc 0) 76 = 0x00200240" "cpr (Suc 0) 76 = 0x00000000"
    by (simp_all add: cp_eval)
  have c2: "cpl 2 85 = 0x0040a400" "cpr 2 85 = 0x00000000"
    by (simp_all add: cp_eval)
  have c3: "cpl 3 3 = 0x00010008" "cpr 3 3 = 0x00000000"
    by (simp_all add: cp_eval)
  have c4: "cpl 4 85 = 0x00000000" "cpr 4 85 = 0x00202002"
    by (simp_all add: cp_eval)
  have c5: "cpl 5 76 = 0x00000000" "cpr 5 76 = 0x00010204"
    by (simp_all add: cp_eval)
  have c6: "cpl 6 120 = 0x00000000" "cpr 6 120 = 0x00004820"
    by (simp_all add: cp_eval)
  have c7: "cpl 7 2 = 0x00000000" "cpr 7 2 = 0x00040000"
    by (simp_all add: cp_eval)
  have o: "or8 cpl [97, 76, 85, 3, 85, 76, 120, 2] = 0x0069a659" "or8 cpr [97, 76, 85, 3, 85, 76, 120, 2] = 0x00256a26"
    by (simp_all add: or8_def c0 c1 c2 c3 c4 c5 c6 c7)
  show ?thesis
    by (simp add: key_round_ref_def key_shifts_def comp_index_def o)
qed

lemma cv_key_round_2:
  "key_round_ref 0x0f0ccaa0 0x0aaccf00 2
     (2, \<lparr>saltbits = 0,
        en_keysl = [0x000b0267, 0x0069a659, 0x00000000, 0x00000000,
                     0x00000000, 0x00000000, 0x00000000, 0x00000000,
                     0x00000000, 0x00000000, 0x00000000, 0x00000000,
                     0x00000000, 0x00000000, 0x00000000, 0x00000000],
        en_keysr = [0x009b49a5, 0x00256a26, 0x00000000, 0x00000000,
                     0x00000000, 0x00000000, 0x00000000, 0x00000000,
                     0x00000000, 0x00000000, 0x00000000, 0x00000000,
                     0x00000000, 0x00000000, 0x00000000, 0x00000000]\<rparr>) =
   (4, \<lparr>saltbits = 0,
      en_keysl = [0x000b0267, 0x0069a659, 0x0045d48a, 0x00000000,
                   0x00000000, 0x00000000, 0x00000000, 0x00000000,
                   0x00000000, 0x00000000, 0x00000000, 0x00000000,
                   0x00000000, 0x00000000, 0x00000000, 0x00000000],
      en_keysr = [0x009b49a5, 0x00256a26, 0x00b428d2, 0x00000000,
                   0x00000000, 0x00000000, 0x00000000, 0x00000000,
                   0x00000000, 0x00000000, 0x00000000, 0x00000000,
                   0x00000000, 0x00000000, 0x00000000, 0x00000000]\<rparr>)"
proof -
  have c0: "cpl 0 6 = 0x00044000" "cpr 0 6 = 0x00000000"
    by (simp_all add: cp_eval)
  have c1: "cpl (Suc 0) 50 = 0x00001002" "cpr (Suc 0) 50 = 0x00000000"
    by (simp_all add: cp_eval)
  have c2: "cpl 2 84 = 0x00408400" "cpr 2 84 = 0x00000000"
    by (simp_all add: cp_eval)
  have c3: "cpl 3 15 = 0x00010088" "cpr 3 15 = 0x00000000"
    by (simp_all add: cp_eval)
  have c4: "cpl 4 86 = 0x00000000" "cpr 4 86 = 0x00202082"
    by (simp_all add: cp_eval)
  have c5: "cpl 5 51 = 0x00000000" "cpr 5 51 = 0x00900010"
    by (simp_all add: cp_eval)
  have c6: "cpl 6 96 = 0x00000000" "cpr 6 96 = 0x00000800"
    by (simp_all add: cp_eval)
  have c7: "cpl 7 10 = 0x00000000" "cpr 7 10 = 0x00040040"
    by (simp_all add: cp_eval)
  have o: "or8 cpl [6, 50, 84, 15, 86, 51, 96, 10] = 0x0045d48a" "or8 cpr [6, 50, 84, 15, 86, 51, 96, 10] = 0x00b428d2"
    by (simp_all add: or8_def c0 c1 c2 c3 c4 c5 c6 c7)
  show ?thesis
    by (simp add: key_round_ref_def key_shifts_def comp_index_def o)
qed

lemma cv_key_round_3:
  "key_round_ref 0x0f0ccaa0 0x0aaccf00 3
     (4, \<lparr>saltbits = 0,
        en_keysl = [0x000b0267, 0x0069a659, 0x0045d48a, 0x00000000,
                     0x00000000, 0x00000000, 0x00000000, 0x00000000,
                     0x00000000, 0x00000000, 0x00000000, 0x00000000,
                     0x00000000, 0x00000000, 0x00000000, 0x00000000],
        en_keysr = [0x009b49a5, 0x00256a26, 0x00b428d2, 0x00000000,
                     0x00000000, 0x00000000, 0x00000000, 0x00000000,
                     0x00000000, 0x00000000, 0x00000000, 0x00000000,
                     0x00000000, 0x00000000, 0x00000000, 0x00000000]\<rparr>) =
   (6, \<lparr>saltbits = 0,
      en_keysl = [0x000b0267, 0x0069a659, 0x0045d48a, 0x007289d2,
                   0x00000000, 0x00000000, 0x00000000, 0x00000000,
                   0x00000000, 0x00000000, 0x00000000, 0x00000000,
                   0x00000000, 0x00000000, 0x00000000, 0x00000000],
      en_keysr = [0x009b49a5, 0x00256a26, 0x00b428d2, 0x00a58257,
                   0x00000000, 0x00000000, 0x00000000, 0x00000000,
                   0x00000000, 0x00000000, 0x00000000, 0x00000000,
                   0x00000000, 0x00000000, 0x00000000, 0x00000000]\<rparr>)"
proof -
  have c0: "cpl 0 25 = 0x00020110" "cpr 0 25 = 0x00000000"
    by (simp_all add: cp_eval)
  have c1: "cpl (Suc 0) 74 = 0x00200042" "cpr (Suc 0) 74 = 0x00000000"
    by (simp_all add: cp_eval)
  have c2: "cpl 2 80 = 0x00408000" "cpr 2 80 = 0x00000000"
    by (simp_all add: cp_eval)
  have c3: "cpl 3 60 = 0x00100880" "cpr 3 60 = 0x00000000"
    by (simp_all add: cp_eval)
  have c4: "cpl 4 89 = 0x00000000" "cpr 4 89 = 0x00200003"
    by (simp_all add: cp_eval)
  have c5: "cpl 5 79 = 0x00000000" "cpr 5 79 = 0x00810214"
    by (simp_all add: cp_eval)
  have c6: "cpl 6 0 = 0x00000000" "cpr 6 0 = 0x00000000"
    by (simp_all add: cp_eval)
  have c7: "cpl 7 42 = 0x00000000" "cpr 7 42 = 0x00048040"
    by (simp_all add: cp_eval)
  have o: "or8 cpl [25, 74, 80, 60, 89, 79, 0, 42] = 0x007289d2" "or8 cpr [25, 74, 80, 60, 89, 79, 0, 42] = 0x00a58257"
    by (simp_all add: or8_def c0 c1 c2 c3 c4 c5 c6 c7)
  show ?thesis
    by (simp add: key_round_ref_def key_shifts_def comp_index_def o)
qed

lemma cv_key_round_4:
  "key_round_ref 0x0f0ccaa0 0x0aaccf00 4
     (6, \<lparr>saltbits = 0,
        en_keysl = [0x000b0267, 0x0069a659, 0x0045d48a, 0x007289d2,
                     0x00000000, 0x00000000, 0x00000000, 0x00000000,
                     0x00000000, 0x00000000, 0x00000000, 0x00000000,
                     0x00000000, 0x00000000, 0x00000000, 0x00000000],
        en_keysr = [0x009b49a5, 0x00256a26, 0x00b428d2, 0x00a58257,
                     0x00000000, 0x00000000, 0x00000000, 0x00000000,
                     0x00000000, 0x00000000, 0x00000000, 0x00000000,
                     0x00000000, 0x00000000, 0x00000000, 0x00000000]\<rparr>) =
   (8, \<lparr>saltbits = 0,
      en_keysl = [0x000b0267, 0x0069a659, 0x0045d48a, 0x007289d2,
                   0x003ce803, 0x00000000, 0x00000000, 0x00000000,
                   0x00000000, 0x00000000, 0x00000000, 0x00000000,
                   0x00000000, 0x00000000, 0x00000000, 0x00000000],
      en_keysr = [0x009b49a5, 0x00256a26, 0x00b428d2, 0x00a58257,
                   0x0017a6c2, 0x00000000, 0x00000000, 0x00000000,
                   0x00000000, 0x00000000, 0x00000000, 0x00000000,
                   0x00000000, 0x00000000, 0x00000000, 0x00000000]\<rparr>)"
proof -
  have c0: "cpl 0 102 = 0x000c4001" "cpr 0 102 = 0x00000000"
    by (simp_all add: cp_eval)
  have c1: "cpl (Suc 0) 42 = 0x00200002" "cpr (Suc 0) 42 = 0x00000000"
    by (simp_all add: cp_eval)
  have c2: "cpl 2 65 = 0x0000a000" "cpr 2 65 = 0x00000000"
    by (simp_all add: cp_eval)
  have c3: "cpl 3 112 = 0x00100800" "cpr 3 112 = 0x00000000"
    by (simp_all add: cp_eval)
  have c4: "cpl 4 102 = 0x00000000" "cpr 4 102 = 0x00022082"
    by (simp_all add: cp_eval)
  have c5: "cpl 5 60 = 0x00000000" "cpr 5 60 = 0x00110200"
    by (simp_all add: cp_eval)
  have c6: "cpl 6 (Suc 0) = 0x00000000" "cpr 6 (Suc 0) = 0x00000400"
    by (simp_all add: cp_eval)
  have c7: "cpl 7 42 = 0x00000000" "cpr 7 42 = 0x00048040"
    by (simp_all add: cp_eval)
  have o: "or8 cpl [102, 42, 65, 112, 102, 60, (Suc 0), 42] = 0x003ce803" "or8 cpr [102, 42, 65, 112, 102, 60, (Suc 0), 42] = 0x0017a6c2"
    by (simp_all add: or8_def c0 c1 c2 c3 c4 c5 c6 c7)
  show ?thesis
    by (simp add: key_round_ref_def key_shifts_def comp_index_def o)
qed

lemma cv_key_round_5:
  "key_round_ref 0x0f0ccaa0 0x0aaccf00 5
     (8, \<lparr>saltbits = 0,
        en_keysl = [0x000b0267, 0x0069a659, 0x0045d48a, 0x007289d2,
                     0x003ce803, 0x00000000, 0x00000000, 0x00000000,
                     0x00000000, 0x00000000, 0x00000000, 0x00000000,
                     0x00000000, 0x00000000, 0x00000000, 0x00000000],
        en_keysr = [0x009b49a5, 0x00256a26, 0x00b428d2, 0x00a58257,
                     0x0017a6c2, 0x00000000, 0x00000000, 0x00000000,
                     0x00000000, 0x00000000, 0x00000000, 0x00000000,
                     0x00000000, 0x00000000, 0x00000000, 0x00000000]\<rparr>) =
   (10, \<lparr>saltbits = 0,
      en_keysl = [0x000b0267, 0x0069a659, 0x0045d48a, 0x007289d2,
                   0x003ce803, 0x0023251e, 0x00000000, 0x00000000,
                   0x00000000, 0x00000000, 0x00000000, 0x00000000,
                   0x00000000, 0x00000000, 0x00000000, 0x00000000],
      en_keysr = [0x009b49a5, 0x00256a26, 0x00b428d2, 0x00a58257,
                   0x0017a6c2, 0x003c8545, 0x00000000, 0x00000000,
                   0x00000000, 0x00000000, 0x00000000, 0x00000000,
                   0x00000000, 0x00000000, 0x00000000, 0x00000000]\<rparr>)"
proof -
  have c0: "cpl 0 25 = 0x00020110" "cpr 0 25 = 0x00000000"
    by (simp_all add: cp_eval)
  have c1: "cpl (Suc 0) 42 = 0x00200002" "cpr (Suc 0) 42 = 0x00000000"
    by (simp_all add: cp_eval)
  have c2: "cpl 2 7 = 0x00002404" "cpr 2 7 = 0x00000000"
    by (simp_all add: cp_eval)
  have c3: "cpl 3 67 = 0x00010008" "cpr 3 67 = 0x00000000"
    by (simp_all add: cp_eval)
  have c4: "cpl 4 25 = 0x00000000" "cpr 4 25 = 0x00200001"
    by (simp_all add: cp_eval)
  have c5: "cpl 5 112 = 0x00000000" "cpr 5 112 = 0x00100004"
    by (simp_all add: cp_eval)
  have c6: "cpl 6 5 = 0x00000000" "cpr 6 5 = 0x00080400"
    by (simp_all add: cp_eval)
  have c7: "cpl 7 43 = 0x00000000" "cpr 7 43 = 0x00048140"
    by (simp_all add: cp_eval)
  have o: "or8 cpl [25, 42, 7, 67, 25, 112, 5, 43] = 0x0023251e" "or8 cpr [25, 42, 7, 67, 25, 112, 5, 43] = 0x003c8545"
    by (simp_all add: or8_def c0 c1 c2 c3 c4 c5 c6 c7)
  show ?thesis
    by (simp add: key_round_ref_def key_shifts_def comp_index_def o)
qed

lemma cv_key_round_6:
  "key_round_ref 0x0f0ccaa0 0x0aaccf00 6
     (10, \<lparr>saltbits = 0,
        en_keysl = [0x000b0267, 0x0069a659, 0x0045d48a, 0x007289d2,
                     0x003ce803, 0x0023251e, 0x00000000, 0x00000000,
                     0x00000000, 0x00000000, 0x00000000, 0x00000000,
                     0x00000000, 0x00000000, 0x00000000, 0x00000000],
        en_keysr = [0x009b49a5, 0x00256a26, 0x00b428d2, 0x00a58257,
                     0x0017a6c2, 0x003c8545, 0x00000000, 0x00000000,
                     0x00000000, 0x00000000, 0x00000000, 0x00000000,
                     0x00000000, 0x00000000, 0x00000000, 0x00000000]\<rparr>) =
   (12, \<lparr>saltbits = 0,
      en_keysl = [0x000b0267, 0x0069a659, 0x0045d48a, 0x007289d2,
                   0x003ce803, 0x0023251e, 0x006c0495, 0x00000000,
                   0x00000000, 0x00000000, 0x00000000, 0x00000000,
                   0x00000000, 0x00000000, 0x00000000, 0x00000000],
      en_keysr = [0x009b49a5, 0x00256a26, 0x00b428d2, 0x00a58257,
                   0x0017a6c2, 0x003c8545, 0x000ae4c6, 0x00000000,
                   0x00000000, 0x00000000, 0x00000000, 0x00000000,
                   0x00000000, 0x00000000, 0x00000000, 0x00000000]\<rparr>)"
proof -
  have c0: "cpl 0 101 = 0x000c0011" "cpr 0 101 = 0x00000000"
    by (simp_all add: cp_eval)
  have c1: "cpl (Suc 0) 40 = 0x00200000" "cpr (Suc 0) 40 = 0x00000000"
    by (simp_all add: cp_eval)
  have c2: "cpl 2 30 = 0x00400404" "cpr 2 30 = 0x00000000"
    by (simp_all add: cp_eval)
  have c3: "cpl 3 12 = 0x00000080" "cpr 3 12 = 0x00000000"
    by (simp_all add: cp_eval)
  have c4: "cpl 4 103 = 0x00000000" "cpr 4 103 = 0x00022082"
    by (simp_all add: cp_eval)
  have c5: "cpl 5 64 = 0x00000000" "cpr 5 64 = 0x00000004"
    by (simp_all add: cp_eval)
  have c6: "cpl 6 21 = 0x00000000" "cpr 6 21 = 0x00084400"
    by (simp_all add: cp_eval)
  have c7: "cpl 7 44 = 0x00000000" "cpr 7 44 = 0x00008040"
    by (simp_all add: cp_eval)
  have o: "or8 cpl [101, 40, 30, 12, 103, 64, 21, 44] = 0x006c0495" "or8 cpr [101, 40, 30, 12, 103, 64, 21, 44] = 0x000ae4c6"
    by (simp_all add: or8_def c0 c1 c2 c3 c4 c5 c6 c7)
  show ?thesis
    by (simp add: key_round_ref_def key_shifts_def comp_index_def o)
qed

lemma cv_key_round_7:
  "key_round_ref 0x0f0ccaa0 0x0aaccf00 7
     (12, \<lparr>saltbits = 0,
        en_keysl = [0x000b0267, 0x0069a659, 0x0045d48a, 0x007289d2,
                     0x003ce803, 0x0023251e, 0x006c0495, 0x00000000,
                     0x00000000, 0x00000000, 0x00000000, 0x00000000,
                     0x00000000, 0x00000000, 0x00000000, 0x00000000],
        en_keysr = [0x009b49a5, 0x00256a26, 0x00b428d2, 0x00a58257,
                     0x0017a6c2, 0x003c8545, 0x000ae4c6, 0x00000000,
                     0x00000000, 0x00000000, 0x00000000, 0x00000000,
                     0x00000000, 0x00000000, 0x00000000, 0x00000000]\<rparr>) =
   (14, \<lparr>saltbits = 0,
      en_keysl = [0x000b0267, 0x0069a659, 0x0045d48a, 0x007289d2,
                   0x003ce803, 0x0023251e, 0x006c0495, 0x00578838,
                   0x00000000, 0x00000000, 0x00000000, 0x00000000,
                   0x00000000, 0x00000000, 0x00000000, 0x00000000],
      en_keysr = [0x009b49a5, 0x00256a26, 0x00b428d2, 0x00a58257,
                   0x0017a6c2, 0x003c8545, 0x000ae4c6, 0x006ce581,
                   0x00000000, 0x00000000, 0x00000000, 0x00000000,
                   0x00000000, 0x00000000, 0x00000000, 0x00000000]\<rparr>)"
proof -
  have c0: "cpl 0 21 = 0x00060010" "cpr 0 21 = 0x00000000"
    by (simp_all add: cp_eval)
  have c1: "cpl (Suc 0) 32 = 0x00000000" "cpr (Suc 0) 32 = 0x00000000"
    by (simp_all add: cp_eval)
  have c2: "cpl 2 120 = 0x00408020" "cpr 2 120 = 0x00000000"
    by (simp_all add: cp_eval)
  have c3: "cpl 3 51 = 0x00110808" "cpr 3 51 = 0x00000000"
    by (simp_all add: cp_eval)
  have c4: "cpl 4 30 = 0x00000000" "cpr 4 30 = 0x00202081"
    by (simp_all add: cp_eval)
  have c5: "cpl 5 0 = 0x00000000" "cpr 5 0 = 0x00000000"
    by (simp_all add: cp_eval)
  have c6: "cpl 6 85 = 0x00000000" "cpr 6 85 = 0x00084400"
    by (simp_all add: cp_eval)
  have c7: "cpl 7 51 = 0x00000000" "cpr 7 51 = 0x00448100"
    by (simp_all add: cp_eval)
  have o: "or8 cpl [21, 32, 120, 51, 30, 0, 85, 51] = 0x00578838" "or8 cpr [21, 32, 120, 51, 30, 0, 85, 51] = 0x006ce581"
    by (simp_all add: or8_def c0 c1 c2 c3 c4 c5 c6 c7)
  show ?thesis
    by (simp add: key_round_ref_def key_shifts_def comp_index_def o)
qed

lemma cv_key_round_8:
  "key_round_ref 0x0f0ccaa0 0x0aaccf00 8
     (14, \<lparr>saltbits = 0,
        en_keysl = [0x000b0267, 0x0069a659, 0x0045d48a, 0x007289d2,
                     0x003ce803, 0x0023251e, 0x006c0495, 0x00578838,
                     0x00000000, 0x00000000, 0x00000000, 0x00000000,
                     0x00000000, 0x00000000, 0x00000000, 0x00000000],
        en_keysr = [0x009b49a5, 0x00256a26, 0x00b428d2, 0x00a58257,
                     0x0017a6c2, 0x003c8545, 0x000ae4c6, 0x006ce581,
                     0x00000000, 0x00000000, 0x00000000, 0x00000000,
                     0x00000000, 0x00000000, 0x00000000, 0x00000000]\<rparr>) =
   (15, \<lparr>saltbits = 0,
      en_keysl = [0x000b0267, 0x0069a659, 0x0045d48a, 0x007289d2,
                   0x003ce803, 0x0023251e, 0x006c0495, 0x00578838,
                   0x00c0c9e9, 0x00000000, 0x00000000, 0x00000000,
                   0x00000000, 0x00000000, 0x00000000, 0x00000000],
      en_keysr = [0x009b49a5, 0x00256a26, 0x00b428d2, 0x00a58257,
                   0x0017a6c2, 0x003c8545, 0x000ae4c6, 0x006ce581,
                   0x0026b839, 0x00000000, 0x00000000, 0x00000000,
                   0x00000000, 0x00000000, 0x00000000, 0x00000000]\<rparr>)"
proof -
  have c0: "cpl 0 42 = 0x00004101" "cpr 0 42 = 0x00000000"
    by (simp_all add: cp_eval)
  have c1: "cpl (Suc 0) 65 = 0x00800040" "cpr (Suc 0) 65 = 0x00000000"
    by (simp_all add: cp_eval)
  have c2: "cpl 2 112 = 0x00408020" "cpr 2 112 = 0x00000000"
    by (simp_all add: cp_eval)
  have c3: "cpl 3 102 = 0x00000888" "cpr 3 102 = 0x00000000"
    by (simp_all add: cp_eval)
  have c4: "cpl 4 60 = 0x00000000" "cpr 4 60 = 0x00222001"
    by (simp_all add: cp_eval)
  have c5: "cpl 5 (Suc 0) = 0x00000000" "cpr 5 (Suc 0) = 0x00000010"
    by (simp_all add: cp_eval)
  have c6: "cpl 6 42 = 0x00000000" "cpr 6 42 = 0x00001820"
    by (simp_all add: cp_eval)
  have c7: "cpl 7 102 = 0x00000000" "cpr 7 102 = 0x00048008"
    by (simp_all add: cp_eval)
  have o: "or8 cpl [42, 65, 112, 102, 60, (Suc 0), 42, 102] = 0x00c0c9e9" "or8 cpr [42, 65, 112, 102, 60, (Suc 0), 42, 102] = 0x0026b839"
    by (simp_all add: or8_def c0 c1 c2 c3 c4 c5 c6 c7)
  show ?thesis
    by (simp add: key_round_ref_def key_shifts_def comp_index_def o)
qed

lemma cv_key_round_9:
  "key_round_ref 0x0f0ccaa0 0x0aaccf00 9
     (15, \<lparr>saltbits = 0,
        en_keysl = [0x000b0267, 0x0069a659, 0x0045d48a, 0x007289d2,
                     0x003ce803, 0x0023251e, 0x006c0495, 0x00578838,
                     0x00c0c9e9, 0x00000000, 0x00000000, 0x00000000,
                     0x00000000, 0x00000000, 0x00000000, 0x00000000],
        en_keysr = [0x009b49a5, 0x00256a26, 0x00b428d2, 0x00a58257,
                     0x0017a6c2, 0x003c8545, 0x000ae4c6, 0x006ce581,
                     0x0026b839, 0x00000000, 0x00000000, 0x00000000,
                     0x00000000, 0x00000000, 0x00000000, 0x00000000]\<rparr>) =
   (17, \<lparr>saltbits = 0,
      en_keysl = [0x000b0267, 0x0069a659, 0x0045d48a, 0x007289d2,
                   0x003ce803, 0x0023251e, 0x006c0495, 0x00578838,
                   0x00c0c9e9, 0x0091e307, 0x00000000, 0x00000000,
                   0x00000000, 0x00000000, 0x00000000, 0x00000000],
      en_keysr = [0x009b49a5, 0x00256a26, 0x00b428d2, 0x00a58257,
                   0x0017a6c2, 0x003c8545, 0x000ae4c6, 0x006ce581,
                   0x0026b839, 0x00631d72, 0x00000000, 0x00000000,
                   0x00000000, 0x00000000, 0x00000000, 0x00000000]\<rparr>)"
proof -
  have c0: "cpl 0 42 = 0x00004101" "cpr 0 42 = 0x00000000"
    by (simp_all add: cp_eval)
  have c1: "cpl (Suc 0) 7 = 0x00800202" "cpr (Suc 0) 7 = 0x00000000"
    by (simp_all add: cp_eval)
  have c2: "cpl 2 67 = 0x0000a004" "cpr 2 67 = 0x00000000"
    by (simp_all add: cp_eval)
  have c3: "cpl 3 25 = 0x00110000" "cpr 3 25 = 0x00000000"
    by (simp_all add: cp_eval)
  have c4: "cpl 4 112 = 0x00000000" "cpr 4 112 = 0x00220002"
    by (simp_all add: cp_eval)
  have c5: "cpl 5 5 = 0x00000000" "cpr 5 5 = 0x00010010"
    by (simp_all add: cp_eval)
  have c6: "cpl 6 43 = 0x00000000" "cpr 6 43 = 0x00001c20"
    by (simp_all add: cp_eval)
  have c7: "cpl 7 25 = 0x00000000" "cpr 7 25 = 0x00400140"
    by (simp_all add: cp_eval)
  have o: "or8 cpl [42, 7, 67, 25, 112, 5, 43, 25] = 0x0091e307" "or8 cpr [42, 7, 67, 25, 112, 5, 43, 25] = 0x00631d72"
    by (simp_all add: or8_def c0 c1 c2 c3 c4 c5 c6 c7)
  show ?thesis
    by (simp add: key_round_ref_def key_shifts_def comp_index_def o)
qed

lemma cv_key_round_10:
  "key_round_ref 0x0f0ccaa0 0x0aaccf00 10
     (17, \<lparr>saltbits = 0,
        en_keysl = [0x000b0267, 0x0069a659, 0x0045d48a, 0x007289d2,
                     0x003ce803, 0x0023251e, 0x006c0495, 0x00578838,
                     0x00c0c9e9, 0x0091e307, 0x00000000, 0x00000000,
                     0x00000000, 0x00000000, 0x00000000, 0x00000000],
        en_keysr = [0x009b49a5, 0x00256a26, 0x00b428d2, 0x00a58257,
                     0x0017a6c2, 0x003c8545, 0x000ae4c6, 0x006ce581,
                     0x0026b839, 0x00631d72, 0x00000000, 0x00000000,
                     0x00000000, 0x00000000, 0x00000000, 0x00000000]\<rparr>) =
   (19, \<lparr>saltbits = 0,
      en_keysl = [0x000b0267, 0x0069a659, 0x0045d48a, 0x007289d2,
                   0x003ce803, 0x0023251e, 0x006c0495, 0x00578838,
                   0x00c0c9e9, 0x0091e307, 0x00211f83, 0x00000000,
                   0x00000000, 0x00000000, 0x00000000, 0x00000000],
      en_keysr = [0x009b49a5, 0x00256a26, 0x00b428d2, 0x00a58257,
                   0x0017a6c2, 0x003c8545, 0x000ae4c6, 0x006ce581,
                   0x0026b839, 0x00631d72, 0x000d893a, 0x00000000,
                   0x00000000, 0x00000000, 0x00000000, 0x00000000]\<rparr>)"
proof -
  have c0: "cpl 0 40 = 0x00000101" "cpr 0 40 = 0x00000000"
    by (simp_all add: cp_eval)
  have c1: "cpl (Suc 0) 30 = 0x00201202" "cpr (Suc 0) 30 = 0x00000000"
    by (simp_all add: cp_eval)
  have c2: "cpl 2 12 = 0x00000400" "cpr 2 12 = 0x00000000"
    by (simp_all add: cp_eval)
  have c3: "cpl 3 101 = 0x00010880" "cpr 3 101 = 0x00000000"
    by (simp_all add: cp_eval)
  have c4: "cpl 4 64 = 0x00000000" "cpr 4 64 = 0x00000002"
    by (simp_all add: cp_eval)
  have c5: "cpl 5 21 = 0x00000000" "cpr 5 21 = 0x00010010"
    by (simp_all add: cp_eval)
  have c6: "cpl 6 44 = 0x00000000" "cpr 6 44 = 0x00080820"
    by (simp_all add: cp_eval)
  have c7: "cpl 7 103 = 0x00000000" "cpr 7 103 = 0x00048108"
    by (simp_all add: cp_eval)
  have o: "or8 cpl [40, 30, 12, 101, 64, 21, 44, 103] = 0x00211f83" "or8 cpr [40, 30, 12, 101, 64, 21, 44, 103] = 0x000d893a"
    by (simp_all add: or8_def c0 c1 c2 c3 c4 c5 c6 c7)
  show ?thesis
    by (simp add: key_round_ref_def key_shifts_def comp_index_def o)
qed

lemma cv_key_round_11:
  "key_round_ref 0x0f0ccaa0 0x0aaccf00 11
     (19, \<lparr>saltbits = 0,
        en_keysl = [0x000b0267, 0x0069a659, 0x0045d48a, 0x007289d2,
                     0x003ce803, 0x0023251e, 0x006c0495, 0x00578838,
                     0x00c0c9e9, 0x0091e307, 0x00211f83, 0x00000000,
                     0x00000000, 0x00000000, 0x00000000, 0x00000000],
        en_keysr = [0x009b49a5, 0x00256a26, 0x00b428d2, 0x00a58257,
                     0x0017a6c2, 0x003c8545, 0x000ae4c6, 0x006ce581,
                     0x0026b839, 0x00631d72, 0x000d893a, 0x00000000,
                     0x00000000, 0x00000000, 0x00000000, 0x00000000]\<rparr>) =
   (21, \<lparr>saltbits = 0,
      en_keysl = [0x000b0267, 0x0069a659, 0x0045d48a, 0x007289d2,
                   0x003ce803, 0x0023251e, 0x006c0495, 0x00578838,
                   0x00c0c9e9, 0x0091e307, 0x00211f83, 0x007130e5,
                   0x00000000, 0x00000000, 0x00000000, 0x00000000],
      en_keysr = [0x009b49a5, 0x00256a26, 0x00b428d2, 0x00a58257,
                   0x0017a6c2, 0x003c8545, 0x000ae4c6, 0x006ce581,
                   0x0026b839, 0x00631d72, 0x000d893a, 0x00455c54,
                   0x00000000, 0x00000000, 0x00000000, 0x00000000]\<rparr>)"
proof -
  have c0: "cpl 0 32 = 0x00000001" "cpr 0 32 = 0x00000000"
    by (simp_all add: cp_eval)
  have c1: "cpl (Suc 0) 120 = 0x00201040" "cpr (Suc 0) 120 = 0x00000000"
    by (simp_all add: cp_eval)
  have c2: "cpl 2 51 = 0x00402024" "cpr 2 51 = 0x00000000"
    by (simp_all add: cp_eval)
  have c3: "cpl 3 21 = 0x00110080" "cpr 3 21 = 0x00000000"
    by (simp_all add: cp_eval)
  have c4: "cpl 4 0 = 0x00000000" "cpr 4 0 = 0x00000000"
    by (simp_all add: cp_eval)
  have c5: "cpl 5 85 = 0x00000000" "cpr 5 85 = 0x00010014"
    by (simp_all add: cp_eval)
  have c6: "cpl 6 51 = 0x00000000" "cpr 6 51 = 0x00005c00"
    by (simp_all add: cp_eval)
  have c7: "cpl 7 30 = 0x00000000" "cpr 7 30 = 0x00440040"
    by (simp_all add: cp_eval)
  have o: "or8 cpl [32, 120, 51, 21, 0, 85, 51, 30] = 0x007130e5" "or8 cpr [32, 120, 51, 21, 0, 85, 51, 30] = 0x00455c54"
    by (simp_all add: or8_def c0 c1 c2 c3 c4 c5 c6 c7)
  show ?thesis
    by (simp add: key_round_ref_def key_shifts_def comp_index_def o)
qed

lemma cv_key_round_12:
  "key_round_ref 0x0f0ccaa0 0x0aaccf00 12
     (21, \<lparr>saltbits = 0,
        en_keysl = [0x000b0267, 0x0069a659, 0x0045d48a, 0x007289d2,
                     0x003ce803, 0x0023251e, 0x006c0495, 0x00578838,
                     0x00c0c9e9, 0x0091e307, 0x00211f83, 0x007130e5,
                     0x00000000, 0x00000000, 0x00000000, 0x00000000],
        en_keysr = [0x009b49a5, 0x00256a26, 0x00b428d2, 0x00a58257,
                     0x0017a6c2, 0x003c8545, 0x000ae4c6, 0x006ce581,
                     0x0026b839, 0x00631d72, 0x000d893a, 0x00455c54,
                     0x00000000, 0x00000000, 0x00000000, 0x00000000]\<rparr>) =
   (23, \<lparr>saltbits = 0,
      en_keysl = [0x000b0267, 0x0069a659, 0x0045d48a, 0x007289d2,
                   0x003ce803, 0x0023251e, 0x006c0495, 0x00578838,
                   0x00c0c9e9, 0x0091e307, 0x00211f83, 0x007130e5,
                   0x0091c4d0, 0x00000000, 0x00000000, 0x00000000],
      en_keysr = [0x009b49a5, 0x00256a26, 0x00b428d2, 0x00a58257,
                   0x0017a6c2, 0x003c8545, 0x000ae4c6, 0x006ce581,
                   0x0026b839, 0x00631d72, 0x000d893a, 0x00455c54,
                   0x004980fc, 0x00000000, 0x00000000, 0x00000000]\<rparr>)"
proof -
  have c0: "cpl 0 3 = 0x00004010" "cpr 0 3 = 0x00000000"
    by (simp_all add: cp_eval)
  have c1: "cpl (Suc 0) 97 = 0x00800040" "cpr (Suc 0) 97 = 0x00000000"
    by (simp_all add: cp_eval)
  have c2: "cpl 2 76 = 0x00008400" "cpr 2 76 = 0x00000000"
    by (simp_all add: cp_eval)
  have c3: "cpl 3 85 = 0x00110080" "cpr 3 85 = 0x00000000"
    by (simp_all add: cp_eval)
  have c4: "cpl 4 2 = 0x00000000" "cpr 4 2 = 0x00000080"
    by (simp_all add: cp_eval)
  have c5: "cpl 5 85 = 0x00000000" "cpr 5 85 = 0x00010014"
    by (simp_all add: cp_eval)
  have c6: "cpl 6 76 = 0x00000000" "cpr 6 76 = 0x00080020"
    by (simp_all add: cp_eval)
  have c7: "cpl 7 120 = 0x00000000" "cpr 7 120 = 0x00408048"
    by (simp_all add: cp_eval)
  have o: "or8 cpl [3, 97, 76, 85, 2, 85, 76, 120] = 0x0091c4d0" "or8 cpr [3, 97, 76, 85, 2, 85, 76, 120] = 0x004980fc"
    by (simp_all add: or8_def c0 c1 c2 c3 c4 c5 c6 c7)
  show ?thesis
    by (simp add: key_round_ref_def key_shifts_def comp_index_def o)
qed

lemma cv_key_round_13:
  "key_round_ref 0x0f0ccaa0 0x0aaccf00 13
     (23, \<lparr>saltbits = 0,
        en_keysl = [0x000b0267, 0x0069a659, 0x0045d48a, 0x007289d2,
                     0x003ce803, 0x0023251e, 0x006c0495, 0x00578838,
                     0x00c0c9e9, 0x0091e307, 0x00211f83, 0x007130e5,
                     0x0091c4d0, 0x00000000, 0x00000000, 0x00000000],
        en_keysr = [0x009b49a5, 0x00256a26, 0x00b428d2, 0x00a58257,
                     0x0017a6c2, 0x003c8545, 0x000ae4c6, 0x006ce581,
                     0x0026b839, 0x00631d72, 0x000d893a, 0x00455c54,
                     0x004980fc, 0x00000000, 0x00000000, 0x00000000]\<rparr>) =
   (25, \<lparr>saltbits = 0,
      en_keysl = [0x000b0267, 0x0069a659, 0x0045d48a, 0x007289d2,
                   0x003ce803, 0x0023251e, 0x006c0495, 0x00578838,
                   0x00c0c9e9, 0x0091e307, 0x00211f83, 0x007130e5,
                   0x0091c4d0, 0x005443b6, 0x00000000, 0x00000000],
      en_keysr = [0x009b49a5, 0x00256a26, 0x00b428d2, 0x00a58257,
                   0x0017a6c2, 0x003c8545, 0x000ae4c6, 0x006ce581,
                   0x0026b839, 0x00631d72, 0x000d893a, 0x00455c54,
                   0x004980fc, 0x0081dc8d, 0x00000000, 0x00000000]\<rparr>)"
proof -
  have c0: "cpl 0 15 = 0x00044110" "cpr 0 15 = 0x00000000"
    by (simp_all add: cp_eval)
  have c1: "cpl (Suc 0) 6 = 0x00000202" "cpr (Suc 0) 6 = 0x00000000"
    by (simp_all add: cp_eval)
  have c2: "cpl 2 50 = 0x00400024" "cpr 2 50 = 0x00000000"
    by (simp_all add: cp_eval)
  have c3: "cpl 3 84 = 0x00100080" "cpr 3 84 = 0x00000000"
    by (simp_all add: cp_eval)
  have c4: "cpl 4 10 = 0x00000000" "cpr 4 10 = 0x00000081"
    by (simp_all add: cp_eval)
  have c5: "cpl 5 86 = 0x00000000" "cpr 5 86 = 0x00810004"
    by (simp_all add: cp_eval)
  have c6: "cpl 6 51 = 0x00000000" "cpr 6 51 = 0x00005c00"
    by (simp_all add: cp_eval)
  have c7: "cpl 7 96 = 0x00000000" "cpr 7 96 = 0x00008008"
    by (simp_all add: cp_eval)
  have o: "or8 cpl [15, 6, 50, 84, 10, 86, 51, 96] = 0x005443b6" "or8 cpr [15, 6, 50, 84, 10, 86, 51, 96] = 0x0081dc8d"
    by (simp_all add: or8_def c0 c1 c2 c3 c4 c5 c6 c7)
  show ?thesis
    by (simp add: key_round_ref_def key_shifts_def comp_index_def o)
qed

lemma cv_key_round_14:
  "key_round_ref 0x0f0ccaa0 0x0aaccf00 14
     (25, \<lparr>saltbits = 0,
        en_keysl = [0x000b0267, 0x0069a659, 0x0045d48a, 0x007289d2,
                     0x003ce803, 0x0023251e, 0x006c0495, 0x00578838,
                     0x00c0c9e9, 0x0091e307, 0x00211f83, 0x007130e5,
                     0x0091c4d0, 0x005443b6, 0x00000000, 0x00000000],
        en_keysr = [0x009b49a5, 0x00256a26, 0x00b428d2, 0x00a58257,
                     0x0017a6c2, 0x003c8545, 0x000ae4c6, 0x006ce581,
                     0x0026b839, 0x00631d72, 0x000d893a, 0x00455c54,
                     0x004980fc, 0x0081dc8d, 0x00000000, 0x00000000]\<rparr>) =
   (27, \<lparr>saltbits = 0,
      en_keysl = [0x000b0267, 0x0069a659, 0x0045d48a, 0x007289d2,
                   0x003ce803, 0x0023251e, 0x006c0495, 0x00578838,
                   0x00c0c9e9, 0x0091e307, 0x00211f83, 0x007130e5,
                   0x0091c4d0, 0x005443b6, 0x00b69105, 0x00000000],
      en_keysr = [0x009b49a5, 0x00256a26, 0x00b428d2, 0x00a58257,
                   0x0017a6c2, 0x003c8545, 0x000ae4c6, 0x006ce581,
                   0x0026b839, 0x00631d72, 0x000d893a, 0x00455c54,
                   0x004980fc, 0x0081dc8d, 0x000a16b5, 0x00000000]\<rparr>)"
proof -
  have c0: "cpl 0 60 = 0x00060101" "cpr 0 60 = 0x00000000"
    by (simp_all add: cp_eval)
  have c1: "cpl (Suc 0) 25 = 0x00a01000" "cpr (Suc 0) 25 = 0x00000000"
    by (simp_all add: cp_eval)
  have c2: "cpl 2 74 = 0x00008004" "cpr 2 74 = 0x00000000"
    by (simp_all add: cp_eval)
  have c3: "cpl 3 80 = 0x00100000" "cpr 3 80 = 0x00000000"
    by (simp_all add: cp_eval)
  have c4: "cpl 4 42 = 0x00000000" "cpr 4 42 = 0x00020081"
    by (simp_all add: cp_eval)
  have c5: "cpl 5 89 = 0x00000000" "cpr 5 89 = 0x00000214"
    by (simp_all add: cp_eval)
  have c6: "cpl 6 79 = 0x00000000" "cpr 6 79 = 0x00081420"
    by (simp_all add: cp_eval)
  have c7: "cpl 7 0 = 0x00000000" "cpr 7 0 = 0x00000000"
    by (simp_all add: cp_eval)
  have o: "or8 cpl [60, 25, 74, 80, 42, 89, 79, 0] = 0x00b69105" "or8 cpr [60, 25, 74, 80, 42, 89, 79, 0] = 0x000a16b5"
    by (simp_all add: or8_def c0 c1 c2 c3 c4 c5 c6 c7)
  show ?thesis
    by (simp add: key_round_ref_def key_shifts_def comp_index_def o)
qed

lemma cv_key_round_15:
  "key_round_ref 0x0f0ccaa0 0x0aaccf00 15
     (27, \<lparr>saltbits = 0,
        en_keysl = [0x000b0267, 0x0069a659, 0x0045d48a, 0x007289d2,
                     0x003ce803, 0x0023251e, 0x006c0495, 0x00578838,
                     0x00c0c9e9, 0x0091e307, 0x00211f83, 0x007130e5,
                     0x0091c4d0, 0x005443b6, 0x00b69105, 0x00000000],
        en_keysr = [0x009b49a5, 0x00256a26, 0x00b428d2, 0x00a58257,
                     0x0017a6c2, 0x003c8545, 0x000ae4c6, 0x006ce581,
                     0x0026b839, 0x00631d72, 0x000d893a, 0x00455c54,
                     0x004980fc, 0x0081dc8d, 0x000a16b5, 0x00000000]\<rparr>) =
   (28, \<lparr>saltbits = 0,
      en_keysl = [0x000b0267, 0x0069a659, 0x0045d48a, 0x007289d2,
                   0x003ce803, 0x0023251e, 0x006c0495, 0x00578838,
                   0x00c0c9e9, 0x0091e307, 0x00211f83, 0x007130e5,
                   0x0091c4d0, 0x005443b6, 0x00b69105, 0x00ca3d03],
      en_keysr = [0x009b49a5, 0x00256a26, 0x00b428d2, 0x00a58257,
                   0x0017a6c2, 0x003c8545, 0x000ae4c6, 0x006ce581,
                   0x0026b839, 0x00631d72, 0x000d893a, 0x00455c54,
                   0x004980fc, 0x0081dc8d, 0x000a16b5, 0x00b87032]\<rparr>)"
proof -
  have c0: "cpl 0 120 = 0x000a0101" "cpr 0 120 = 0x00000000"
    by (simp_all add: cp_eval)
  have c1: "cpl (Suc 0) 51 = 0x00801002" "cpr (Suc 0) 51 = 0x00000000"
    by (simp_all add: cp_eval)
  have c2: "cpl 2 21 = 0x00402400" "cpr 2 21 = 0x00000000"
    by (simp_all add: cp_eval)
  have c3: "cpl 3 32 = 0x00000800" "cpr 3 32 = 0x00000000"
    by (simp_all add: cp_eval)
  have c4: "cpl 4 85 = 0x00000000" "cpr 4 85 = 0x00202002"
    by (simp_all add: cp_eval)
  have c5: "cpl 5 51 = 0x00000000" "cpr 5 51 = 0x00900010"
    by (simp_all add: cp_eval)
  have c6: "cpl 6 30 = 0x00000000" "cpr 6 30 = 0x00085020"
    by (simp_all add: cp_eval)
  have c7: "cpl 7 0 = 0x00000000" "cpr 7 0 = 0x00000000"
    by (simp_all add: cp_eval)
  have o: "or8 cpl [120, 51, 21, 32, 85, 51, 30, 0] = 0x00ca3d03" "or8 cpr [120, 51, 21, 32, 85, 51, 30, 0] = 0x00b87032"
    by (simp_all add: or8_def c0 c1 c2 c3 c4 c5 c6 c7)
  show ?thesis
    by (simp add: key_round_ref_def key_shifts_def comp_index_def o)
qed

lemma cv_key_sched:
  "key_sched_ref 0x01234567 0x89abcdef \<lparr>saltbits = 0, en_keysl = replicate 16 0, en_keysr = replicate 16 0\<rparr> =
     \<lparr>saltbits = 0,
       en_keysl = [0x000b0267, 0x0069a659, 0x0045d48a, 0x007289d2,
                    0x003ce803, 0x0023251e, 0x006c0495, 0x00578838,
                    0x00c0c9e9, 0x0091e307, 0x00211f83, 0x007130e5,
                    0x0091c4d0, 0x005443b6, 0x00b69105, 0x00ca3d03],
       en_keysr = [0x009b49a5, 0x00256a26, 0x00b428d2, 0x00a58257,
                    0x0017a6c2, 0x003c8545, 0x000ae4c6, 0x006ce581,
                    0x0026b839, 0x00631d72, 0x000d893a, 0x00455c54,
                    0x004980fc, 0x0081dc8d, 0x000a16b5, 0x00b87032]\<rparr>"
  unfolding key_sched_ref_def cv_key upt16 replicate16
  by (simp add: cv_key_round_0 cv_key_round_1 cv_key_round_2 cv_key_round_3 cv_key_round_4 cv_key_round_5 cv_key_round_6 cv_key_round_7 cv_key_round_8 cv_key_round_9 cv_key_round_10 cv_key_round_11 cv_key_round_12 cv_key_round_13 cv_key_round_14 cv_key_round_15)

lemma cv_ctx:
  "cipher_ctx \<lparr>saltbits = 0, en_keysl = replicate 16 0, en_keysr = replicate 16 0\<rparr> 0x01234567 0x89abcdef 0 =
     \<lparr>saltbits = 0,
       en_keysl = [0x000b0267, 0x0069a659, 0x0045d48a, 0x007289d2,
                    0x003ce803, 0x0023251e, 0x006c0495, 0x00578838,
                    0x00c0c9e9, 0x0091e307, 0x00211f83, 0x007130e5,
                    0x0091c4d0, 0x005443b6, 0x00b69105, 0x00ca3d03],
       en_keysr = [0x009b49a5, 0x00256a26, 0x00b428d2, 0x00a58257,
                    0x0017a6c2, 0x003c8545, 0x000ae4c6, 0x006ce581,
                    0x0026b839, 0x00631d72, 0x000d893a, 0x00455c54,
                    0x004980fc, 0x0081dc8d, 0x000a16b5, 0x00b87032]\<rparr>"
proof -
  define c where "c = key_sched_ref 0x01234567 0x89abcdef \<lparr>saltbits = 0, en_keysl = replicate 16 0, en_keysr = replicate 16 0\<rparr>"
  have "saltbits (des_set_salt c 0) = 0"
    by (rule bit_word_eqI) (simp add: saltbits_bit)
  then show ?thesis
    unfolding cipher_ctx_def c_def [symmetric]
    by (simp add: des_set_salt_fields c_def cv_key_sched)
qed

lemma cv_ip:
  "ip_regs 0x4e6f7720 0x69732074 =
     \<lparr>reg_l = 0xb7a48736, reg_r = 0x00fe1327, reg_f = 0x00000000, rounds_run = 0, reps_run = 0\<rparr>"
proof -
  have i0: "ipl 0 78 = 0x01000100" "ipr 0 78 = 0x00000101"
    by (simp_all add: ip_eval)
  have i1: "ipl (Suc 0) 111 = 0x02000202" "ipr (Suc 0) 111 = 0x00020202"
    by (simp_all add: ip_eval)
  have i2: "ipl 2 119 = 0x04040404" "ipr 2 119 = 0x00040004"
    by (simp_all add: ip_eval)
  have i3: "ipl 3 32 = 0x00000000" "ipr 3 32 = 0x00080000"
    by (simp_all add: ip_eval)
  have i4: "ipl 4 105 = 0x10000010" "ipr 4 105 = 0x00101000"
    by (simp_all add: ip_eval)
  have i5: "ipl 5 115 = 0x20200020" "ipr 5 115 = 0x00200020"
    by (simp_all add: ip_eval)
  have i6: "ipl 6 32 = 0x00000000" "ipr 6 32 = 0x00400000"
    by (simp_all add: ip_eval)
  have i7: "ipl 7 116 = 0x80808000" "ipr 7 116 = 0x00800000"
    by (simp_all add: ip_eval)
  show ?thesis
    by (simp add: ip_regs_def byte_index_def or8_def i0 i1 i2 i3 i4 i5 i6 i7)
qed

text \<open>The sixteen rounds of the first repetition, and the final permutation after them.\<close>

lemma cv_first_round_0:
  assumes "saltbits c = 0" "en_keysl c ! 0 = 0x000b0267" "en_keysr c ! 0 = 0x009b49a5"
  shows "round_ref c 0
     \<lparr>reg_l = 0xb7a48736, reg_r = 0x00fe1327, reg_f = 0x00000000, rounds_run = 0, reps_run = 0\<rparr> =
   \<lparr>reg_l = 0x00fe1327, reg_r = 0xc9efe379, reg_f = 0xc9efe379, rounds_run = (Suc 0), reps_run = 0\<rparr>"
proof -
  have e: "expand_l 0x00fe1327 = 0x008017fc" "expand_r 0x00fe1327 = 0x000a690e"
    by (simp_all add: expand_l_def expand_r_def)
  have m0: "m_sbox_value invert_sboxes 0 34 49 = 27"
    by (simp add: m_sbox_eval)
  have p0: "psbox_entry (un_pbox des_tables) 0 27 = 0x40084002"
    by (simp add: psbox_eval)
  have s0: "sp_entry 0 0x000008b1 = 0x40084002"
    by (simp add: sp_entry_def m0 p0)
  have m1: "m_sbox_value invert_sboxes (Suc 0) 22 27 = 122"
    by (simp add: m_sbox_eval)
  have p1: "psbox_entry (un_pbox des_tables) (Suc 0) 122 = 0x04410044"
    by (simp add: psbox_eval)
  have s1: "sp_entry (Suc 0) 0x0000059b = 0x04410044"
    by (simp add: sp_entry_def m1 p1)
  have m2: "m_sbox_value invert_sboxes 2 36 18 = 29"
    by (simp add: m_sbox_eval)
  have p2: "psbox_entry (un_pbox des_tables) 2 29 = 0x30002008"
    by (simp add: psbox_eval)
  have s2: "sp_entry 2 0x00000912 = 0x30002008"
    by (simp add: sp_entry_def m2 p2)
  have m3: "m_sbox_value invert_sboxes 3 2 43 = 186"
    by (simp add: m_sbox_eval)
  have p3: "psbox_entry (un_pbox des_tables) 3 186 = 0x0a020401"
    by (simp add: psbox_eval)
  have s3: "sp_entry 3 0x000000ab = 0x0a020401"
    by (simp add: sp_entry_def m3 p3)
  show ?thesis
    by (simp add: round_ref_def assms e s0 s1 s2 s3)
qed

lemma cv_first_round_1:
  assumes "saltbits c = 0" "en_keysl c ! (Suc 0) = 0x0069a659" "en_keysr c ! (Suc 0) = 0x00256a26"
  shows "round_ref c (Suc 0)
     \<lparr>reg_l = 0x00fe1327, reg_r = 0xc9efe379, reg_f = 0xc9efe379, rounds_run = (Suc 0), reps_run = 0\<rparr> =
   \<lparr>reg_l = 0xc9efe379, reg_r = 0xc225d717, reg_f = 0xc225d717, rounds_run = 2, reps_run = 0\<rparr>"
proof -
  have e: "expand_l 0xc9efe379 = 0x00e53f5f" "expand_r 0xc9efe379 = 0x00f06bf3"
    by (simp_all add: expand_l_def expand_r_def)
  have m0: "m_sbox_value invert_sboxes 0 35 9 = 207"
    by (simp add: m_sbox_eval)
  have p0: "psbox_entry (un_pbox des_tables) 0 207 = 0x4088c010"
    by (simp add: psbox_eval)
  have s0: "sp_entry 0 0x000008c9 = 0x4088c010"
    by (simp add: sp_entry_def m0 p0)
  have m1: "m_sbox_value invert_sboxes (Suc 0) 36 6 = 67"
    by (simp add: m_sbox_eval)
  have p1: "psbox_entry (un_pbox des_tables) (Suc 0) 67 = 0x80410000"
    by (simp add: psbox_eval)
  have s1: "sp_entry (Suc 0) 0x00000906 = 0x80410000"
    by (simp add: sp_entry_def m1 p1)
  have m2: "m_sbox_value invert_sboxes 2 53 16 = 0"
    by (simp add: m_sbox_eval)
  have p2: "psbox_entry (un_pbox des_tables) 2 0 = 0x00000000"
    by (simp add: psbox_eval)
  have s2: "sp_entry 2 0x00000d50 = 0x00000000"
    by (simp add: sp_entry_def m2 p2)
  have m3: "m_sbox_value invert_sboxes 3 7 21 = 118"
    by (simp add: m_sbox_eval)
  have p3: "psbox_entry (un_pbox des_tables) 3 118 = 0x02120420"
    by (simp add: psbox_eval)
  have s3: "sp_entry 3 0x000001d5 = 0x02120420"
    by (simp add: sp_entry_def m3 p3)
  show ?thesis
    by (simp add: round_ref_def assms e s0 s1 s2 s3)
qed

lemma cv_first_round_2:
  assumes "saltbits c = 0" "en_keysl c ! 2 = 0x0045d48a" "en_keysr c ! 2 = 0x00b428d2"
  shows "round_ref c 2
     \<lparr>reg_l = 0xc9efe379, reg_r = 0xc225d717, reg_f = 0xc225d717, rounds_run = 2, reps_run = 0\<rparr> =
   \<lparr>reg_l = 0xc225d717, reg_r = 0x1efc7384, reg_f = 0x1efc7384, rounds_run = 3, reps_run = 0\<rparr>"
proof -
  have e: "expand_l 0xc225d717 = 0x00e0410b" "expand_r 0xc225d717 = 0x00eae8af"
    by (simp_all add: expand_l_def expand_r_def)
  have m0: "m_sbox_value invert_sboxes 0 41 25 = 70"
    by (simp add: m_sbox_eval)
  have p0: "psbox_entry (un_pbox des_tables) 0 70 = 0x40008010"
    by (simp add: psbox_eval)
  have s0: "sp_entry 0 0x00000a59 = 0x40008010"
    by (simp add: sp_entry_def m0 p0)
  have m1: "m_sbox_value invert_sboxes (Suc 0) 22 (Suc 0) = 125"
    by (simp add: m_sbox_eval)
  have p1: "psbox_entry (un_pbox des_tables) (Suc 0) 125 = 0x84011044"
    by (simp add: psbox_eval)
  have s1: "sp_entry (Suc 0) 0x00000581 = 0x84011044"
    by (simp add: sp_entry_def m1 p1)
  have m2: "m_sbox_value invert_sboxes 2 23 44 = 172"
    by (simp add: m_sbox_eval)
  have p2: "psbox_entry (un_pbox des_tables) 2 172 = 0x11000088"
    by (simp add: psbox_eval)
  have s2: "sp_entry 2 0x000005ec = 0x11000088"
    by (simp add: sp_entry_def m2 p2)
  have m3: "m_sbox_value invert_sboxes 3 (Suc 0) 61 = 214"
    by (simp add: m_sbox_eval)
  have p3: "psbox_entry (un_pbox des_tables) 3 214 = 0x02120021"
    by (simp add: psbox_eval)
  have s3: "sp_entry 3 0x0000007d = 0x02120021"
    by (simp add: sp_entry_def m3 p3)
  show ?thesis
    by (simp add: round_ref_def assms e s0 s1 s2 s3)
qed

lemma cv_first_round_3:
  assumes "saltbits c = 0" "en_keysl c ! 3 = 0x007289d2" "en_keysr c ! 3 = 0x00a58257"
  shows "round_ref c 3
     \<lparr>reg_l = 0xc225d717, reg_r = 0x1efc7384, reg_f = 0x1efc7384, rounds_run = 3, reps_run = 0\<rparr> =
   \<lparr>reg_l = 0x1efc7384, reg_r = 0x76f2b3de, reg_f = 0x76f2b3de, rounds_run = 4, reps_run = 0\<rparr>"
proof -
  have e: "expand_l 0x1efc7384 = 0x000fd7f8" "expand_r 0x1efc7384 = 0x003a7c08"
    by (simp_all add: expand_l_def expand_r_def)
  have m0: "m_sbox_value invert_sboxes 0 31 21 = 129"
    by (simp add: m_sbox_eval)
  have p0: "psbox_entry (un_pbox des_tables) 0 129 = 0x00804000"
    by (simp add: psbox_eval)
  have s0: "sp_entry 0 0x000007d5 = 0x00804000"
    by (simp add: sp_entry_def m0 p0)
  have m1: "m_sbox_value invert_sboxes (Suc 0) 56 42 = 91"
    by (simp add: m_sbox_eval)
  have p1: "psbox_entry (un_pbox des_tables) (Suc 0) 91 = 0x84410040"
    by (simp add: psbox_eval)
  have s1: "sp_entry (Suc 0) 0x00000e2a = 0x84410040"
    by (simp add: sp_entry_def m1 p1)
  have m2: "m_sbox_value invert_sboxes 2 39 63 = 125"
    by (simp add: m_sbox_eval)
  have p2: "psbox_entry (un_pbox des_tables) 2 125 = 0x30042088"
    by (simp add: psbox_eval)
  have s2: "sp_entry 2 0x000009ff = 0x30042088"
    by (simp add: sp_entry_def m2 p2)
  have m3: "m_sbox_value invert_sboxes 3 57 31 = 226"
    by (simp add: m_sbox_eval)
  have p3: "psbox_entry (un_pbox des_tables) 3 226 = 0x00120401"
    by (simp add: psbox_eval)
  have s3: "sp_entry 3 0x00000e5f = 0x00120401"
    by (simp add: sp_entry_def m3 p3)
  show ?thesis
    by (simp add: round_ref_def assms e s0 s1 s2 s3)
qed

lemma cv_first_round_4:
  assumes "saltbits c = 0" "en_keysl c ! 4 = 0x003ce803" "en_keysr c ! 4 = 0x0017a6c2"
  shows "round_ref c 4
     \<lparr>reg_l = 0x1efc7384, reg_r = 0x76f2b3de, reg_f = 0x76f2b3de, rounds_run = 4, reps_run = 0\<rparr> =
   \<lparr>reg_l = 0x76f2b3de, reg_r = 0x10d55380, reg_f = 0x10d55380, rounds_run = 5, reps_run = 0\<rparr>"
proof -
  have e: "expand_l 0x76f2b3de = 0x003ad7a5" "expand_r 0x76f2b3de = 0x005a7efc"
    by (simp_all add: expand_l_def expand_r_def)
  have m0: "m_sbox_value invert_sboxes 0 (Suc 0) 35 = 8"
    by (simp add: m_sbox_eval)
  have p0: "psbox_entry (un_pbox des_tables) 0 8 = 0x00080000"
    by (simp add: psbox_eval)
  have s0: "sp_entry 0 0x00000063 = 0x00080000"
    by (simp add: sp_entry_def m0 p0)
  have m1: "m_sbox_value invert_sboxes (Suc 0) 62 38 = 112"
    by (simp add: m_sbox_eval)
  have p1: "psbox_entry (un_pbox des_tables) (Suc 0) 112 = 0x04010004"
    by (simp add: psbox_eval)
  have s1: "sp_entry (Suc 0) 0x00000fa6 = 0x04010004"
    by (simp add: sp_entry_def m1 p1)
  have m2: "m_sbox_value invert_sboxes 2 19 29 = 3"
    by (simp add: m_sbox_eval)
  have p2: "psbox_entry (un_pbox des_tables) 2 3 = 0x00202000"
    by (simp add: psbox_eval)
  have s2: "sp_entry 2 0x000004dd = 0x00202000"
    by (simp add: sp_entry_def m2 p2)
  have m3: "m_sbox_value invert_sboxes 3 32 62 = 24"
    by (simp add: m_sbox_eval)
  have p3: "psbox_entry (un_pbox des_tables) 3 24 = 0x0a000000"
    by (simp add: psbox_eval)
  have s3: "sp_entry 3 0x0000083e = 0x0a000000"
    by (simp add: sp_entry_def m3 p3)
  show ?thesis
    by (simp add: round_ref_def assms e s0 s1 s2 s3)
qed

lemma cv_first_round_5:
  assumes "saltbits c = 0" "en_keysl c ! 5 = 0x0023251e" "en_keysr c ! 5 = 0x003c8545"
  shows "round_ref c 5
     \<lparr>reg_l = 0x76f2b3de, reg_r = 0x10d55380, reg_f = 0x10d55380, rounds_run = 5, reps_run = 0\<rparr> =
   \<lparr>reg_l = 0x10d55380, reg_r = 0xe90739fd, reg_f = 0xe90739fd, rounds_run = 6, reps_run = 0\<rparr>"
proof -
  have e: "expand_l 0x10d55380 = 0x000a16aa" "expand_r 0x10d55380 = 0x00aa7c00"
    by (simp_all add: expand_l_def expand_r_def)
  have m0: "m_sbox_value invert_sboxes 0 10 19 = 240"
    by (simp add: m_sbox_eval)
  have p0: "psbox_entry (un_pbox des_tables) 0 240 = 0x00808202"
    by (simp add: psbox_eval)
  have s0: "sp_entry 0 0x00000293 = 0x00808202"
    by (simp add: sp_entry_def m0 p0)
  have m1: "m_sbox_value invert_sboxes (Suc 0) 14 52 = 83"
    by (simp add: m_sbox_eval)
  have p1: "psbox_entry (un_pbox des_tables) (Suc 0) 83 = 0x84410000"
    by (simp add: psbox_eval)
  have s1: "sp_entry (Suc 0) 0x000003b4 = 0x84410000"
    by (simp add: sp_entry_def m1 p1)
  have m2: "m_sbox_value invert_sboxes 2 37 47 = 202"
    by (simp add: m_sbox_eval)
  have p2: "psbox_entry (un_pbox des_tables) 2 202 = 0x11240000"
    by (simp add: psbox_eval)
  have s2: "sp_entry 2 0x0000096f = 0x11240000"
    by (simp add: sp_entry_def m2 p2)
  have m3: "m_sbox_value invert_sboxes 3 37 5 = 221"
    by (simp add: m_sbox_eval)
  have p3: "psbox_entry (un_pbox des_tables) 3 221 = 0x0a100821"
    by (simp add: psbox_eval)
  have s3: "sp_entry 3 0x00000945 = 0x0a100821"
    by (simp add: sp_entry_def m3 p3)
  show ?thesis
    by (simp add: round_ref_def assms e s0 s1 s2 s3)
qed

lemma cv_first_round_6:
  assumes "saltbits c = 0" "en_keysl c ! 6 = 0x006c0495" "en_keysr c ! 6 = 0x000ae4c6"
  shows "round_ref c 6
     \<lparr>reg_l = 0x10d55380, reg_r = 0xe90739fd, reg_f = 0xe90739fd, rounds_run = 6, reps_run = 0\<rparr> =
   \<lparr>reg_l = 0xe90739fd, reg_r = 0x572337f0, reg_f = 0x572337f0, rounds_run = 7, reps_run = 0\<rparr>"
proof -
  have e: "expand_l 0xe90739fd = 0x00f5280e" "expand_r 0xe90739fd = 0x009f3ffb"
    by (simp_all add: expand_l_def expand_r_def)
  have m0: "m_sbox_value invert_sboxes 0 38 18 = 135"
    by (simp add: m_sbox_eval)
  have p0: "psbox_entry (un_pbox des_tables) 0 135 = 0x40804010"
    by (simp add: psbox_eval)
  have s0: "sp_entry 0 0x00000992 = 0x40804010"
    by (simp add: sp_entry_def m0 p0)
  have m1: "m_sbox_value invert_sboxes (Suc 0) 50 27 = 26"
    by (simp add: m_sbox_eval)
  have p1: "psbox_entry (un_pbox des_tables) (Suc 0) 26 = 0x04400040"
    by (simp add: psbox_eval)
  have s1: "sp_entry (Suc 0) 0x00000c9b = 0x04400040"
    by (simp add: sp_entry_def m1 p1)
  have m2: "m_sbox_value invert_sboxes 2 37 29 = 195"
    by (simp add: m_sbox_eval)
  have p2: "psbox_entry (un_pbox des_tables) 2 195 = 0x01242000"
    by (simp add: psbox_eval)
  have s2: "sp_entry 2 0x0000095d = 0x01242000"
    by (simp add: sp_entry_def m2 p2)
  have m3: "m_sbox_value invert_sboxes 3 44 61 = 118"
    by (simp add: m_sbox_eval)
  have p3: "psbox_entry (un_pbox des_tables) 3 118 = 0x02120420"
    by (simp add: psbox_eval)
  have s3: "sp_entry 3 0x00000b3d = 0x02120420"
    by (simp add: sp_entry_def m3 p3)
  show ?thesis
    by (simp add: round_ref_def assms e s0 s1 s2 s3)
qed

lemma cv_first_round_7:
  assumes "saltbits c = 0" "en_keysl c ! 7 = 0x00578838" "en_keysr c ! 7 = 0x006ce581"
  shows "round_ref c 7
     \<lparr>reg_l = 0xe90739fd, reg_r = 0x572337f0, reg_f = 0x572337f0, rounds_run = 7, reps_run = 0\<rparr> =
   \<lparr>reg_l = 0x572337f0, reg_r = 0xcd9968e4, reg_f = 0xcd9968e4, rounds_run = 8, reps_run = 0\<rparr>"
proof -
  have e: "expand_l 0x572337f0 = 0x002ae906" "expand_r 0x572337f0 = 0x009affa0"
    by (simp_all add: expand_l_def expand_r_def)
  have m0: "m_sbox_value invert_sboxes 0 31 22 = 141"
    by (simp add: m_sbox_eval)
  have p0: "psbox_entry (un_pbox des_tables) 0 141 = 0x00884010"
    by (simp add: psbox_eval)
  have s0: "sp_entry 0 0x000007d6 = 0x00884010"
    by (simp add: sp_entry_def m0 p0)
  have m1: "m_sbox_value invert_sboxes (Suc 0) 4 62 = 148"
    by (simp add: m_sbox_eval)
  have p1: "psbox_entry (un_pbox des_tables) (Suc 0) 148 = 0x04001100"
    by (simp add: psbox_eval)
  have s1: "sp_entry (Suc 0) 0x0000013e = 0x04001100"
    by (simp add: sp_entry_def m1 p1)
  have m2: "m_sbox_value invert_sboxes 2 61 33 = 84"
    by (simp add: m_sbox_eval)
  have p2: "psbox_entry (un_pbox des_tables) 2 84 = 0x20040008"
    by (simp add: psbox_eval)
  have s2: "sp_entry 2 0x00000f61 = 0x20040008"
    by (simp add: sp_entry_def m2 p2)
  have m3: "m_sbox_value invert_sboxes 3 40 33 = 194"
    by (simp add: m_sbox_eval)
  have p3: "psbox_entry (un_pbox des_tables) 3 194 = 0x00120001"
    by (simp add: psbox_eval)
  have s3: "sp_entry 3 0x00000a21 = 0x00120001"
    by (simp add: sp_entry_def m3 p3)
  show ?thesis
    by (simp add: round_ref_def assms e s0 s1 s2 s3)
qed

lemma cv_first_round_8:
  assumes "saltbits c = 0" "en_keysl c ! 8 = 0x00c0c9e9" "en_keysr c ! 8 = 0x0026b839"
  shows "round_ref c 8
     \<lparr>reg_l = 0x572337f0, reg_r = 0xcd9968e4, reg_f = 0xcd9968e4, rounds_run = 8, reps_run = 0\<rparr> =
   \<lparr>reg_l = 0xcd9968e4, reg_r = 0x256a96b9, reg_f = 0x256a96b9, rounds_run = 9, reps_run = 0\<rparr>"
proof -
  have e: "expand_l 0xcd9968e4 = 0x0065bcf2" "expand_r 0xcd9968e4 = 0x00b51709"
    by (simp_all add: expand_l_def expand_r_def)
  have m0: "m_sbox_value invert_sboxes 0 41 23 = 74"
    by (simp add: m_sbox_eval)
  have p0: "psbox_entry (un_pbox des_tables) 0 74 = 0x40088000"
    by (simp add: psbox_eval)
  have s0: "sp_entry 0 0x00000a57 = 0x40088000"
    by (simp add: sp_entry_def m0 p0)
  have m1: "m_sbox_value invert_sboxes (Suc 0) 20 27 = 202"
    by (simp add: m_sbox_eval)
  have p1: "psbox_entry (un_pbox des_tables) (Suc 0) 202 = 0x00410140"
    by (simp add: psbox_eval)
  have s1: "sp_entry (Suc 0) 0x0000051b = 0x00410140"
    by (simp add: sp_entry_def m1 p1)
  have m2: "m_sbox_value invert_sboxes 2 36 58 = 29"
    by (simp add: m_sbox_eval)
  have p2: "psbox_entry (un_pbox des_tables) 2 29 = 0x30002008"
    by (simp add: psbox_eval)
  have s2: "sp_entry 2 0x0000093a = 0x30002008"
    by (simp add: sp_entry_def m2 p2)
  have m3: "m_sbox_value invert_sboxes 3 60 48 = 144"
    by (simp add: m_sbox_eval)
  have p3: "psbox_entry (un_pbox des_tables) 3 144 = 0x02000001"
    by (simp add: psbox_eval)
  have s3: "sp_entry 3 0x00000f30 = 0x02000001"
    by (simp add: sp_entry_def m3 p3)
  show ?thesis
    by (simp add: round_ref_def assms e s0 s1 s2 s3)
qed

lemma cv_first_round_9:
  assumes "saltbits c = 0" "en_keysl c ! 9 = 0x0091e307" "en_keysr c ! 9 = 0x00631d72"
  shows "round_ref c 9
     \<lparr>reg_l = 0xcd9968e4, reg_r = 0x256a96b9, reg_f = 0x256a96b9, rounds_run = 9, reps_run = 0\<rparr> =
   \<lparr>reg_l = 0x256a96b9, reg_r = 0x8049c24c, reg_f = 0x8049c24c, rounds_run = 10, reps_run = 0\<rparr>"
proof -
  have e: "expand_l 0x256a96b9 = 0x0090ab55" "expand_r 0x256a96b9 = 0x004ad5f2"
    by (simp_all add: expand_l_def expand_r_def)
  have m0: "m_sbox_value invert_sboxes 0 0 20 = 226"
    by (simp add: m_sbox_eval)
  have p0: "psbox_entry (un_pbox des_tables) 0 226 = 0x40808200"
    by (simp add: psbox_eval)
  have s0: "sp_entry 0 0x00000014 = 0x40808200"
    by (simp add: sp_entry_def m0 p0)
  have m1: "m_sbox_value invert_sboxes (Suc 0) 33 18 = 18"
    by (simp add: m_sbox_eval)
  have p1: "psbox_entry (un_pbox des_tables) (Suc 0) 18 = 0x04400000"
    by (simp add: psbox_eval)
  have s1: "sp_entry (Suc 0) 0x00000852 = 0x04400000"
    by (simp add: sp_entry_def m1 p1)
  have m2: "m_sbox_value invert_sboxes 2 10 28 = 165"
    by (simp add: m_sbox_eval)
  have p2: "psbox_entry (un_pbox des_tables) 2 165 = 0x01002088"
    by (simp add: psbox_eval)
  have s2: "sp_entry 2 0x0000029c = 0x01002088"
    by (simp add: sp_entry_def m2 p2)
  have m3: "m_sbox_value invert_sboxes 3 34 0 = 77"
    by (simp add: m_sbox_eval)
  have p3: "psbox_entry (un_pbox des_tables) 3 77 = 0x08100820"
    by (simp add: psbox_eval)
  have s3: "sp_entry 3 0x00000880 = 0x08100820"
    by (simp add: sp_entry_def m3 p3)
  show ?thesis
    by (simp add: round_ref_def assms e s0 s1 s2 s3)
qed

lemma cv_first_round_10:
  assumes "saltbits c = 0" "en_keysl c ! 10 = 0x00211f83" "en_keysr c ! 10 = 0x000d893a"
  shows "round_ref c 10
     \<lparr>reg_l = 0x256a96b9, reg_r = 0x8049c24c, reg_f = 0x8049c24c, rounds_run = 10, reps_run = 0\<rparr> =
   \<lparr>reg_l = 0x8049c24c, reg_r = 0xa1663aa6, reg_f = 0xa1663aa6, rounds_run = 11, reps_run = 0\<rparr>"
proof -
  have e: "expand_l 0x8049c24c = 0x00400253" "expand_r 0x8049c24c = 0x00e04259"
    by (simp_all add: expand_l_def expand_r_def)
  have m0: "m_sbox_value invert_sboxes 0 24 17 = 92"
    by (simp add: m_sbox_eval)
  have p0: "psbox_entry (un_pbox des_tables) 0 92 = 0x00088012"
    by (simp add: psbox_eval)
  have s0: "sp_entry 0 0x00000611 = 0x00088012"
    by (simp add: sp_entry_def m0 p0)
  have m1: "m_sbox_value invert_sboxes (Suc 0) 55 16 = 49"
    by (simp add: m_sbox_eval)
  have p1: "psbox_entry (un_pbox des_tables) (Suc 0) 49 = 0x84000004"
    by (simp add: psbox_eval)
  have s1: "sp_entry (Suc 0) 0x00000dd0 = 0x84000004"
    by (simp add: sp_entry_def m1 p1)
  have m2: "m_sbox_value invert_sboxes 2 59 28 = 69"
    by (simp add: m_sbox_eval)
  have p2: "psbox_entry (un_pbox des_tables) 2 69 = 0x00042008"
    by (simp add: psbox_eval)
  have s2: "sp_entry 2 0x00000edc = 0x00042008"
    by (simp add: sp_entry_def m2 p2)
  have m3: "m_sbox_value invert_sboxes 3 45 35 = 161"
    by (simp add: m_sbox_eval)
  have p3: "psbox_entry (un_pbox des_tables) 3 161 = 0x00000c01"
    by (simp add: psbox_eval)
  have s3: "sp_entry 3 0x00000b63 = 0x00000c01"
    by (simp add: sp_entry_def m3 p3)
  show ?thesis
    by (simp add: round_ref_def assms e s0 s1 s2 s3)
qed

lemma cv_first_round_11:
  assumes "saltbits c = 0" "en_keysl c ! 11 = 0x007130e5" "en_keysr c ! 11 = 0x00455c54"
  shows "round_ref c 11
     \<lparr>reg_l = 0x8049c24c, reg_r = 0xa1663aa6, reg_f = 0xa1663aa6, rounds_run = 11, reps_run = 0\<rparr> =
   \<lparr>reg_l = 0xa1663aa6, reg_r = 0xb714e099, reg_f = 0xb714e099, rounds_run = 12, reps_run = 0\<rparr>"
proof -
  have e: "expand_l 0xa1663aa6 = 0x00502b0c" "expand_r 0xa1663aa6 = 0x001f550d"
    by (simp_all add: expand_l_def expand_r_def)
  have m0: "m_sbox_value invert_sboxes 0 8 17 = 44"
    by (simp add: m_sbox_eval)
  have p0: "psbox_entry (un_pbox des_tables) 0 44 = 0x00080210"
    by (simp add: psbox_eval)
  have s0: "sp_entry 0 0x00000211 = 0x00080210"
    by (simp add: sp_entry_def m0 p0)
  have m1: "m_sbox_value invert_sboxes (Suc 0) 47 41 = 122"
    by (simp add: m_sbox_eval)
  have p1: "psbox_entry (un_pbox des_tables) (Suc 0) 122 = 0x04410044"
    by (simp add: psbox_eval)
  have s1: "sp_entry (Suc 0) 0x00000be9 = 0x04410044"
    by (simp add: sp_entry_def m1 p1)
  have m2: "m_sbox_value invert_sboxes 2 22 32 = 249"
    by (simp add: m_sbox_eval)
  have p2: "psbox_entry (un_pbox des_tables) 2 249 = 0x31042080"
    by (simp add: psbox_eval)
  have s2: "sp_entry 2 0x000005a0 = 0x31042080"
    by (simp add: sp_entry_def m2 p2)
  have m3: "m_sbox_value invert_sboxes 3 37 25 = 208"
    by (simp add: m_sbox_eval)
  have p3: "psbox_entry (un_pbox des_tables) 3 208 = 0x02100001"
    by (simp add: psbox_eval)
  have s3: "sp_entry 3 0x00000959 = 0x02100001"
    by (simp add: sp_entry_def m3 p3)
  show ?thesis
    by (simp add: round_ref_def assms e s0 s1 s2 s3)
qed

lemma cv_first_round_12:
  assumes "saltbits c = 0" "en_keysl c ! 12 = 0x0091c4d0" "en_keysr c ! 12 = 0x004980fc"
  shows "round_ref c 12
     \<lparr>reg_l = 0xa1663aa6, reg_r = 0xb714e099, reg_f = 0xb714e099, rounds_run = 12, reps_run = 0\<rparr> =
   \<lparr>reg_l = 0xb714e099, reg_r = 0xa3eb2c46, reg_f = 0xa3eb2c46, rounds_run = 13, reps_run = 0\<rparr>"
proof -
  have e: "expand_l 0xb714e099 = 0x00dae8a9" "expand_r 0xb714e099 = 0x007014f3"
    by (simp_all add: expand_l_def expand_r_def)
  have m0: "m_sbox_value invert_sboxes 0 18 50 = 168"
    by (simp add: m_sbox_eval)
  have p0: "psbox_entry (un_pbox des_tables) 0 168 = 0x00880200"
    by (simp add: psbox_eval)
  have s0: "sp_entry 0 0x000004b2 = 0x00880200"
    by (simp add: sp_entry_def m0 p0)
  have m1: "m_sbox_value invert_sboxes (Suc 0) 49 57 = 76"
    by (simp add: m_sbox_eval)
  have p1: "psbox_entry (un_pbox des_tables) (Suc 0) 76 = 0x00011040"
    by (simp add: psbox_eval)
  have s1: "sp_entry (Suc 0) 0x00000c79 = 0x00011040"
    by (simp add: sp_entry_def m1 p1)
  have m2: "m_sbox_value invert_sboxes 2 14 25 = 96"
    by (simp add: m_sbox_eval)
  have p2: "psbox_entry (un_pbox des_tables) 2 96 = 0x00040080"
    by (simp add: psbox_eval)
  have s2: "sp_entry 2 0x00000399 = 0x00040080"
    by (simp add: sp_entry_def m2 p2)
  have m3: "m_sbox_value invert_sboxes 3 16 15 = 52"
    by (simp add: m_sbox_eval)
  have p3: "psbox_entry (un_pbox des_tables) 3 52 = 0x02000420"
    by (simp add: psbox_eval)
  have s3: "sp_entry 3 0x0000040f = 0x02000420"
    by (simp add: sp_entry_def m3 p3)
  show ?thesis
    by (simp add: round_ref_def assms e s0 s1 s2 s3)
qed

lemma cv_first_round_13:
  assumes "saltbits c = 0" "en_keysl c ! 13 = 0x005443b6" "en_keysr c ! 13 = 0x0081dc8d"
  shows "round_ref c 13
     \<lparr>reg_l = 0xb714e099, reg_r = 0xa3eb2c46, reg_f = 0xa3eb2c46, rounds_run = 13, reps_run = 0\<rparr> =
   \<lparr>reg_l = 0xa3eb2c46, reg_r = 0xb94da965, reg_f = 0xb94da965, rounds_run = 14, reps_run = 0\<rparr>"
proof -
  have e: "expand_l 0xa3eb2c46 = 0x00507f56" "expand_r 0xa3eb2c46 = 0x0095820d"
    by (simp_all add: expand_l_def expand_r_def)
  have m0: "m_sbox_value invert_sboxes 0 (Suc 0) 3 = 13"
    by (simp add: m_sbox_eval)
  have p0: "psbox_entry (un_pbox des_tables) 0 13 = 0x00084010"
    by (simp add: psbox_eval)
  have s0: "sp_entry 0 0x00000043 = 0x00084010"
    by (simp add: sp_entry_def m0 p0)
  have m1: "m_sbox_value invert_sboxes (Suc 0) 51 32 = 250"
    by (simp add: m_sbox_eval)
  have p1: "psbox_entry (un_pbox des_tables) (Suc 0) 250 = 0x04410144"
    by (simp add: psbox_eval)
  have s1: "sp_entry (Suc 0) 0x00000ce0 = 0x04410144"
    by (simp add: sp_entry_def m1 p1)
  have m2: "m_sbox_value invert_sboxes 2 5 5 = 36"
    by (simp add: m_sbox_eval)
  have p2: "psbox_entry (un_pbox des_tables) 2 36 = 0x00000088"
    by (simp add: psbox_eval)
  have s2: "sp_entry 2 0x00000145 = 0x00000088"
    by (simp add: sp_entry_def m2 p2)
  have m3: "m_sbox_value invert_sboxes 3 58 0 = 93"
    by (simp add: m_sbox_eval)
  have p3: "psbox_entry (un_pbox des_tables) 3 93 = 0x0a100820"
    by (simp add: psbox_eval)
  have s3: "sp_entry 3 0x00000e80 = 0x0a100820"
    by (simp add: sp_entry_def m3 p3)
  show ?thesis
    by (simp add: round_ref_def assms e s0 s1 s2 s3)
qed

lemma cv_first_round_14:
  assumes "saltbits c = 0" "en_keysl c ! 14 = 0x00b69105" "en_keysr c ! 14 = 0x000a16b5"
  shows "round_ref c 14
     \<lparr>reg_l = 0xa3eb2c46, reg_r = 0xb94da965, reg_f = 0xb94da965, rounds_run = 14, reps_run = 0\<rparr> =
   \<lparr>reg_l = 0xb94da965, reg_r = 0x1a037d0d, reg_f = 0x1a037d0d, rounds_run = 15, reps_run = 0\<rparr>"
proof -
  have e: "expand_l 0xb94da965 = 0x00df2a5b" "expand_r 0xb94da965 = 0x00d52b0b"
    by (simp_all add: expand_l_def expand_r_def)
  have m0: "m_sbox_value invert_sboxes 0 26 27 = 153"
    by (simp add: m_sbox_eval)
  have p0: "psbox_entry (un_pbox des_tables) 0 153 = 0x00884002"
    by (simp add: psbox_eval)
  have s0: "sp_entry 0 0x0000069b = 0x00884002"
    by (simp add: sp_entry_def m0 p0)
  have m1: "m_sbox_value invert_sboxes (Suc 0) 45 30 = 143"
    by (simp add: m_sbox_eval)
  have p1: "psbox_entry (un_pbox des_tables) (Suc 0) 143 = 0x80401140"
    by (simp add: psbox_eval)
  have s1: "sp_entry (Suc 0) 0x00000b5e = 0x80401140"
    by (simp add: sp_entry_def m1 p1)
  have m2: "m_sbox_value invert_sboxes 2 55 51 = 158"
    by (simp add: m_sbox_eval)
  have p2: "psbox_entry (un_pbox des_tables) 2 158 = 0x31200008"
    by (simp add: psbox_eval)
  have s2: "sp_entry 2 0x00000df3 = 0x31200008"
    by (simp add: sp_entry_def m2 p2)
  have m3: "m_sbox_value invert_sboxes 3 54 62 = 136"
    by (simp add: m_sbox_eval)
  have p3: "psbox_entry (un_pbox des_tables) 3 136 = 0x08000001"
    by (simp add: psbox_eval)
  have s3: "sp_entry 3 0x00000dbe = 0x08000001"
    by (simp add: sp_entry_def m3 p3)
  show ?thesis
    by (simp add: round_ref_def assms e s0 s1 s2 s3)
qed

lemma cv_first_round_15:
  assumes "saltbits c = 0" "en_keysl c ! 15 = 0x00ca3d03" "en_keysr c ! 15 = 0x00b87032"
  shows "round_ref c 15
     \<lparr>reg_l = 0xb94da965, reg_r = 0x1a037d0d, reg_f = 0x1a037d0d, rounds_run = 15, reps_run = 0\<rparr> =
   \<lparr>reg_l = 0x1a037d0d, reg_r = 0x6091a7a1, reg_f = 0x6091a7a1, rounds_run = 16, reps_run = 0\<rparr>"
proof -
  have e: "expand_l 0x1a037d0d = 0x008f4006" "expand_r 0x1a037d0d = 0x00bfa85a"
    by (simp_all add: expand_l_def expand_r_def)
  have m0: "m_sbox_value invert_sboxes 0 17 23 = 170"
    by (simp add: m_sbox_eval)
  have p0: "psbox_entry (un_pbox des_tables) 0 170 = 0x40880200"
    by (simp add: psbox_eval)
  have s0: "sp_entry 0 0x00000457 = 0x40880200"
    by (simp add: sp_entry_def m0 p0)
  have m1: "m_sbox_value invert_sboxes (Suc 0) 52 5 = 43"
    by (simp add: m_sbox_eval)
  have p1: "psbox_entry (un_pbox des_tables) (Suc 0) 43 = 0x80400044"
    by (simp add: psbox_eval)
  have s1: "sp_entry (Suc 0) 0x00000d05 = 0x80400044"
    by (simp add: sp_entry_def m1 p1)
  have m2: "m_sbox_value invert_sboxes 2 (Suc 0) 61 = 232"
    by (simp add: m_sbox_eval)
  have p2: "psbox_entry (un_pbox des_tables) 2 232 = 0x11040080"
    by (simp add: psbox_eval)
  have s2: "sp_entry 2 0x0000007d = 0x11040080"
    by (simp add: sp_entry_def m2 p2)
  have m3: "m_sbox_value invert_sboxes 3 33 40 = 105"
    by (simp add: m_sbox_eval)
  have p3: "psbox_entry (un_pbox des_tables) 3 105 = 0x08100c00"
    by (simp add: psbox_eval)
  have s3: "sp_entry 3 0x00000868 = 0x08100c00"
    by (simp add: sp_entry_def m3 p3)
  show ?thesis
    by (simp add: round_ref_def assms e s0 s1 s2 s3)
qed

lemma cv_first_rep:
  "rep_ref
     \<lparr>saltbits = 0,
       en_keysl = [0x000b0267, 0x0069a659, 0x0045d48a, 0x007289d2,
                    0x003ce803, 0x0023251e, 0x006c0495, 0x00578838,
                    0x00c0c9e9, 0x0091e307, 0x00211f83, 0x007130e5,
                    0x0091c4d0, 0x005443b6, 0x00b69105, 0x00ca3d03],
       en_keysr = [0x009b49a5, 0x00256a26, 0x00b428d2, 0x00a58257,
                    0x0017a6c2, 0x003c8545, 0x000ae4c6, 0x006ce581,
                    0x0026b839, 0x00631d72, 0x000d893a, 0x00455c54,
                    0x004980fc, 0x0081dc8d, 0x000a16b5, 0x00b87032]\<rparr>
     \<lparr>reg_l = 0xb7a48736, reg_r = 0x00fe1327, reg_f = 0x00000000, rounds_run = 0, reps_run = 0\<rparr> =
   \<lparr>reg_l = 0x6091a7a1, reg_r = 0x1a037d0d, reg_f = 0x6091a7a1, rounds_run = 16, reps_run = (Suc 0)\<rparr>"
proof -
  have "rounds_ref
     \<lparr>saltbits = 0,
       en_keysl = [0x000b0267, 0x0069a659, 0x0045d48a, 0x007289d2,
                    0x003ce803, 0x0023251e, 0x006c0495, 0x00578838,
                    0x00c0c9e9, 0x0091e307, 0x00211f83, 0x007130e5,
                    0x0091c4d0, 0x005443b6, 0x00b69105, 0x00ca3d03],
       en_keysr = [0x009b49a5, 0x00256a26, 0x00b428d2, 0x00a58257,
                    0x0017a6c2, 0x003c8545, 0x000ae4c6, 0x006ce581,
                    0x0026b839, 0x00631d72, 0x000d893a, 0x00455c54,
                    0x004980fc, 0x0081dc8d, 0x000a16b5, 0x00b87032]\<rparr>
     16 0 \<lparr>reg_l = 0xb7a48736, reg_r = 0x00fe1327, reg_f = 0x00000000, rounds_run = 0, reps_run = 0\<rparr> =
   \<lparr>reg_l = 0x1a037d0d, reg_r = 0x6091a7a1, reg_f = 0x6091a7a1, rounds_run = 16, reps_run = 0\<rparr>"
    by (simp add: rounds_ref_fold upt16 cv_first_round_0 cv_first_round_1 cv_first_round_2 cv_first_round_3 cv_first_round_4 cv_first_round_5 cv_first_round_6 cv_first_round_7 cv_first_round_8 cv_first_round_9 cv_first_round_10 cv_first_round_11 cv_first_round_12 cv_first_round_13 cv_first_round_14 cv_first_round_15)
  then show ?thesis
    by (simp add: rep_ref_def)
qed

lemma cv_first_fp:
  "fp_words \<lparr>reg_l = 0x6091a7a1, reg_r = 0x1a037d0d, reg_f = 0x6091a7a1, rounds_run = 16, reps_run = (Suc 0)\<rparr> =
     (0x3fa40e8a, 0x984d4815)"
proof -
  have f0: "fpl 0 96 = 0x00000000" "fpr 0 96 = 0x00404000"
    by (simp_all add: fp_eval)
  have f1: "fpl (Suc 0) 145 = 0x10000000" "fpr (Suc 0) 145 = 0x10000010"
    by (simp_all add: fp_eval)
  have f2: "fpl 2 167 = 0x04040400" "fpr 2 167 = 0x00040004"
    by (simp_all add: fp_eval)
  have f3: "fpl 3 161 = 0x01000000" "fpr 3 161 = 0x00010001"
    by (simp_all add: fp_eval)
  have f4: "fpl 4 26 = 0x00800080" "fpr 4 26 = 0x80000000"
    by (simp_all add: fp_eval)
  have f5: "fpl 5 3 = 0x20200000" "fpr 5 3 = 0x00000000"
    by (simp_all add: fp_eval)
  have f6: "fpl 6 125 = 0x08000808" "fpr 6 125 = 0x08080800"
    by (simp_all add: fp_eval)
  have f7: "fpl 7 13 = 0x02000202" "fpr 7 13 = 0x00000000"
    by (simp_all add: fp_eval)
  show ?thesis
    by (simp add: fp_words_def byte_index_def or8_def f0 f1 f2 f3 f4 f5 f6 f7)
qed

text \<open>The sixteen rounds of the second repetition, and the final permutation after them.\<close>

lemma cv_second_round_0:
  assumes "saltbits c = 0" "en_keysl c ! 0 = 0x000b0267" "en_keysr c ! 0 = 0x009b49a5"
  shows "round_ref c 0
     \<lparr>reg_l = 0x6091a7a1, reg_r = 0x1a037d0d, reg_f = 0x6091a7a1, rounds_run = 16, reps_run = (Suc 0)\<rparr> =
   \<lparr>reg_l = 0x1a037d0d, reg_r = 0xfe4f29a7, reg_f = 0xfe4f29a7, rounds_run = 17, reps_run = (Suc 0)\<rparr>"
proof -
  have e: "expand_l 0x1a037d0d = 0x008f4006" "expand_r 0x1a037d0d = 0x00bfa85a"
    by (simp_all add: expand_l_def expand_r_def)
  have m0: "m_sbox_value invert_sboxes 0 33 4 = 248"
    by (simp add: m_sbox_eval)
  have p0: "psbox_entry (un_pbox des_tables) 0 248 = 0x00888202"
    by (simp add: psbox_eval)
  have s0: "sp_entry 0 0x00000844 = 0x00888202"
    by (simp add: sp_entry_def m0 p0)
  have m1: "m_sbox_value invert_sboxes (Suc 0) 9 33 = 51"
    by (simp add: m_sbox_eval)
  have p1: "psbox_entry (un_pbox des_tables) (Suc 0) 51 = 0x84400004"
    by (simp add: psbox_eval)
  have s1: "sp_entry (Suc 0) 0x00000261 = 0x84400004"
    by (simp add: sp_entry_def m1 p1)
  have m2: "m_sbox_value invert_sboxes 2 9 14 = 72"
    by (simp add: m_sbox_eval)
  have p2: "psbox_entry (un_pbox des_tables) 2 72 = 0x10040000"
    by (simp add: psbox_eval)
  have s2: "sp_entry 2 0x0000024e = 0x10040000"
    by (simp add: sp_entry_def m2 p2)
  have m3: "m_sbox_value invert_sboxes 3 7 63 = 123"
    by (simp add: m_sbox_eval)
  have p3: "psbox_entry (un_pbox des_tables) 3 123 = 0x0a120c00"
    by (simp add: psbox_eval)
  have s3: "sp_entry 3 0x000001ff = 0x0a120c00"
    by (simp add: sp_entry_def m3 p3)
  show ?thesis
    by (simp add: round_ref_def assms e s0 s1 s2 s3)
qed

lemma cv_second_round_1:
  assumes "saltbits c = 0" "en_keysl c ! (Suc 0) = 0x0069a659" "en_keysr c ! (Suc 0) = 0x00256a26"
  shows "round_ref c (Suc 0)
     \<lparr>reg_l = 0x1a037d0d, reg_r = 0xfe4f29a7, reg_f = 0xfe4f29a7, rounds_run = 17, reps_run = (Suc 0)\<rparr> =
   \<lparr>reg_l = 0xfe4f29a7, reg_r = 0xfe9f29a5, reg_f = 0xfe9f29a5, rounds_run = 18, reps_run = (Suc 0)\<rparr>"
proof -
  have e: "expand_l 0xfe4f29a7 = 0x00ffc25e" "expand_r 0xfe4f29a7 = 0x00953d0f"
    by (simp_all add: expand_l_def expand_r_def)
  have m0: "m_sbox_value invert_sboxes 0 37 38 = 139"
    by (simp add: m_sbox_eval)
  have p0: "psbox_entry (un_pbox des_tables) 0 139 = 0x40884000"
    by (simp add: psbox_eval)
  have s0: "sp_entry 0 0x00000966 = 0x40884000"
    by (simp add: sp_entry_def m0 p0)
  have m1: "m_sbox_value invert_sboxes (Suc 0) 16 7 = 21"
    by (simp add: m_sbox_eval)
  have p1: "psbox_entry (un_pbox des_tables) (Suc 0) 21 = 0x84001000"
    by (simp add: psbox_eval)
  have s1: "sp_entry (Suc 0) 0x00000407 = 0x84001000"
    by (simp add: sp_entry_def m1 p1)
  have m2: "m_sbox_value invert_sboxes 2 44 5 = 116"
    by (simp add: m_sbox_eval)
  have p2: "psbox_entry (un_pbox des_tables) 2 116 = 0x20040088"
    by (simp add: psbox_eval)
  have s2: "sp_entry 2 0x00000b05 = 0x20040088"
    by (simp add: sp_entry_def m2 p2)
  have m3: "m_sbox_value invert_sboxes 3 28 41 = 100"
    by (simp add: m_sbox_eval)
  have p3: "psbox_entry (un_pbox des_tables) 3 100 = 0x00100420"
    by (simp add: psbox_eval)
  have s3: "sp_entry 3 0x00000729 = 0x00100420"
    by (simp add: sp_entry_def m3 p3)
  show ?thesis
    by (simp add: round_ref_def assms e s0 s1 s2 s3)
qed

lemma cv_second_round_2:
  assumes "saltbits c = 0" "en_keysl c ! 2 = 0x0045d48a" "en_keysr c ! 2 = 0x00b428d2"
  shows "round_ref c 2
     \<lparr>reg_l = 0xfe4f29a7, reg_r = 0xfe9f29a5, reg_f = 0xfe9f29a5, rounds_run = 18, reps_run = (Suc 0)\<rparr> =
   \<lparr>reg_l = 0xfe9f29a5, reg_r = 0x5aba2a2c, reg_f = 0x5aba2a2c, rounds_run = 19, reps_run = (Suc 0)\<rparr>"
proof -
  have e: "expand_l 0xfe9f29a5 = 0x00ffd4fe" "expand_r 0xfe9f29a5 = 0x00953d0b"
    by (simp_all add: expand_l_def expand_r_def)
  have m0: "m_sbox_value invert_sboxes 0 46 32 = 176"
    by (simp add: m_sbox_eval)
  have p0: "psbox_entry (un_pbox des_tables) 0 176 = 0x00800202"
    by (simp add: psbox_eval)
  have s0: "sp_entry 0 0x00000ba0 = 0x00800202"
    by (simp add: sp_entry_def m0 p0)
  have m1: "m_sbox_value invert_sboxes (Suc 0) (Suc 0) 52 = 211"
    by (simp add: m_sbox_eval)
  have p1: "psbox_entry (un_pbox des_tables) (Suc 0) 211 = 0x84410100"
    by (simp add: psbox_eval)
  have s1: "sp_entry (Suc 0) 0x00000074 = 0x84410100"
    by (simp add: sp_entry_def m1 p1)
  have m2: "m_sbox_value invert_sboxes 2 8 17 = 118"
    by (simp add: m_sbox_eval)
  have p2: "psbox_entry (un_pbox des_tables) 2 118 = 0x20240088"
    by (simp add: psbox_eval)
  have s2: "sp_entry 2 0x00000211 = 0x20240088"
    by (simp add: sp_entry_def m2 p2)
  have m3: "m_sbox_value invert_sboxes 3 23 25 = 192"
    by (simp add: m_sbox_eval)
  have p3: "psbox_entry (un_pbox des_tables) 3 192 = 0x00100001"
    by (simp add: psbox_eval)
  have s3: "sp_entry 3 0x000005d9 = 0x00100001"
    by (simp add: sp_entry_def m3 p3)
  show ?thesis
    by (simp add: round_ref_def assms e s0 s1 s2 s3)
qed

lemma cv_second_round_3:
  assumes "saltbits c = 0" "en_keysl c ! 3 = 0x007289d2" "en_keysr c ! 3 = 0x00a58257"
  shows "round_ref c 3
     \<lparr>reg_l = 0xfe9f29a5, reg_r = 0x5aba2a2c, reg_f = 0x5aba2a2c, rounds_run = 19, reps_run = (Suc 0)\<rparr> =
   \<lparr>reg_l = 0x5aba2a2c, reg_r = 0x9a336a0a, reg_f = 0x9a336a0a, rounds_run = 20, reps_run = (Suc 0)\<rparr>"
proof -
  have e: "expand_l 0x5aba2a2c = 0x002f55f4" "expand_r 0x5aba2a2c = 0x00154158"
    by (simp_all add: expand_l_def expand_r_def)
  have m0: "m_sbox_value invert_sboxes 0 23 29 = 187"
    by (simp add: m_sbox_eval)
  have p0: "psbox_entry (un_pbox des_tables) 0 187 = 0x40884202"
    by (simp add: psbox_eval)
  have s0: "sp_entry 0 0x000005dd = 0x40884202"
    by (simp add: sp_entry_def m0 p0)
  have m1: "m_sbox_value invert_sboxes (Suc 0) 48 38 = 176"
    by (simp add: m_sbox_eval)
  have p1: "psbox_entry (un_pbox des_tables) (Suc 0) 176 = 0x04000104"
    by (simp add: psbox_eval)
  have s1: "sp_entry (Suc 0) 0x00000c26 = 0x04000104"
    by (simp add: sp_entry_def m1 p1)
  have m2: "m_sbox_value invert_sboxes 2 44 12 = 118"
    by (simp add: m_sbox_eval)
  have p2: "psbox_entry (un_pbox des_tables) 2 118 = 0x20240088"
    by (simp add: psbox_eval)
  have s2: "sp_entry 2 0x00000b0c = 0x20240088"
    by (simp add: sp_entry_def m2 p2)
  have m3: "m_sbox_value invert_sboxes 3 12 15 = 132"
    by (simp add: m_sbox_eval)
  have p3: "psbox_entry (un_pbox des_tables) 3 132 = 0x00000021"
    by (simp add: psbox_eval)
  have s3: "sp_entry 3 0x0000030f = 0x00000021"
    by (simp add: sp_entry_def m3 p3)
  show ?thesis
    by (simp add: round_ref_def assms e s0 s1 s2 s3)
qed

lemma cv_second_round_4:
  assumes "saltbits c = 0" "en_keysl c ! 4 = 0x003ce803" "en_keysr c ! 4 = 0x0017a6c2"
  shows "round_ref c 4
     \<lparr>reg_l = 0x5aba2a2c, reg_r = 0x9a336a0a, reg_f = 0x9a336a0a, rounds_run = 20, reps_run = (Suc 0)\<rparr> =
   \<lparr>reg_l = 0x9a336a0a, reg_r = 0x179847ad, reg_f = 0x179847ad, rounds_run = 21, reps_run = (Suc 0)\<rparr>"
proof -
  have e: "expand_l 0x9a336a0a = 0x004f41a6" "expand_r 0x9a336a0a = 0x00b54055"
    by (simp_all add: expand_l_def expand_r_def)
  have m0: "m_sbox_value invert_sboxes 0 28 58 = 3"
    by (simp add: m_sbox_eval)
  have p0: "psbox_entry (un_pbox des_tables) 0 3 = 0x40004000"
    by (simp add: psbox_eval)
  have s0: "sp_entry 0 0x0000073a = 0x40004000"
    by (simp add: sp_entry_def m0 p0)
  have m1: "m_sbox_value invert_sboxes (Suc 0) 38 37 = 144"
    by (simp add: m_sbox_eval)
  have p1: "psbox_entry (un_pbox des_tables) (Suc 0) 144 = 0x04000100"
    by (simp add: psbox_eval)
  have s1: "sp_entry (Suc 0) 0x000009a5 = 0x04000100"
    by (simp add: sp_entry_def m1 p1)
  have m2: "m_sbox_value invert_sboxes 2 40 46 = 163"
    by (simp add: m_sbox_eval)
  have p2: "psbox_entry (un_pbox des_tables) 2 163 = 0x01202080"
    by (simp add: psbox_eval)
  have s2: "sp_entry 2 0x00000a2e = 0x01202080"
    by (simp add: sp_entry_def m2 p2)
  have m3: "m_sbox_value invert_sboxes 3 26 23 = 171"
    by (simp add: m_sbox_eval)
  have p3: "psbox_entry (un_pbox des_tables) 3 171 = 0x08020c01"
    by (simp add: psbox_eval)
  have s3: "sp_entry 3 0x00000697 = 0x08020c01"
    by (simp add: sp_entry_def m3 p3)
  show ?thesis
    by (simp add: round_ref_def assms e s0 s1 s2 s3)
qed

lemma cv_second_round_5:
  assumes "saltbits c = 0" "en_keysl c ! 5 = 0x0023251e" "en_keysr c ! 5 = 0x003c8545"
  shows "round_ref c 5
     \<lparr>reg_l = 0x9a336a0a, reg_r = 0x179847ad, reg_f = 0x179847ad, rounds_run = 21, reps_run = (Suc 0)\<rparr> =
   \<lparr>reg_l = 0x179847ad, reg_r = 0x591db84a, reg_f = 0x591db84a, rounds_run = 22, reps_run = (Suc 0)\<rparr>"
proof -
  have e: "expand_l 0x179847ad = 0x008afcf0" "expand_r 0x179847ad = 0x0020fd5a"
    by (simp_all add: expand_l_def expand_r_def)
  have m0: "m_sbox_value invert_sboxes 0 42 29 = 107"
    by (simp add: m_sbox_eval)
  have p0: "psbox_entry (un_pbox des_tables) 0 107 = 0x4008c200"
    by (simp add: psbox_eval)
  have s0: "sp_entry 0 0x00000a9d = 0x4008c200"
    by (simp add: sp_entry_def m0 p0)
  have m1: "m_sbox_value invert_sboxes (Suc 0) 39 46 = 13"
    by (simp add: m_sbox_eval)
  have p1: "psbox_entry (un_pbox des_tables) (Suc 0) 13 = 0x80001040"
    by (simp add: psbox_eval)
  have s1: "sp_entry (Suc 0) 0x000009ee = 0x80001040"
    by (simp add: sp_entry_def m1 p1)
  have m2: "m_sbox_value invert_sboxes 2 7 7 = 194"
    by (simp add: m_sbox_eval)
  have p2: "psbox_entry (un_pbox des_tables) 2 194 = 0x01240000"
    by (simp add: psbox_eval)
  have s2: "sp_entry 2 0x000001c7 = 0x01240000"
    by (simp add: sp_entry_def m2 p2)
  have m3: "m_sbox_value invert_sboxes 3 32 31 = 18"
    by (simp add: m_sbox_eval)
  have p3: "psbox_entry (un_pbox des_tables) 3 18 = 0x02020000"
    by (simp add: psbox_eval)
  have s3: "sp_entry 3 0x0000081f = 0x02020000"
    by (simp add: sp_entry_def m3 p3)
  show ?thesis
    by (simp add: round_ref_def assms e s0 s1 s2 s3)
qed

lemma cv_second_round_6:
  assumes "saltbits c = 0" "en_keysl c ! 6 = 0x006c0495" "en_keysr c ! 6 = 0x000ae4c6"
  shows "round_ref c 6
     \<lparr>reg_l = 0x179847ad, reg_r = 0x591db84a, reg_f = 0x591db84a, rounds_run = 22, reps_run = (Suc 0)\<rparr> =
   \<lparr>reg_l = 0x591db84a, reg_r = 0x8fb179ee, reg_f = 0x8fb179ee, rounds_run = 23, reps_run = (Suc 0)\<rparr>"
proof -
  have e: "expand_l 0x591db84a = 0x002f28fb" "expand_r 0x591db84a = 0x00df0254"
    by (simp_all add: expand_l_def expand_r_def)
  have m0: "m_sbox_value invert_sboxes 0 16 50 = 56"
    by (simp add: m_sbox_eval)
  have p0: "psbox_entry (un_pbox des_tables) 0 56 = 0x00080202"
    by (simp add: psbox_eval)
  have s0: "sp_entry 0 0x00000432 = 0x00080202"
    by (simp add: sp_entry_def m0 p0)
  have m1: "m_sbox_value invert_sboxes (Suc 0) 49 46 = 77"
    by (simp add: m_sbox_eval)
  have p1: "psbox_entry (un_pbox des_tables) (Suc 0) 77 = 0x80011040"
    by (simp add: psbox_eval)
  have s1: "sp_entry (Suc 0) 0x00000c6e = 0x80011040"
    by (simp add: sp_entry_def m1 p1)
  have m2: "m_sbox_value invert_sboxes 2 53 30 = 11"
    by (simp add: m_sbox_eval)
  have p2: "psbox_entry (un_pbox des_tables) 2 11 = 0x10202000"
    by (simp add: psbox_eval)
  have s2: "sp_entry 2 0x00000d5e = 0x10202000"
    by (simp add: sp_entry_def m2 p2)
  have m3: "m_sbox_value invert_sboxes 3 26 18 = 169"
    by (simp add: m_sbox_eval)
  have p3: "psbox_entry (un_pbox des_tables) 3 169 = 0x08000c01"
    by (simp add: psbox_eval)
  have s3: "sp_entry 3 0x00000692 = 0x08000c01"
    by (simp add: sp_entry_def m3 p3)
  show ?thesis
    by (simp add: round_ref_def assms e s0 s1 s2 s3)
qed

lemma cv_second_round_7:
  assumes "saltbits c = 0" "en_keysl c ! 7 = 0x00578838" "en_keysr c ! 7 = 0x006ce581"
  shows "round_ref c 7
     \<lparr>reg_l = 0x591db84a, reg_r = 0x8fb179ee, reg_f = 0x8fb179ee, rounds_run = 23, reps_run = (Suc 0)\<rparr> =
   \<lparr>reg_l = 0x8fb179ee, reg_r = 0x4488682c, reg_f = 0x4488682c, rounds_run = 24, reps_run = (Suc 0)\<rparr>"
proof -
  have e: "expand_l 0x8fb179ee = 0x0045fda2" "expand_r 0x8fb179ee = 0x00bf3f5d"
    by (simp_all add: expand_l_def expand_r_def)
  have m0: "m_sbox_value invert_sboxes 0 4 39 = 209"
    by (simp add: m_sbox_eval)
  have p0: "psbox_entry (un_pbox des_tables) 0 209 = 0x0080c002"
    by (simp add: psbox_eval)
  have s0: "sp_entry 0 0x00000127 = 0x0080c002"
    by (simp add: sp_entry_def m0 p0)
  have m1: "m_sbox_value invert_sboxes (Suc 0) 22 26 = 124"
    by (simp add: m_sbox_eval)
  have p1: "psbox_entry (un_pbox des_tables) (Suc 0) 124 = 0x04011044"
    by (simp add: psbox_eval)
  have s1: "sp_entry (Suc 0) 0x0000059a = 0x04011044"
    by (simp add: sp_entry_def m1 p1)
  have m2: "m_sbox_value invert_sboxes 2 52 61 = 200"
    by (simp add: m_sbox_eval)
  have p2: "psbox_entry (un_pbox des_tables) 2 200 = 0x11040000"
    by (simp add: psbox_eval)
  have s2: "sp_entry 2 0x00000d3d = 0x11040000"
    by (simp add: sp_entry_def m2 p2)
  have m3: "m_sbox_value invert_sboxes 3 43 28 = 76"
    by (simp add: m_sbox_eval)
  have p3: "psbox_entry (un_pbox des_tables) 3 76 = 0x08100020"
    by (simp add: psbox_eval)
  have s3: "sp_entry 3 0x00000adc = 0x08100020"
    by (simp add: sp_entry_def m3 p3)
  show ?thesis
    by (simp add: round_ref_def assms e s0 s1 s2 s3)
qed

lemma cv_second_round_8:
  assumes "saltbits c = 0" "en_keysl c ! 8 = 0x00c0c9e9" "en_keysr c ! 8 = 0x0026b839"
  shows "round_ref c 8
     \<lparr>reg_l = 0x8fb179ee, reg_r = 0x4488682c, reg_f = 0x4488682c, rounds_run = 24, reps_run = (Suc 0)\<rparr> =
   \<lparr>reg_l = 0x4488682c, reg_r = 0x8da66abd, reg_f = 0x8da66abd, rounds_run = 25, reps_run = (Suc 0)\<rparr>"
proof -
  have e: "expand_l 0x4488682c = 0x00209450" "expand_r 0x4488682c = 0x00350158"
    by (simp_all add: expand_l_def expand_r_def)
  have m0: "m_sbox_value invert_sboxes 0 56 5 = 52"
    by (simp add: m_sbox_eval)
  have p0: "psbox_entry (un_pbox des_tables) 0 52 = 0x00000212"
    by (simp add: psbox_eval)
  have s0: "sp_entry 0 0x00000e05 = 0x00000212"
    by (simp add: sp_entry_def m0 p0)
  have m1: "m_sbox_value invert_sboxes (Suc 0) 54 57 = 204"
    by (simp add: m_sbox_eval)
  have p1: "psbox_entry (un_pbox des_tables) (Suc 0) 204 = 0x00011140"
    by (simp add: psbox_eval)
  have s1: "sp_entry (Suc 0) 0x00000db9 = 0x00011140"
    by (simp add: sp_entry_def m1 p1)
  have m2: "m_sbox_value invert_sboxes 2 4 59 = 64"
    by (simp add: m_sbox_eval)
  have p2: "psbox_entry (un_pbox des_tables) 2 64 = 0x00040000"
    by (simp add: psbox_eval)
  have s2: "sp_entry 2 0x0000013b = 0x00040000"
    by (simp add: sp_entry_def m2 p2)
  have m3: "m_sbox_value invert_sboxes 3 37 33 = 210"
    by (simp add: m_sbox_eval)
  have p3: "psbox_entry (un_pbox des_tables) 3 210 = 0x02120001"
    by (simp add: psbox_eval)
  have s3: "sp_entry 3 0x00000961 = 0x02120001"
    by (simp add: sp_entry_def m3 p3)
  show ?thesis
    by (simp add: round_ref_def assms e s0 s1 s2 s3)
qed

lemma cv_second_round_9:
  assumes "saltbits c = 0" "en_keysl c ! 9 = 0x0091e307" "en_keysr c ! 9 = 0x00631d72"
  shows "round_ref c 9
     \<lparr>reg_l = 0x4488682c, reg_r = 0x8da66abd, reg_f = 0x8da66abd, rounds_run = 25, reps_run = (Suc 0)\<rparr> =
   \<lparr>reg_l = 0x8da66abd, reg_r = 0xf97fd8f4, reg_f = 0xf97fd8f4, rounds_run = 26, reps_run = (Suc 0)\<rparr>"
proof -
  have e: "expand_l 0x8da66abd = 0x00c5bd0c" "expand_r 0x8da66abd = 0x003555fb"
    by (simp_all add: expand_l_def expand_r_def)
  have m0: "m_sbox_value invert_sboxes 0 21 5 = 196"
    by (simp add: m_sbox_eval)
  have p0: "psbox_entry (un_pbox des_tables) 0 196 = 0x00808010"
    by (simp add: psbox_eval)
  have s0: "sp_entry 0 0x00000545 = 0x00808010"
    by (simp add: sp_entry_def m0 p0)
  have m1: "m_sbox_value invert_sboxes (Suc 0) 56 11 = 95"
    by (simp add: m_sbox_eval)
  have p1: "psbox_entry (un_pbox des_tables) (Suc 0) 95 = 0x84411040"
    by (simp add: psbox_eval)
  have s1: "sp_entry (Suc 0) 0x00000e0b = 0x84411040"
    by (simp add: sp_entry_def m1 p1)
  have m2: "m_sbox_value invert_sboxes 2 21 36 = 255"
    by (simp add: m_sbox_eval)
  have p2: "psbox_entry (un_pbox des_tables) 2 255 = 0x31242088"
    by (simp add: psbox_eval)
  have s2: "sp_entry 2 0x00000564 = 0x31242088"
    by (simp add: sp_entry_def m2 p2)
  have m3: "m_sbox_value invert_sboxes 3 34 9 = 74"
    by (simp add: m_sbox_eval)
  have p3: "psbox_entry (un_pbox des_tables) 3 74 = 0x08120000"
    by (simp add: psbox_eval)
  have s3: "sp_entry 3 0x00000889 = 0x08120000"
    by (simp add: sp_entry_def m3 p3)
  show ?thesis
    by (simp add: round_ref_def assms e s0 s1 s2 s3)
qed

lemma cv_second_round_10:
  assumes "saltbits c = 0" "en_keysl c ! 10 = 0x00211f83" "en_keysr c ! 10 = 0x000d893a"
  shows "round_ref c 10
     \<lparr>reg_l = 0x8da66abd, reg_r = 0xf97fd8f4, reg_f = 0xf97fd8f4, rounds_run = 26, reps_run = (Suc 0)\<rparr> =
   \<lparr>reg_l = 0xf97fd8f4, reg_r = 0x9f3a405b, reg_f = 0x9f3a405b, rounds_run = 27, reps_run = (Suc 0)\<rparr>"
proof -
  have e: "expand_l 0xf97fd8f4 = 0x007f2bff" "expand_r 0xf97fd8f4 = 0x00ef17a9"
    by (simp_all add: expand_l_def expand_r_def)
  have m0: "m_sbox_value invert_sboxes 0 23 35 = 184"
    by (simp add: m_sbox_eval)
  have p0: "psbox_entry (un_pbox des_tables) 0 184 = 0x00880202"
    by (simp add: psbox_eval)
  have s0: "sp_entry 0 0x000005e3 = 0x00880202"
    by (simp add: sp_entry_def m0 p0)
  have m1: "m_sbox_value invert_sboxes (Suc 0) 17 60 = 40"
    by (simp add: m_sbox_eval)
  have p1: "psbox_entry (un_pbox des_tables) (Suc 0) 40 = 0x00000044"
    by (simp add: psbox_eval)
  have s1: "sp_entry (Suc 0) 0x0000047c = 0x00000044"
    by (simp add: sp_entry_def m1 p1)
  have m2: "m_sbox_value invert_sboxes 2 56 41 = 105"
    by (simp add: m_sbox_eval)
  have p2: "psbox_entry (un_pbox des_tables) 2 105 = 0x10042080"
    by (simp add: psbox_eval)
  have s2: "sp_entry 2 0x00000e29 = 0x10042080"
    by (simp add: sp_entry_def m2 p2)
  have m3: "m_sbox_value invert_sboxes 3 58 19 = 85"
    by (simp add: m_sbox_eval)
  have p3: "psbox_entry (un_pbox des_tables) 3 85 = 0x02100820"
    by (simp add: psbox_eval)
  have s3: "sp_entry 3 0x00000e93 = 0x02100820"
    by (simp add: sp_entry_def m3 p3)
  show ?thesis
    by (simp add: round_ref_def assms e s0 s1 s2 s3)
qed

lemma cv_second_round_11:
  assumes "saltbits c = 0" "en_keysl c ! 11 = 0x007130e5" "en_keysr c ! 11 = 0x00455c54"
  shows "round_ref c 11
     \<lparr>reg_l = 0xf97fd8f4, reg_r = 0x9f3a405b, reg_f = 0x9f3a405b, rounds_run = 27, reps_run = (Suc 0)\<rparr> =
   \<lparr>reg_l = 0x9f3a405b, reg_r = 0xcb6e626e, reg_f = 0xcb6e626e, rounds_run = 28, reps_run = (Suc 0)\<rparr>"
proof -
  have e: "expand_l 0x9f3a405b = 0x00cfe9f4" "expand_r 0x9f3a405b = 0x002002f7"
    by (simp_all add: expand_l_def expand_r_def)
  have m0: "m_sbox_value invert_sboxes 0 47 45 = 116"
    by (simp add: m_sbox_eval)
  have p0: "psbox_entry (un_pbox des_tables) 0 116 = 0x00008212"
    by (simp add: psbox_eval)
  have s0: "sp_entry 0 0x00000bed = 0x00008212"
    by (simp add: sp_entry_def m0 p0)
  have m1: "m_sbox_value invert_sboxes (Suc 0) 36 17 = 68"
    by (simp add: m_sbox_eval)
  have p1: "psbox_entry (un_pbox des_tables) (Suc 0) 68 = 0x00011000"
    by (simp add: psbox_eval)
  have s1: "sp_entry (Suc 0) 0x00000911 = 0x00011000"
    by (simp add: sp_entry_def m1 p1)
  have m2: "m_sbox_value invert_sboxes 2 25 21 = 61"
    by (simp add: m_sbox_eval)
  have p2: "psbox_entry (un_pbox des_tables) 2 61 = 0x30002088"
    by (simp add: psbox_eval)
  have s2: "sp_entry 2 0x00000655 = 0x30002088"
    by (simp add: sp_entry_def m2 p2)
  have m3: "m_sbox_value invert_sboxes 3 58 35 = 81"
    by (simp add: m_sbox_eval)
  have p3: "psbox_entry (un_pbox des_tables) 3 81 = 0x02100800"
    by (simp add: psbox_eval)
  have s3: "sp_entry 3 0x00000ea3 = 0x02100800"
    by (simp add: sp_entry_def m3 p3)
  show ?thesis
    by (simp add: round_ref_def assms e s0 s1 s2 s3)
qed

lemma cv_second_round_12:
  assumes "saltbits c = 0" "en_keysl c ! 12 = 0x0091c4d0" "en_keysr c ! 12 = 0x004980fc"
  shows "round_ref c 12
     \<lparr>reg_l = 0x9f3a405b, reg_r = 0xcb6e626e, reg_f = 0xcb6e626e, rounds_run = 28, reps_run = (Suc 0)\<rparr> =
   \<lparr>reg_l = 0xcb6e626e, reg_r = 0x7821a216, reg_f = 0x7821a216, rounds_run = 29, reps_run = (Suc 0)\<rparr>"
proof -
  have e: "expand_l 0xcb6e626e = 0x00656b5c" "expand_r 0xcb6e626e = 0x0030435d"
    by (simp_all add: expand_l_def expand_r_def)
  have m0: "m_sbox_value invert_sboxes 0 61 10 = 107"
    by (simp add: m_sbox_eval)
  have p0: "psbox_entry (un_pbox des_tables) 0 107 = 0x4008c200"
    by (simp add: psbox_eval)
  have s0: "sp_entry 0 0x00000f4a = 0x4008c200"
    by (simp add: sp_entry_def m0 p0)
  have m1: "m_sbox_value invert_sboxes (Suc 0) 62 12 = 121"
    by (simp add: m_sbox_eval)
  have p1: "psbox_entry (un_pbox des_tables) (Suc 0) 121 = 0x84010044"
    by (simp add: psbox_eval)
  have s1: "sp_entry (Suc 0) 0x00000f8c = 0x84010044"
    by (simp add: sp_entry_def m1 p1)
  have m2: "m_sbox_value invert_sboxes 2 30 28 = 149"
    by (simp add: m_sbox_eval)
  have p2: "psbox_entry (un_pbox des_tables) 2 149 = 0x21002008"
    by (simp add: psbox_eval)
  have s2: "sp_entry 2 0x0000079c = 0x21002008"
    by (simp add: sp_entry_def m2 p2)
  have m3: "m_sbox_value invert_sboxes 3 14 33 = 210"
    by (simp add: m_sbox_eval)
  have p3: "psbox_entry (un_pbox des_tables) 3 210 = 0x02120001"
    by (simp add: psbox_eval)
  have s3: "sp_entry 3 0x000003a1 = 0x02120001"
    by (simp add: sp_entry_def m3 p3)
  show ?thesis
    by (simp add: round_ref_def assms e s0 s1 s2 s3)
qed

lemma cv_second_round_13:
  assumes "saltbits c = 0" "en_keysl c ! 13 = 0x005443b6" "en_keysr c ! 13 = 0x0081dc8d"
  shows "round_ref c 13
     \<lparr>reg_l = 0xcb6e626e, reg_r = 0x7821a216, reg_f = 0x7821a216, rounds_run = 29, reps_run = (Suc 0)\<rparr> =
   \<lparr>reg_l = 0x7821a216, reg_r = 0x6fe476f9, reg_f = 0x6fe476f9, rounds_run = 30, reps_run = (Suc 0)\<rparr>"
proof -
  have e: "expand_l 0x7821a216 = 0x003f0103" "expand_r 0x7821a216 = 0x00d040ac"
    by (simp_all add: expand_l_def expand_r_def)
  have m0: "m_sbox_value invert_sboxes 0 26 52 = 156"
    by (simp add: m_sbox_eval)
  have p0: "psbox_entry (un_pbox des_tables) 0 156 = 0x00880012"
    by (simp add: psbox_eval)
  have s0: "sp_entry 0 0x000006b4 = 0x00880012"
    by (simp add: sp_entry_def m0 p0)
  have m1: "m_sbox_value invert_sboxes (Suc 0) 10 53 = 53"
    by (simp add: m_sbox_eval)
  have p1: "psbox_entry (un_pbox des_tables) (Suc 0) 53 = 0x84001004"
    by (simp add: psbox_eval)
  have s1: "sp_entry (Suc 0) 0x000002b5 = 0x84001004"
    by (simp add: sp_entry_def m1 p1)
  have m2: "m_sbox_value invert_sboxes 2 20 25 = 48"
    by (simp add: m_sbox_eval)
  have p2: "psbox_entry (un_pbox des_tables) 2 48 = 0x20000080"
    by (simp add: psbox_eval)
  have s2: "sp_entry 2 0x00000519 = 0x20000080"
    by (simp add: sp_entry_def m2 p2)
  have m3: "m_sbox_value invert_sboxes 3 48 33 = 162"
    by (simp add: m_sbox_eval)
  have p3: "psbox_entry (un_pbox des_tables) 3 162 = 0x00020401"
    by (simp add: psbox_eval)
  have s3: "sp_entry 3 0x00000c21 = 0x00020401"
    by (simp add: sp_entry_def m3 p3)
  show ?thesis
    by (simp add: round_ref_def assms e s0 s1 s2 s3)
qed

lemma cv_second_round_14:
  assumes "saltbits c = 0" "en_keysl c ! 14 = 0x00b69105" "en_keysr c ! 14 = 0x000a16b5"
  shows "round_ref c 14
     \<lparr>reg_l = 0x7821a216, reg_r = 0x6fe476f9, reg_f = 0x6fe476f9, rounds_run = 30, reps_run = (Suc 0)\<rparr> =
   \<lparr>reg_l = 0x6fe476f9, reg_r = 0x1780248f, reg_f = 0x1780248f, rounds_run = 31, reps_run = (Suc 0)\<rparr>"
proof -
  have e: "expand_l 0x6fe476f9 = 0x00b5ff08" "expand_r 0x6fe476f9 = 0x003ad7f2"
    by (simp_all add: expand_l_def expand_r_def)
  have m0: "m_sbox_value invert_sboxes 0 0 54 = 230"
    by (simp add: m_sbox_eval)
  have p0: "psbox_entry (un_pbox des_tables) 0 230 = 0x40808210"
    by (simp add: psbox_eval)
  have s0: "sp_entry 0 0x00000036 = 0x40808210"
    by (simp add: sp_entry_def m0 p0)
  have m1: "m_sbox_value invert_sboxes (Suc 0) 56 13 = 80"
    by (simp add: m_sbox_eval)
  have p1: "psbox_entry (un_pbox des_tables) (Suc 0) 80 = 0x04010000"
    by (simp add: psbox_eval)
  have s1: "sp_entry (Suc 0) 0x00000e0d = 0x04010000"
    by (simp add: sp_entry_def m1 p1)
  have m2: "m_sbox_value invert_sboxes 2 12 12 = 182"
    by (simp add: m_sbox_eval)
  have p2: "psbox_entry (un_pbox des_tables) 2 182 = 0x21200088"
    by (simp add: psbox_eval)
  have s2: "sp_entry 2 0x0000030c = 0x21200088"
    by (simp add: sp_entry_def m2 p2)
  have m3: "m_sbox_value invert_sboxes 3 5 7 = 184"
    by (simp add: m_sbox_eval)
  have p3: "psbox_entry (un_pbox des_tables) 3 184 = 0x0a000401"
    by (simp add: psbox_eval)
  have s3: "sp_entry 3 0x00000147 = 0x0a000401"
    by (simp add: sp_entry_def m3 p3)
  show ?thesis
    by (simp add: round_ref_def assms e s0 s1 s2 s3)
qed

lemma cv_second_round_15:
  assumes "saltbits c = 0" "en_keysl c ! 15 = 0x00ca3d03" "en_keysr c ! 15 = 0x00b87032"
  shows "round_ref c 15
     \<lparr>reg_l = 0x6fe476f9, reg_r = 0x1780248f, reg_f = 0x1780248f, rounds_run = 31, reps_run = (Suc 0)\<rparr> =
   \<lparr>reg_l = 0x1780248f, reg_r = 0x12f2319a, reg_f = 0x12f2319a, rounds_run = 32, reps_run = (Suc 0)\<rparr>"
proof -
  have e: "expand_l 0x1780248f = 0x008afc00" "expand_r 0x1780248f = 0x0010945e"
    by (simp_all add: expand_l_def expand_r_def)
  have m0: "m_sbox_value invert_sboxes 0 16 12 = 51"
    by (simp add: m_sbox_eval)
  have p0: "psbox_entry (un_pbox des_tables) 0 51 = 0x40004202"
    by (simp add: psbox_eval)
  have s0: "sp_entry 0 0x0000040c = 0x40004202"
    by (simp add: sp_entry_def m0 p0)
  have m1: "m_sbox_value invert_sboxes (Suc 0) 4 3 = 152"
    by (simp add: m_sbox_eval)
  have p1: "psbox_entry (un_pbox des_tables) (Suc 0) 152 = 0x04000140"
    by (simp add: psbox_eval)
  have s1: "sp_entry (Suc 0) 0x00000103 = 0x04000140"
    by (simp add: sp_entry_def m1 p1)
  have m2: "m_sbox_value invert_sboxes 2 42 14 = 216"
    by (simp add: m_sbox_eval)
  have p2: "psbox_entry (un_pbox des_tables) 2 216 = 0x31040000"
    by (simp add: psbox_eval)
  have s2: "sp_entry 2 0x00000a8e = 0x31040000"
    by (simp add: sp_entry_def m2 p2)
  have m3: "m_sbox_value invert_sboxes 3 17 44 = 238"
    by (simp add: m_sbox_eval)
  have p3: "psbox_entry (un_pbox des_tables) 3 238 = 0x08120421"
    by (simp add: psbox_eval)
  have s3: "sp_entry 3 0x0000046c = 0x08120421"
    by (simp add: sp_entry_def m3 p3)
  show ?thesis
    by (simp add: round_ref_def assms e s0 s1 s2 s3)
qed

lemma cv_second_rep:
  "rep_ref
     \<lparr>saltbits = 0,
       en_keysl = [0x000b0267, 0x0069a659, 0x0045d48a, 0x007289d2,
                    0x003ce803, 0x0023251e, 0x006c0495, 0x00578838,
                    0x00c0c9e9, 0x0091e307, 0x00211f83, 0x007130e5,
                    0x0091c4d0, 0x005443b6, 0x00b69105, 0x00ca3d03],
       en_keysr = [0x009b49a5, 0x00256a26, 0x00b428d2, 0x00a58257,
                    0x0017a6c2, 0x003c8545, 0x000ae4c6, 0x006ce581,
                    0x0026b839, 0x00631d72, 0x000d893a, 0x00455c54,
                    0x004980fc, 0x0081dc8d, 0x000a16b5, 0x00b87032]\<rparr>
     \<lparr>reg_l = 0x6091a7a1, reg_r = 0x1a037d0d, reg_f = 0x6091a7a1, rounds_run = 16, reps_run = (Suc 0)\<rparr> =
   \<lparr>reg_l = 0x12f2319a, reg_r = 0x1780248f, reg_f = 0x12f2319a, rounds_run = 32, reps_run = 2\<rparr>"
proof -
  have "rounds_ref
     \<lparr>saltbits = 0,
       en_keysl = [0x000b0267, 0x0069a659, 0x0045d48a, 0x007289d2,
                    0x003ce803, 0x0023251e, 0x006c0495, 0x00578838,
                    0x00c0c9e9, 0x0091e307, 0x00211f83, 0x007130e5,
                    0x0091c4d0, 0x005443b6, 0x00b69105, 0x00ca3d03],
       en_keysr = [0x009b49a5, 0x00256a26, 0x00b428d2, 0x00a58257,
                    0x0017a6c2, 0x003c8545, 0x000ae4c6, 0x006ce581,
                    0x0026b839, 0x00631d72, 0x000d893a, 0x00455c54,
                    0x004980fc, 0x0081dc8d, 0x000a16b5, 0x00b87032]\<rparr>
     16 0 \<lparr>reg_l = 0x6091a7a1, reg_r = 0x1a037d0d, reg_f = 0x6091a7a1, rounds_run = 16, reps_run = (Suc 0)\<rparr> =
   \<lparr>reg_l = 0x1780248f, reg_r = 0x12f2319a, reg_f = 0x12f2319a, rounds_run = 32, reps_run = (Suc 0)\<rparr>"
    by (simp add: rounds_ref_fold upt16 cv_second_round_0 cv_second_round_1 cv_second_round_2 cv_second_round_3 cv_second_round_4 cv_second_round_5 cv_second_round_6 cv_second_round_7 cv_second_round_8 cv_second_round_9 cv_second_round_10 cv_second_round_11 cv_second_round_12 cv_second_round_13 cv_second_round_14 cv_second_round_15)
  then show ?thesis
    by (simp add: rep_ref_def)
qed

lemma cv_second_fp:
  "fp_words \<lparr>reg_l = 0x12f2319a, reg_r = 0x1780248f, reg_f = 0x12f2319a, rounds_run = 32, reps_run = 2\<rparr> =
     (0x86d38a03, 0xd51c1033)"
proof -
  have f0: "fpl 0 18 = 0x00400000" "fpr 0 18 = 0x40000000"
    by (simp_all add: fp_eval)
  have f1: "fpl (Suc 0) 242 = 0x00100000" "fpr (Suc 0) 242 = 0x10101010"
    by (simp_all add: fp_eval)
  have f2: "fpl 2 49 = 0x04000000" "fpr 2 49 = 0x04040000"
    by (simp_all add: fp_eval)
  have f3: "fpl 3 154 = 0x00010001" "fpr 3 154 = 0x01000001"
    by (simp_all add: fp_eval)
  have f4: "fpl 4 23 = 0x80808000" "fpr 4 23 = 0x80000000"
    by (simp_all add: fp_eval)
  have f5: "fpl 5 128 = 0x00000000" "fpr 5 128 = 0x00000020"
    by (simp_all add: fp_eval)
  have f6: "fpl 6 36 = 0x00000800" "fpr 6 36 = 0x00080000"
    by (simp_all add: fp_eval)
  have f7: "fpl 7 143 = 0x02020202" "fpr 7 143 = 0x00000002"
    by (simp_all add: fp_eval)
  show ?thesis
    by (simp add: fp_words_def byte_index_def or8_def f0 f1 f2 f3 f4 f5 f6 f7)
qed

lemma cv_calls:
  "des_cipher_block des_static_init
        \<lparr>saltbits = 0, en_keysl = replicate 16 0, en_keysr = replicate 16 0\<rparr>
        [0x01, 0x23, 0x45, 0x67, 0x89, 0xAB, 0xCD, 0xEF]
        [0x4E, 0x6F, 0x77, 0x20, 0x69, 0x73, 0x20, 0x74] (replicate 8 0) 0 1 =
     Some (0, [0x3F, 0xA4, 0x0E, 0x8A, 0x98, 0x4D, 0x48, 0x15], des_tables,
           \<lparr>saltbits = 0, en_keysl = replicate 16 0, en_keysr = replicate 16 0\<rparr>)"
  "des_cipher_block des_static_init
        \<lparr>saltbits = 0, en_keysl = replicate 16 0, en_keysr = replicate 16 0\<rparr>
        [0x01, 0x23, 0x45, 0x67, 0x89, 0xAB, 0xCD, 0xEF]
        [0x4E, 0x6F, 0x77, 0x20, 0x69, 0x73, 0x20, 0x74] (replicate 8 0) 0 2 =
     Some (0, [0x86, 0xD3, 0x8A, 0x03, 0xD5, 0x1C, 0x10, 0x33], des_tables,
           \<lparr>saltbits = 0, en_keysl = replicate 16 0, en_keysr = replicate 16 0\<rparr>)"
proof -
  let ?z = "\<lparr>saltbits = 0, en_keysl = replicate 16 0, en_keysr = replicate 16 0\<rparr> :: des_ctx"
  have h: "des_reachable des_static_init" "des_ctx_wf ?z"
    by (simp_all add: des_reachable_def des_ctx_wf_def)
  have k: "unpack_block [0x01, 0x23, 0x45, 0x67, 0x89, 0xAB, 0xCD, 0xEF] = Some (0x01234567, 0x89abcdef)"
    by (simp add: unpack_block_8)
  have i: "unpack_block [0x4E, 0x6F, 0x77, 0x20, 0x69, 0x73, 0x20, 0x74] = Some (0x4e6f7720, 0x69732074)"
    by (simp add: unpack_block_8)
  have r: "replicate 8 (0 :: u8) = [0, 0, 0, 0, 0, 0, 0, 0]"
    by (simp add: numeral_eq_Suc)
  have p: "pack_block [0, 0, 0, 0, 0, 0, 0, 0] 0x3fa40e8a 0x984d4815 = Some [0x3F, 0xA4, 0x0E, 0x8A, 0x98, 0x4D, 0x48, 0x15]"
    "pack_block [0, 0, 0, 0, 0, 0, 0, 0] 0x86d38a03 0xd51c1033 = Some [0x86, 0xD3, 0x8A, 0x03, 0xD5, 0x1C, 0x10, 0x33]"
    by (simp_all add: pack_block_8)
  have c1: "(0 :: int) < 1" and c2: "(0 :: int) < 2" by simp_all
  have n2: "nat 2 = Suc (Suc 0)" by simp
  show "des_cipher_block des_static_init
        ?z
        [0x01, 0x23, 0x45, 0x67, 0x89, 0xAB, 0xCD, 0xEF]
        [0x4E, 0x6F, 0x77, 0x20, 0x69, 0x73, 0x20, 0x74] (replicate 8 0) 0 1 =
     Some (0, [0x3F, 0xA4, 0x0E, 0x8A, 0x98, 0x4D, 0x48, 0x15], des_tables, ?z)"
    unfolding des_cipher_block_success [OF h k i c1]
    by (simp add: cv_ctx cv_ip cv_first_rep cv_first_fp r p)
  show "des_cipher_block des_static_init
        ?z
        [0x01, 0x23, 0x45, 0x67, 0x89, 0xAB, 0xCD, 0xEF]
        [0x4E, 0x6F, 0x77, 0x20, 0x69, 0x73, 0x20, 0x74] (replicate 8 0) 0 2 =
     Some (0, [0x86, 0xD3, 0x8A, 0x03, 0xD5, 0x1C, 0x10, 0x33], des_tables, ?z)"
    unfolding des_cipher_block_success [OF h k i c2] n2
    by (simp add: cv_ctx cv_ip cv_first_rep cv_second_rep cv_second_fp r p)
qed

text \<open>
  With the key \<^verbatim>\<open>01 23 45 67 89 AB CD EF\<close>, the input \<^verbatim>\<open>4E 6F 77 20 69 73 20 74\<close>
  and salt 0, a call with count 1 returns 0 and stores \<^verbatim>\<open>3F A4 0E 8A 98 4D 48 15\<close>; a second call with
  count 1 on these bytes returns 0 and stores \<^verbatim>\<open>86 D3 8A 03 D5 1C 10 33\<close>; and these are the bytes
  that the call with count 2 stores.
\<close>

theorem des_count_two_as_two_calls:
  "map_option fst
     (des_cipher_block des_static_init
          \<lparr>saltbits = 0, en_keysl = replicate 16 0, en_keysr = replicate 16 0\<rparr>
          [0x01, 0x23, 0x45, 0x67, 0x89, 0xAB, 0xCD, 0xEF]
          [0x4E, 0x6F, 0x77, 0x20, 0x69, 0x73, 0x20, 0x74] (replicate 8 0) 0 1) = Some 0 \<and>
   map_option (fst \<circ> snd)
     (des_cipher_block des_static_init
          \<lparr>saltbits = 0, en_keysl = replicate 16 0, en_keysr = replicate 16 0\<rparr>
          [0x01, 0x23, 0x45, 0x67, 0x89, 0xAB, 0xCD, 0xEF]
          [0x4E, 0x6F, 0x77, 0x20, 0x69, 0x73, 0x20, 0x74] (replicate 8 0) 0 1) =
     Some [0x3F, 0xA4, 0x0E, 0x8A, 0x98, 0x4D, 0x48, 0x15] \<and>
   map_option fst
     (des_cipher_block des_tables
          \<lparr>saltbits = 0, en_keysl = replicate 16 0, en_keysr = replicate 16 0\<rparr>
          [0x01, 0x23, 0x45, 0x67, 0x89, 0xAB, 0xCD, 0xEF]
          [0x3F, 0xA4, 0x0E, 0x8A, 0x98, 0x4D, 0x48, 0x15] (replicate 8 0) 0 1) = Some 0 \<and>
   map_option (fst \<circ> snd)
     (des_cipher_block des_tables
          \<lparr>saltbits = 0, en_keysl = replicate 16 0, en_keysr = replicate 16 0\<rparr>
          [0x01, 0x23, 0x45, 0x67, 0x89, 0xAB, 0xCD, 0xEF]
          [0x3F, 0xA4, 0x0E, 0x8A, 0x98, 0x4D, 0x48, 0x15] (replicate 8 0) 0 1) =
     Some [0x86, 0xD3, 0x8A, 0x03, 0xD5, 0x1C, 0x10, 0x33] \<and>
   map_option fst
     (des_cipher_block des_static_init
          \<lparr>saltbits = 0, en_keysl = replicate 16 0, en_keysr = replicate 16 0\<rparr>
          [0x01, 0x23, 0x45, 0x67, 0x89, 0xAB, 0xCD, 0xEF]
          [0x4E, 0x6F, 0x77, 0x20, 0x69, 0x73, 0x20, 0x74] (replicate 8 0) 0 2) = Some 0 \<and>
   map_option (fst \<circ> snd)
     (des_cipher_block des_static_init
          \<lparr>saltbits = 0, en_keysl = replicate 16 0, en_keysr = replicate 16 0\<rparr>
          [0x01, 0x23, 0x45, 0x67, 0x89, 0xAB, 0xCD, 0xEF]
          [0x4E, 0x6F, 0x77, 0x20, 0x69, 0x73, 0x20, 0x74] (replicate 8 0) 0 2) =
     Some [0x86, 0xD3, 0x8A, 0x03, 0xD5, 0x1C, 0x10, 0x33]"
proof -
  let ?z = "\<lparr>saltbits = 0, en_keysl = replicate 16 0, en_keysr = replicate 16 0\<rparr> :: des_ctx"
  have h: "des_reachable des_static_init" "des_ctx_wf ?z" "des_reachable des_tables"
    "length ([0x01, 0x23, 0x45, 0x67, 0x89, 0xAB, 0xCD, 0xEF] :: u8 list) = 8"
    "length ([0x4E, 0x6F, 0x77, 0x20, 0x69, 0x73, 0x20, 0x74] :: u8 list) = 8"
    "length (replicate 8 (0 :: u8)) = 8" "length (replicate 8 (0 :: u8)) = 8"
    by (simp_all add: des_reachable_def des_ctx_wf_def)
  from des_cipher_block_twice [OF h, of 0]
  have "des_cipher_block des_tables
        ?z
        [0x01, 0x23, 0x45, 0x67, 0x89, 0xAB, 0xCD, 0xEF]
        [0x3F, 0xA4, 0x0E, 0x8A, 0x98, 0x4D, 0x48, 0x15] (replicate 8 0) 0 1 =
     Some (0, [0x86, 0xD3, 0x8A, 0x03, 0xD5, 0x1C, 0x10, 0x33], des_tables, ?z)"
    unfolding cv_calls by simp
  then show ?thesis
    by (simp add: cv_calls)
qed

subsection \<open>The context at the return\<close>


end
